theory Spec2Isabelle
  imports Main "HOL-Library.Monad_Syntax"
begin

section \<open>Data model of the communicator module\<close>

text \<open>
  The module under verification is the header that defines \<open>CommPolicy\<close>,
  \<open>CopyGatherScatter\<close>, \<open>DatatypeCommunicator\<close> and \<open>BufferedCommunicator\<close>.

  Conventions of the embedding.
  \<^item> An \<open>InterfaceInformation\<close> is the ordered list of local positions of one peer and one
    direction; \<open>info.size()\<close> is \<open>length info\<close> and \<open>info[i]\<close> is \<open>info ! i\<close>.
  \<^item> A \<open>std::map<int, V>\<close> is an association list whose keys are strictly ascending: the
    order of the list is the iteration order of the map. An \<open>Interface\<close> is such a map from
    the peer rank to the pair (send list, receive list): \<open>interfacePair->second.first\<close> is
    \<open>fst (snd interfacePair)\<close>.
  \<^item> Counts, offsets and byte sizes are natural numbers. The lengths of the lists and
    what is computed from them in \<open>size_t\<close> count elements held in memory and are taken
    to stay in the range of their machine type. The sum that the variable size calculator
    accumulates in an \<open>int\<close> is not: \<open>int\<close> is 32 bits wide, and an addition whose result
    exceeds \<open>INT_MAX\<close> has no defined result.
  \<^item> \<open>sizeof(CommPolicy<Data>::IndexedType)\<close> is the parameter \<open>sz\<close>.
  \<^item> A buffer is seen through the \<open>Type*\<close> pointer the code casts it to, as a list of
    elements; a freshly allocated buffer holds the indeterminate element \<open>u\<close>.
  \<^item> The members \<open>messageInformation_\<close>, \<open>buffers_\<close>, \<open>bufferSize_\<close> and
    \<open>interface_\<close> are the record fields \<open>messageInformation\<close>, \<open>buffers\<close>,
    \<open>bufferSize\<close> and \<open>interfaceP\<close>; \<open>start_\<close> and \<open>size_\<close> of a
    \<open>MessageInformation\<close> are \<open>mi_start\<close> (in elements) and \<open>mi_size\<close> (in bytes).
  \<^item> A function returns \<open>None\<close> where the program does not return normally: an
    \<open>assert\<close> fails, memory outside an allocated buffer is accessed, a null pointer is
    dereferenced, an array is deleted twice, a signed addition overflows, or a loop does
    not end.
\<close>

type_synonym InterfaceInformation = "nat list"

type_synonym Interface = "(int \<times> InterfaceInformation \<times> InterfaceInformation) list"

definition std_map :: "(int \<times> 'v) list \<Rightarrow> bool" where
  "std_map m = sorted_wrt (<) (map fst m)"

text \<open>\<open>std::map::insert\<close>: an element whose key is present already is not inserted.\<close>

fun map_insert :: "int \<Rightarrow> 'v \<Rightarrow> (int \<times> 'v) list \<Rightarrow> (int \<times> 'v) list" where
  "map_insert k v [] = [(k, v)]"
| "map_insert k v (e # m) =
     (if k < fst e then (k, v) # e # m
      else if k = fst e then e # m
      else e # map_insert k v m)"

definition map_find :: "(int \<times> 'v) list \<Rightarrow> int \<Rightarrow> 'v option" where
  "map_find m k = map_of m k"

text \<open>\<open>operator[]\<close> on an array: an access outside the array has no defined result.\<close>

definition at :: "'v list \<Rightarrow> nat \<Rightarrow> 'v option" where
  "at xs i = (if i < length xs then Some (xs ! i) else None)"

definition assert :: "bool \<Rightarrow> unit option" where
  "assert b = (if b then Some () else None)"

record MessageInformation =
  mi_start :: nat
  mi_size :: nat

type_synonym InformationMap = "(int \<times> MessageInformation \<times> MessageInformation) list"

record 'a BufferedCommunicator =
  messageInformation :: InformationMap
  buffers :: "'a list \<times> 'a list"
  bufferSize :: "nat \<times> nat"
  interfaceP :: "Interface option"

subsection \<open>The message passing library, as seen by one process\<close>

text \<open>
  What the calls of the message passing library return to one process during one call of
  the module is an input of the model: the rank a rank query reports, the payload that
  arrives from each peer, the request index and status of the i-th \<open>MPI_Waitany\<close>
  (\<open>None\<close> is \<open>MPI_UNDEFINED\<close>), the return code of \<open>MPI_Wait\<close> on the i-th send
  request, the return code of the i-th \<open>MPI_Waitall\<close>, and the values the other
  processes of the communicator contribute to a reduction.
\<close>

datatype mpi_code = MPI_SUCCESS | MPI_ERR_IN_STATUS | MPI_ERR_OTHER

datatype mpi_comm = MPI_COMM_WORLD | communicator

record 'a mpi_env =
  MPI_Comm_rank :: "mpi_comm \<Rightarrow> int"
  incoming :: "int \<Rightarrow> 'a list"
  MPI_Waitany :: "nat \<Rightarrow> nat option \<times> mpi_code"
  MPI_Wait :: "nat \<Rightarrow> mpi_code"
  MPI_Waitall :: "nat \<Rightarrow> mpi_code"
  peer_success :: "int list"

text \<open>\<open>MPI_Allreduce\<close> of one \<open>int\<close> with \<open>MPI_MIN\<close>, for the process contributing \<open>v\<close>.\<close>

definition MPI_Allreduce_MIN :: "int \<Rightarrow> int list \<Rightarrow> int" where
  "MPI_Allreduce_MIN v others = fold min others v"

text \<open>
  The observable calls of an exchange, in program order. \<open>Gather index local sub\<close> is the
  assignment \<open>buffer[index] = GatherScatter::gather(data, local[, sub])\<close>;
  \<open>Irecv peer start bytes\<close> and \<open>Issend peer start bytes\<close> are the \<open>MPI_BYTE\<close> requests
  posted on the slab that starts at element \<open>start\<close>; \<open>Scatter peer slot local sub\<close> is
  the call \<open>GatherScatter::scatter(data, recvBuffer[slot], local[, sub])\<close> made for the
  message of \<open>peer\<close>.
\<close>

datatype event =
    Gather nat nat "nat option"
  | Irecv int nat nat
  | Issend int nat nat
  | Waitany "nat option"
  | Scatter int nat nat "nat option"
  | Wait nat
  | Allreduce int

text \<open>Lines written to \<open>std::cerr\<close>: the rank of the process, then the peer.\<close>

datatype diagnostic = ReceiveError int int | SendError int int

subsection \<open>The buffered communicator\<close>

text \<open>The constructor: no interface, null buffers of size 0.\<close>

definition BufferedCommunicator :: "'a BufferedCommunicator" where
  "BufferedCommunicator =
     \<lparr>messageInformation = [], buffers = ([], []), bufferSize = (0, 0), interfaceP = None\<rparr>"

section \<open>Message size calculation\<close>

definition MessageSizeCalculator_SizeOne_info :: "InterfaceInformation \<Rightarrow> nat" where
  "MessageSizeCalculator_SizeOne_info info = length info"

definition MessageSizeCalculator_SizeOne :: "'d \<Rightarrow> InterfaceInformation \<Rightarrow> nat" where
  "MessageSizeCalculator_SizeOne data info = MessageSizeCalculator_SizeOne_info info"

text \<open>
  The variable size calculator adds \<open>CommPolicy<Data>::getSize(data, info[i])\<close> over the
  list, starting from \<open>entries = 0\<close>. The variable \<open>entries\<close> is an \<open>int\<close>: the addition
  \<open>entries += getSize(data, info[i])\<close> is defined when its result is at most \<open>INT_MAX\<close>.
\<close>

definition INT_MAX :: int where
  "INT_MAX = 2147483647"

fun entries_loop :: "('d \<Rightarrow> nat \<Rightarrow> nat) \<Rightarrow> 'd \<Rightarrow> InterfaceInformation \<Rightarrow> nat \<Rightarrow> nat option" where
  "entries_loop getSize data [] entries = Some entries"
| "entries_loop getSize data (local # info) entries =
     (if int (entries + getSize data local) \<le> INT_MAX
      then entries_loop getSize data info (entries + getSize data local)
      else None)"

definition MessageSizeCalculator_VariableSize ::
  "('d \<Rightarrow> nat \<Rightarrow> nat) \<Rightarrow> 'd \<Rightarrow> InterfaceInformation \<Rightarrow> nat option" where
  "MessageSizeCalculator_VariableSize getSize data info = entries_loop getSize data info 0"

section \<open>Building the buffers\<close>

text \<open>
  The loop of \<open>build<Data>(interface)\<close>: \<open>calcSend\<close> and \<open>calcRecv\<close> are the size
  calculator applied to the send and to the receive list. Inside the loop
  \<open>bufferSize_\<close> counts elements. \<open>messageInformation_\<close> is not cleared before the loop.
\<close>

fun build_loop ::
  "nat \<Rightarrow> (InterfaceInformation \<Rightarrow> nat) \<Rightarrow> (InterfaceInformation \<Rightarrow> nat) \<Rightarrow> Interface \<Rightarrow>
   'a BufferedCommunicator \<Rightarrow> 'a BufferedCommunicator" where
  "build_loop sz calcSend calcRecv [] c = c"
| "build_loop sz calcSend calcRecv (interfacePair # rest) c =
     (let noSend = calcSend (fst (snd interfacePair));
          noRecv = calcRecv (snd (snd interfacePair))
      in build_loop sz calcSend calcRecv rest
           (c\<lparr>messageInformation :=
                 map_insert (fst interfacePair)
                   (\<lparr>mi_start = fst (bufferSize c), mi_size = noSend * sz\<rparr>,
                    \<lparr>mi_start = snd (bufferSize c), mi_size = noRecv * sz\<rparr>)
                   (messageInformation c),
               bufferSize := (fst (bufferSize c) + noSend, snd (bufferSize c) + noRecv)\<rparr>))"

definition allocate :: "nat \<Rightarrow> 'a \<Rightarrow> 'a BufferedCommunicator \<Rightarrow> Interface \<Rightarrow> 'a BufferedCommunicator" where
  "allocate sz u c interface =
     (let bs = (fst (bufferSize c) * sz, snd (bufferSize c) * sz)
      in c\<lparr>bufferSize := bs,
            buffers := (replicate (fst bs div sz) u, replicate (snd bs div sz) u),
            interfaceP := Some interface\<rparr>)"

text \<open>
  \<open>build<Data>(interface)\<close>, enabled for \<open>SizeOne\<close> only. It queries the rank of the
  process in the communicator of the interface into the local variable \<open>lrank\<close>.
\<close>

definition build_SizeOne ::
  "'a mpi_env \<Rightarrow> nat \<Rightarrow> 'a \<Rightarrow> Interface \<Rightarrow> 'a BufferedCommunicator \<Rightarrow> 'a BufferedCommunicator" where
  "build_SizeOne env sz u interface c =
     (let lrank = MPI_Comm_rank env communicator
      in allocate sz u
           (build_loop sz MessageSizeCalculator_SizeOne_info MessageSizeCalculator_SizeOne_info
              interface (c\<lparr>bufferSize := (0, 0)\<rparr>))
           interface)"

text \<open>
  \<open>build(source, dest, interface)\<close>; \<open>calc\<close> is \<open>MessageSizeCalculator<Data,Flag>\<close> for the
  flag of the container's \<open>CommPolicy\<close>, which need not return. Its loop is the loop
  above with the calculator applied to the representative containers.
\<close>

fun build_data_loop ::
  "nat \<Rightarrow> (InterfaceInformation \<Rightarrow> nat option) \<Rightarrow> (InterfaceInformation \<Rightarrow> nat option) \<Rightarrow>
   Interface \<Rightarrow> 'a BufferedCommunicator \<Rightarrow> 'a BufferedCommunicator option" where
  "build_data_loop sz calcSend calcRecv [] c = Some c"
| "build_data_loop sz calcSend calcRecv (interfacePair # rest) c =
     do {
       noSend \<leftarrow> calcSend (fst (snd interfacePair));
       noRecv \<leftarrow> calcRecv (snd (snd interfacePair));
       build_data_loop sz calcSend calcRecv rest
         (c\<lparr>messageInformation :=
               map_insert (fst interfacePair)
                 (\<lparr>mi_start = fst (bufferSize c), mi_size = noSend * sz\<rparr>,
                  \<lparr>mi_start = snd (bufferSize c), mi_size = noRecv * sz\<rparr>)
                 (messageInformation c),
             bufferSize := (fst (bufferSize c) + noSend, snd (bufferSize c) + noRecv)\<rparr>)
     }"

definition build ::
  "nat \<Rightarrow> ('d \<Rightarrow> InterfaceInformation \<Rightarrow> nat option) \<Rightarrow> 'a \<Rightarrow> 'd \<Rightarrow> 'd \<Rightarrow> Interface \<Rightarrow>
   'a BufferedCommunicator \<Rightarrow> 'a BufferedCommunicator option" where
  "build sz calc u source dest interface c =
     do {
       c' \<leftarrow> build_data_loop sz (calc source) (calc dest) interface (c\<lparr>bufferSize := (0, 0)\<rparr>);
       Some (allocate sz u c' interface)
     }"


text \<open>\<open>free()\<close>.\<close>

definition free :: "'a BufferedCommunicator \<Rightarrow> 'a BufferedCommunicator" where
  "free c =
     (if interfaceP c \<noteq> None
      then c\<lparr>messageInformation := [], buffers := ([], []), interfaceP := None\<rparr>
      else c)"

text \<open>
  The plan that \<open>build\<close> is expected to record for an interface when the buffers
  hold \<open>a\<close> and \<open>b\<close> elements already: the entry of the k-th peer starts after the
  elements of the peers before it.
\<close>

definition plan_from ::
  "nat \<Rightarrow> (InterfaceInformation \<Rightarrow> nat) \<Rightarrow> (InterfaceInformation \<Rightarrow> nat) \<Rightarrow> nat \<Rightarrow> nat \<Rightarrow>
   Interface \<Rightarrow> InformationMap" where
  "plan_from sz calcSend calcRecv a b interface =
     map (\<lambda>k. (fst (interface ! k),
               \<lparr>mi_start = a + sum_list (map (calcSend \<circ> fst \<circ> snd) (take k interface)),
                mi_size = calcSend (fst (snd (interface ! k))) * sz\<rparr>,
               \<lparr>mi_start = b + sum_list (map (calcRecv \<circ> snd \<circ> snd) (take k interface)),
                mi_size = calcRecv (snd (snd (interface ! k))) * sz\<rparr>))
       [0..<length interface]"

definition plan ::
  "nat \<Rightarrow> (InterfaceInformation \<Rightarrow> nat) \<Rightarrow> (InterfaceInformation \<Rightarrow> nat) \<Rightarrow> Interface \<Rightarrow> InformationMap" where
  "plan sz calcSend calcRecv interface = plan_from sz calcSend calcRecv 0 0 interface"

subsection \<open>Gathering into the send buffer\<close>

text \<open>
  \<open>MessageGatherer<Data,GatherScatter,FORWARD,SizeOne>\<close>. The state of the loops is the
  buffer, the running \<open>index\<close> and the calls made so far. With \<open>checking\<close>
  (\<open>DUNE_ISTL_WITH_CHECKING\<close>) every write is preceded by the bounds assertion.
\<close>

fun gather_SizeOne_inner ::
  "bool \<Rightarrow> nat \<Rightarrow> ('d \<Rightarrow> nat \<Rightarrow> 'a) \<Rightarrow> 'd \<Rightarrow> nat \<Rightarrow> InterfaceInformation \<Rightarrow>
   'a list \<times> nat \<times> event list \<Rightarrow> ('a list \<times> nat \<times> event list) option" where
  "gather_SizeOne_inner checking sz gather data bufSize [] s = Some s"
| "gather_SizeOne_inner checking sz gather data bufSize (local # info) (buffer, index, tr) =
     do {
       (if checking then assert ((index + 1) * sz \<le> bufSize) else Some ());
       assert (index < length buffer);
       gather_SizeOne_inner checking sz gather data bufSize info
         (buffer[index := gather data local], index + 1, tr @ [Gather index local None])
     }"

fun gather_SizeOne_loop ::
  "bool \<Rightarrow> nat \<Rightarrow> ('d \<Rightarrow> nat \<Rightarrow> 'a) \<Rightarrow> bool \<Rightarrow> 'd \<Rightarrow> nat \<Rightarrow> Interface \<Rightarrow>
   'a list \<times> nat \<times> event list \<Rightarrow> ('a list \<times> nat \<times> event list) option" where
  "gather_SizeOne_loop checking sz gather FORWARD data bufSize [] s = Some s"
| "gather_SizeOne_loop checking sz gather FORWARD data bufSize (interfacePair # rest) s =
     do {
       s' \<leftarrow> gather_SizeOne_inner checking sz gather data bufSize
               (if FORWARD then fst (snd interfacePair) else snd (snd interfacePair)) s;
       gather_SizeOne_loop checking sz gather FORWARD data bufSize rest s'
     }"

definition MessageGatherer_SizeOne ::
  "'a mpi_env \<Rightarrow> bool \<Rightarrow> nat \<Rightarrow> ('d \<Rightarrow> nat \<Rightarrow> 'a) \<Rightarrow> bool \<Rightarrow> Interface \<Rightarrow> 'd \<Rightarrow> 'a list \<Rightarrow> nat \<Rightarrow>
   ('a list \<times> event list) option" where
  "MessageGatherer_SizeOne env checking sz gather FORWARD interface data buffer bufSize =
     (let rank = MPI_Comm_rank env MPI_COMM_WORLD
      in do {
        (buffer', index, tr) \<leftarrow>
          gather_SizeOne_loop checking sz gather FORWARD data bufSize interface (buffer, 0, []);
        Some (buffer', tr)
      })"

text \<open>
  \<open>MessageGatherer<Data,GatherScatter,FORWARD,VariableSize>\<close>. The innermost loop runs
  \<open>j\<close> from 0 below \<open>CommPolicy<Data>::getSize(data, local)\<close>; the container is constant
  there, so the bound is. The expressions \<open>interfacePair->second->first[i]\<close> and
  \<open>interfacePair->second->second[i]\<close> are read as the list lookups that the fixed size
  gatherer writes.
\<close>

fun gather_VariableSize_sub ::
  "bool \<Rightarrow> nat \<Rightarrow> ('d \<Rightarrow> nat \<Rightarrow> nat \<Rightarrow> 'a) \<Rightarrow> 'd \<Rightarrow> nat \<Rightarrow> nat \<Rightarrow> nat list \<Rightarrow>
   'a list \<times> nat \<times> event list \<Rightarrow> ('a list \<times> nat \<times> event list) option" where
  "gather_VariableSize_sub checking sz gather data bufSize local [] s = Some s"
| "gather_VariableSize_sub checking sz gather data bufSize local (j # js) (buffer, index, tr) =
     do {
       (if checking then assert ((index + 1) * sz \<le> bufSize) else Some ());
       assert (index < length buffer);
       gather_VariableSize_sub checking sz gather data bufSize local js
         (buffer[index := gather data local j], index + 1, tr @ [Gather index local (Some j)])
     }"

fun gather_VariableSize_inner ::
  "bool \<Rightarrow> nat \<Rightarrow> ('d \<Rightarrow> nat \<Rightarrow> nat) \<Rightarrow> ('d \<Rightarrow> nat \<Rightarrow> nat \<Rightarrow> 'a) \<Rightarrow> 'd \<Rightarrow> nat \<Rightarrow> InterfaceInformation \<Rightarrow>
   'a list \<times> nat \<times> event list \<Rightarrow> ('a list \<times> nat \<times> event list) option" where
  "gather_VariableSize_inner checking sz getSize gather data bufSize [] s = Some s"
| "gather_VariableSize_inner checking sz getSize gather data bufSize (local # info) s =
     do {
       s' \<leftarrow> gather_VariableSize_sub checking sz gather data bufSize local
               [0..<getSize data local] s;
       gather_VariableSize_inner checking sz getSize gather data bufSize info s'
     }"

fun gather_VariableSize_loop ::
  "bool \<Rightarrow> nat \<Rightarrow> ('d \<Rightarrow> nat \<Rightarrow> nat) \<Rightarrow> ('d \<Rightarrow> nat \<Rightarrow> nat \<Rightarrow> 'a) \<Rightarrow> bool \<Rightarrow> 'd \<Rightarrow> nat \<Rightarrow> Interface \<Rightarrow>
   'a list \<times> nat \<times> event list \<Rightarrow> ('a list \<times> nat \<times> event list) option" where
  "gather_VariableSize_loop checking sz getSize gather FORWARD data bufSize [] s = Some s"
| "gather_VariableSize_loop checking sz getSize gather FORWARD data bufSize (interfacePair # rest) s =
     do {
       s' \<leftarrow> gather_VariableSize_inner checking sz getSize gather data bufSize
               (if FORWARD then fst (snd interfacePair) else snd (snd interfacePair)) s;
       gather_VariableSize_loop checking sz getSize gather FORWARD data bufSize rest s'
     }"

definition MessageGatherer_VariableSize ::
  "'a mpi_env \<Rightarrow> bool \<Rightarrow> nat \<Rightarrow> ('d \<Rightarrow> nat \<Rightarrow> nat) \<Rightarrow> ('d \<Rightarrow> nat \<Rightarrow> nat \<Rightarrow> 'a) \<Rightarrow> bool \<Rightarrow> Interface \<Rightarrow> 'd \<Rightarrow>
   'a list \<Rightarrow> nat \<Rightarrow> ('a list \<times> event list) option" where
  "MessageGatherer_VariableSize env checking sz getSize gather FORWARD interface data buffer bufSize =
     (let rank = MPI_Comm_rank env MPI_COMM_WORLD
      in do {
        (buffer', index, tr) \<leftarrow>
          gather_VariableSize_loop checking sz getSize gather FORWARD data bufSize interface
            (buffer, 0, []);
        Some (buffer', tr)
      })"

subsection \<open>Scattering from the receive buffer\<close>

text \<open>
  The scatterers are called with the pointer \<open>recvBuffer + info.start_\<close>: here with the
  receive buffer and \<open>start\<close>, so that \<open>buffer[i]\<close> is \<open>recvBuffer[start + i]\<close>. The
  lookup of \<open>proc\<close> in the interface is asserted to succeed.
\<close>

fun scatter_SizeOne_loop ::
  "('d \<Rightarrow> 'a \<Rightarrow> nat \<Rightarrow> 'd) \<Rightarrow> int \<Rightarrow> 'a list \<Rightarrow> nat \<Rightarrow> InterfaceInformation \<Rightarrow>
   'd \<times> nat \<times> event list \<Rightarrow> ('d \<times> nat \<times> event list) option" where
  "scatter_SizeOne_loop scatter proc recvBuffer start [] s = Some s"
| "scatter_SizeOne_loop scatter proc recvBuffer start (local # info) (data, i, tr) =
     do {
       v \<leftarrow> at recvBuffer (start + i);
       scatter_SizeOne_loop scatter proc recvBuffer start info
         (scatter data v local, i + 1, tr @ [Scatter proc (start + i) local None])
     }"

definition MessageScatterer_SizeOne ::
  "('d \<Rightarrow> 'a \<Rightarrow> nat \<Rightarrow> 'd) \<Rightarrow> bool \<Rightarrow> Interface \<Rightarrow> 'd \<Rightarrow> 'a list \<Rightarrow> nat \<Rightarrow> int \<Rightarrow>
   ('d \<times> event list) option" where
  "MessageScatterer_SizeOne scatter FORWARD interface data recvBuffer start proc =
     do {
       infoPair \<leftarrow> map_find interface proc;
       (data', i, tr) \<leftarrow>
         scatter_SizeOne_loop scatter proc recvBuffer start
           (if FORWARD then snd infoPair else fst infoPair) (data, 0, []);
       Some (data', tr)
     }"

text \<open>
  \<open>MessageScatterer<Data,GatherScatter,FORWARD,VariableSize>\<close>. The bound of the inner
  loop, \<open>CommPolicy<Data>::getSize(data, info[i])\<close>, is evaluated before every iteration
  on the container that \<open>scatter\<close> has just written: the loop need not end.
\<close>

partial_function (option) scatter_VariableSize_sub ::
  "('d \<Rightarrow> nat \<Rightarrow> nat) \<Rightarrow> ('d \<Rightarrow> 'a \<Rightarrow> nat \<Rightarrow> nat \<Rightarrow> 'd) \<Rightarrow> int \<Rightarrow> 'a list \<Rightarrow> nat \<Rightarrow> nat \<Rightarrow> nat \<Rightarrow>
   'd \<times> nat \<times> event list \<Rightarrow> ('d \<times> nat \<times> event list) option" where
  "scatter_VariableSize_sub getSize scatter proc recvBuffer start local j s =
     (case s of (data, index, tr) \<Rightarrow>
        if j < getSize data local
        then (case at recvBuffer (start + index) of
                None \<Rightarrow> None
              | Some v \<Rightarrow>
                  scatter_VariableSize_sub getSize scatter proc recvBuffer start local (j + 1)
                    (scatter data v local j, index + 1,
                     tr @ [Scatter proc (start + index) local (Some j)]))
        else Some s)"

declare scatter_VariableSize_sub.simps [code]

fun scatter_VariableSize_loop ::
  "('d \<Rightarrow> nat \<Rightarrow> nat) \<Rightarrow> ('d \<Rightarrow> 'a \<Rightarrow> nat \<Rightarrow> nat \<Rightarrow> 'd) \<Rightarrow> int \<Rightarrow> 'a list \<Rightarrow> nat \<Rightarrow> InterfaceInformation \<Rightarrow>
   'd \<times> nat \<times> event list \<Rightarrow> ('d \<times> nat \<times> event list) option" where
  "scatter_VariableSize_loop getSize scatter proc recvBuffer start [] s = Some s"
| "scatter_VariableSize_loop getSize scatter proc recvBuffer start (local # info) s =
     do {
       s' \<leftarrow> scatter_VariableSize_sub getSize scatter proc recvBuffer start local 0 s;
       scatter_VariableSize_loop getSize scatter proc recvBuffer start info s'
     }"

definition MessageScatterer_VariableSize ::
  "('d \<Rightarrow> nat \<Rightarrow> nat) \<Rightarrow> ('d \<Rightarrow> 'a \<Rightarrow> nat \<Rightarrow> nat \<Rightarrow> 'd) \<Rightarrow> bool \<Rightarrow> Interface \<Rightarrow> 'd \<Rightarrow> 'a list \<Rightarrow> nat \<Rightarrow> int \<Rightarrow>
   ('d \<times> event list) option" where
  "MessageScatterer_VariableSize getSize scatter FORWARD interface data recvBuffer start proc =
     do {
       infoPair \<leftarrow> map_find interface proc;
       (data', index, tr) \<leftarrow>
         scatter_VariableSize_loop getSize scatter proc recvBuffer start
           (if FORWARD then snd infoPair else fst infoPair) (data, 0, []);
       Some (data', tr)
     }"

subsection \<open>The exchange\<close>

text \<open>
  The slab of a buffer that a \<open>MessageInformation\<close> describes, and the arrival of a
  message in the slab of a posted receive: at most the posted number of bytes is stored.
\<close>

definition slab :: "nat \<Rightarrow> 'a list \<Rightarrow> MessageInformation \<Rightarrow> 'a list" where
  "slab sz buffer info = take (mi_size info div sz) (drop (mi_start info) buffer)"

definition receive :: "nat \<Rightarrow> 'a list \<Rightarrow> MessageInformation \<Rightarrow> 'a list \<Rightarrow> 'a list" where
  "receive sz buffer info message =
     (let payload = take (mi_size info div sz) message
      in take (mi_start info) buffer @ payload @
         drop (mi_start info + length payload) buffer)"

text \<open>
  The two loops that post the requests, one request per entry of
  \<open>messageInformation_\<close> in the order of the map. In a forward exchange the receives use
  \<open>info->second.second\<close> and the sends \<open>info->second.first\<close>; backward it is the other
  way round. Each request is preceded by the assertion that its slab lies inside the
  buffer.
\<close>

fun post_receives :: "nat \<Rightarrow> bool \<Rightarrow> nat \<Rightarrow> InformationMap \<Rightarrow> event list \<Rightarrow> event list option" where
  "post_receives sz FORWARD recvBufferSize [] tr = Some tr"
| "post_receives sz FORWARD recvBufferSize (info # rest) tr =
     (let m = (if FORWARD then snd (snd info) else fst (snd info))
      in do {
        assert (mi_start m * sz + mi_size m \<le> recvBufferSize);
        post_receives sz FORWARD recvBufferSize rest (tr @ [Irecv (fst info) (mi_start m) (mi_size m)])
      })"

fun post_sends :: "nat \<Rightarrow> bool \<Rightarrow> nat \<Rightarrow> InformationMap \<Rightarrow> event list \<Rightarrow> event list option" where
  "post_sends sz FORWARD sendBufferSize [] tr = Some tr"
| "post_sends sz FORWARD sendBufferSize (info # rest) tr =
     (let m = (if FORWARD then fst (snd info) else snd (snd info))
      in do {
        assert (mi_start m * sz + mi_size m \<le> sendBufferSize);
        post_sends sz FORWARD sendBufferSize rest (tr @ [Issend (fst info) (mi_start m) (mi_size m)])
      })"

text \<open>The payloads handed to the send requests, with their destinations.\<close>

definition posted_messages :: "nat \<Rightarrow> bool \<Rightarrow> 'a list \<Rightarrow> InformationMap \<Rightarrow> (int \<times> 'a list) list" where
  "posted_messages sz FORWARD sendBuffer mi =
     map (\<lambda>info. (fst info,
            slab sz sendBuffer (if FORWARD then fst (snd info) else snd (snd info)))) mi"

text \<open>
  The loop over \<open>MPI_Waitany\<close>: one call per message. Its state is the destination
  container, the receive buffer, \<open>success\<close>, \<open>finished\<close>, the lines written to
  \<open>std::cerr\<close> and the calls made so far.
\<close>

type_synonym ('d, 'a) scatterer =
  "bool \<Rightarrow> Interface \<Rightarrow> 'd \<Rightarrow> 'a list \<Rightarrow> nat \<Rightarrow> int \<Rightarrow> ('d \<times> event list) option"

type_synonym ('d, 'a) gatherer =
  "bool \<Rightarrow> Interface \<Rightarrow> 'd \<Rightarrow> 'a list \<Rightarrow> nat \<Rightarrow> ('a list \<times> event list) option"

fun receive_loop ::
  "'a mpi_env \<Rightarrow> int \<Rightarrow> nat \<Rightarrow> ('d, 'a) scatterer \<Rightarrow> bool \<Rightarrow> Interface \<Rightarrow> InformationMap \<Rightarrow> nat \<Rightarrow>
   nat list \<Rightarrow> 'd \<times> 'a list \<times> int \<times> nat option \<times> diagnostic list \<times> event list \<Rightarrow>
   ('d \<times> 'a list \<times> int \<times> nat option \<times> diagnostic list \<times> event list) option" where
  "receive_loop env rank sz scatterer FORWARD interface mi recvBufferSize [] s = Some s"
| "receive_loop env rank sz scatterer FORWARD interface mi recvBufferSize (i # rest)
     (dest, recvBuffer, success, finished, err, tr) =
     (case MPI_Waitany env i of
        (None, status) \<Rightarrow> None
      | (Some f, status) \<Rightarrow>
          if status = MPI_SUCCESS
          then do {
            proc \<leftarrow> at (map fst mi) f;
            infoPair \<leftarrow> map_find mi proc;
            let info = (if FORWARD then snd infoPair else fst infoPair);
            assert (mi_start info + mi_size info \<le> recvBufferSize);
            let recvBuffer' = receive sz recvBuffer info (incoming env proc);
            (dest', sev) \<leftarrow> scatterer FORWARD interface dest recvBuffer' (mi_start info) proc;
            receive_loop env rank sz scatterer FORWARD interface mi recvBufferSize rest
              (dest', recvBuffer', success, Some f, err, tr @ [Waitany (Some f)] @ sev)
          }
          else do {
            proc \<leftarrow> at (map fst mi) f;
            receive_loop env rank sz scatterer FORWARD interface mi recvBufferSize rest
              (dest, recvBuffer, 0, Some f, err @ [ReceiveError rank proc], tr @ [Waitany (Some f)])
          })"

text \<open>
  The loop that waits for the send requests. Its message names \<open>processMap[finished]\<close>,
  with the value \<open>finished\<close> has kept from the last \<open>MPI_Waitany\<close>.
\<close>

fun wait_loop ::
  "'a mpi_env \<Rightarrow> int \<Rightarrow> int list \<Rightarrow> nat option \<Rightarrow> nat list \<Rightarrow> int \<times> diagnostic list \<times> event list \<Rightarrow>
   (int \<times> diagnostic list \<times> event list) option" where
  "wait_loop env rank processMap finished [] s = Some s"
| "wait_loop env rank processMap finished (i # rest) (success, err, tr) =
     (if MPI_Wait env i \<noteq> MPI_SUCCESS
      then do {
        f \<leftarrow> finished;
        proc \<leftarrow> at processMap f;
        wait_loop env rank processMap finished rest (0, err @ [SendError rank proc], tr @ [Wait i])
      }
      else wait_loop env rank processMap finished rest (success, err, tr @ [Wait i]))"

text \<open>
  What a call of \<open>sendRecv\<close> leaves behind: the communicator with its buffers, the
  destination container, the messages handed to the send requests, the lines on
  \<open>std::cerr\<close>, the calls in program order, the local \<open>success\<close>, and whether
  \<open>CommunicationError\<close> was thrown.
\<close>

record ('d, 'a) outcome =
  comm :: "'a BufferedCommunicator"
  target :: 'd
  posted :: "(int \<times> 'a list) list"
  cerr :: "diagnostic list"
  trace :: "event list"
  local_success :: int
  CommunicationError :: bool

text \<open>
  \<open>sendRecv<GatherScatter,FORWARD>(source, dest)\<close>, for the gatherer and the scatterer
  that the flag of the container selects.
\<close>

definition sendRecv ::
  "'a mpi_env \<Rightarrow> nat \<Rightarrow> ('d, 'a) gatherer \<Rightarrow> ('d, 'a) scatterer \<Rightarrow> bool \<Rightarrow> 'a BufferedCommunicator \<Rightarrow>
   'd \<Rightarrow> 'd \<Rightarrow> ('d, 'a) outcome option" where
  "sendRecv env sz gatherer scatterer FORWARD c source dest =
     (let rank = MPI_Comm_rank env MPI_COMM_WORLD;
          lrank = MPI_Comm_rank env MPI_COMM_WORLD;
          sendBuffer = (if FORWARD then fst (buffers c) else snd (buffers c));
          sendBufferSize = (if FORWARD then fst (bufferSize c) else snd (bufferSize c));
          recvBuffer = (if FORWARD then snd (buffers c) else fst (buffers c));
          recvBufferSize = (if FORWARD then snd (bufferSize c) else fst (bufferSize c))
      in do {
        interface \<leftarrow> interfaceP c;
        (sendBuffer', gev) \<leftarrow> gatherer FORWARD interface source sendBuffer sendBufferSize;
        let mi = messageInformation c;
        let processMap = map fst mi;
        rev \<leftarrow> post_receives sz FORWARD recvBufferSize mi gev;
        sev \<leftarrow> post_sends sz FORWARD sendBufferSize mi rev;
        (dest', recvBuffer', success, finished, err, tr) \<leftarrow>
          receive_loop env rank sz scatterer FORWARD interface mi recvBufferSize [0..<length mi]
            (dest, recvBuffer, 1, None, [], sev);
        (success', err', tr') \<leftarrow>
          wait_loop env rank processMap finished [0..<length mi] (success, err, tr);
        let globalSuccess = MPI_Allreduce_MIN success' (peer_success env);
        Some \<lparr>comm = c\<lparr>buffers := (if FORWARD then (sendBuffer', recvBuffer')
                                     else (recvBuffer', sendBuffer'))\<rparr>,
              target = dest',
              posted = posted_messages sz FORWARD sendBuffer' mi,
              cerr = err',
              trace = tr' @ [Allreduce success'],
              local_success = success',
              CommunicationError = (globalSuccess = 0)\<rparr>
      })"

subsection \<open>The specialisations that the flag of the container selects\<close>

text \<open>
  \<open>sendRecv\<close> instantiates \<open>MessageGatherer\<close> and \<open>MessageScatterer\<close> with the flag
  \<open>CommPolicy<Data>::IndexedTypeFlag\<close>. A policy is the flag with the functions that the
  specialisations for the flag call: \<open>gather(data, i)\<close> and \<open>scatter(data, v, i)\<close> for
  \<open>SizeOne\<close>; \<open>getSize(data, i)\<close>, \<open>gather(data, i, j)\<close> and \<open>scatter(data, v, i, j)\<close> for
  \<open>VariableSize\<close>. \<open>exchange\<close> is \<open>sendRecv\<close> for the policy of the container.
\<close>

datatype ('d, 'a) policy =
    SizeOne "'d \<Rightarrow> nat \<Rightarrow> 'a" "'d \<Rightarrow> 'a \<Rightarrow> nat \<Rightarrow> 'd"
  | VariableSize "'d \<Rightarrow> nat \<Rightarrow> nat" "'d \<Rightarrow> nat \<Rightarrow> nat \<Rightarrow> 'a" "'d \<Rightarrow> 'a \<Rightarrow> nat \<Rightarrow> nat \<Rightarrow> 'd"

definition MessageGatherer :: "'a mpi_env \<Rightarrow> bool \<Rightarrow> nat \<Rightarrow> ('d, 'a) policy \<Rightarrow> ('d, 'a) gatherer" where
  "MessageGatherer env checking sz p =
     (case p of
        SizeOne gather scatter \<Rightarrow> MessageGatherer_SizeOne env checking sz gather
      | VariableSize getSize gather scatter \<Rightarrow> MessageGatherer_VariableSize env checking sz getSize gather)"

definition MessageScatterer :: "('d, 'a) policy \<Rightarrow> ('d, 'a) scatterer" where
  "MessageScatterer p =
     (case p of
        SizeOne gather scatter \<Rightarrow> MessageScatterer_SizeOne scatter
      | VariableSize getSize gather scatter \<Rightarrow> MessageScatterer_VariableSize getSize scatter)"

definition exchange ::
  "'a mpi_env \<Rightarrow> bool \<Rightarrow> nat \<Rightarrow> ('d, 'a) policy \<Rightarrow> bool \<Rightarrow> 'a BufferedCommunicator \<Rightarrow> 'd \<Rightarrow> 'd \<Rightarrow>
   ('d, 'a) outcome option" where
  "exchange env checking sz p FORWARD c source dest =
     sendRecv env sz (MessageGatherer env checking sz p) (MessageScatterer p) FORWARD c source dest"

section \<open>Example configurations\<close>

text \<open>Concrete inputs on which the theorems below are instantiated.\<close>

definition env_example :: "int mpi_env" where
  "env_example =
     \<lparr>MPI_Comm_rank = (\<lambda>_. 0),
      incoming = (\<lambda>p. if p = 1 then [100] else [300, 301]),
      MPI_Waitany = (\<lambda>i. if i = 0 then (Some 1, MPI_SUCCESS) else (Some 0, MPI_SUCCESS)),
      MPI_Wait = (\<lambda>_. MPI_SUCCESS),
      MPI_Waitall = (\<lambda>_. MPI_SUCCESS),
      peer_success = [1, 1]\<rparr>"

definition interface_example :: Interface where
  "interface_example = [(1, [0, 1], [2]), (3, [1], [2, 0])]"

text \<open>
  A communicator that is built for a first interface and then, without \<open>free\<close>, for a
  second one in which the peer receives one element more; the fresh buffers hold \<open>- 1\<close>.
  In \<open>env_single\<close> the one receive completes without error and the peer has sent the
  value 100.
\<close>

definition env_single :: "int mpi_env" where
  "env_single =
     \<lparr>MPI_Comm_rank = (\<lambda>_. 0),
      incoming = (\<lambda>_. [100]),
      MPI_Waitany = (\<lambda>_. (Some 0, MPI_SUCCESS)),
      MPI_Wait = (\<lambda>_. MPI_SUCCESS),
      MPI_Waitall = (\<lambda>_. MPI_SUCCESS),
      peer_success = [1]\<rparr>"

definition interface_first :: Interface where
  "interface_first = [(1, [0], [1])]"

definition interface_second :: Interface where
  "interface_second = [(1, [0], [1, 2])]"

definition rebuilt :: "int BufferedCommunicator" where
  "rebuilt =
     build_SizeOne env_example 8 (- 1) interface_second
       (build_SizeOne env_example 8 (- 1) interface_first BufferedCommunicator)"

definition blocks_example :: "int list list" where
  "blocks_example = [[1, 2], [3], [4, 5, 6]]"

definition block_size :: "'a list list \<Rightarrow> nat \<Rightarrow> nat" where
  "block_size v i = length (v ! i)"

section \<open>Vocabulary of the statements\<close>

text \<open>
  The lists a gatherer walks (the send lists in a forward exchange, the receive lists in a
  backward one), the number of elements of the lists before the k-th, and the calls of
  \<open>gather\<close> that walking the lists from buffer slot \<open>index\<close> on consists of.
\<close>

definition gathered_lists :: "bool \<Rightarrow> Interface \<Rightarrow> InterfaceInformation list" where
  "gathered_lists FORWARD interface =
     map (\<lambda>interfacePair. if FORWARD then fst (snd interfacePair) else snd (snd interfacePair)) interface"

definition offset :: "'x list list \<Rightarrow> nat \<Rightarrow> nat" where
  "offset ls k = sum_list (map length (take k ls))"

definition gather_trace :: "nat \<Rightarrow> InterfaceInformation list \<Rightarrow> event list" where
  "gather_trace index ls =
     concat (map (\<lambda>k. map (\<lambda>i. Gather (index + offset ls k + i) (ls ! k ! i) None) [0..<length (ls ! k)])
       [0..<length ls])"

text \<open>
  A communicator holds the plan of an interface when its message information is the plan,
  its buffer sizes are the byte sizes of all slabs and its buffers hold as many elements.
  \<open>scatter_list\<close> is the container after scattering a list of values over a list of
  positions, in order; \<open>scatter_trace\<close> are the calls this consists of when the values
  are read from slot \<open>start\<close> on.
\<close>

definition planned ::
  "nat \<Rightarrow> (InterfaceInformation \<Rightarrow> nat) \<Rightarrow> (InterfaceInformation \<Rightarrow> nat) \<Rightarrow> Interface \<Rightarrow>
   'a BufferedCommunicator \<Rightarrow> bool" where
  "planned sz calcSend calcRecv interface c =
     (messageInformation c = plan sz calcSend calcRecv interface \<and>
      bufferSize c = (sum_list (map (calcSend \<circ> fst \<circ> snd) interface) * sz,
                      sum_list (map (calcRecv \<circ> snd \<circ> snd) interface) * sz) \<and>
      length (fst (buffers c)) = sum_list (map (calcSend \<circ> fst \<circ> snd) interface) \<and>
      length (snd (buffers c)) = sum_list (map (calcRecv \<circ> snd \<circ> snd) interface) \<and>
      interfaceP c = Some interface)"

definition scatter_list :: "('d \<Rightarrow> 'a \<Rightarrow> nat \<Rightarrow> 'd) \<Rightarrow> 'd \<Rightarrow> 'a list \<Rightarrow> InterfaceInformation \<Rightarrow> 'd" where
  "scatter_list scatter data values info = foldl (\<lambda>d (v, l). scatter d v l) data (zip values info)"

definition scatter_trace :: "int \<Rightarrow> nat \<Rightarrow> InterfaceInformation \<Rightarrow> event list" where
  "scatter_trace proc start info = map (\<lambda>j. Scatter proc (start + j) (info ! j) None) [0..<length info]"

text \<open>
  The number of elements of the slab that a peer's entry sends (\<open>cnt_send FORWARD\<close>; what
  it receives is \<open>cnt_send (\<not> FORWARD)\<close>), the slot at which the k-th slab starts, the
  requests posted for a plan, and one round of the loop over \<open>MPI_Waitany\<close> when the
  scatterer, called for the request \<open>f\<close>, returns the container \<open>val f dest rb\<close> after
  the calls \<open>ev f\<close>.
\<close>

definition cnt_send ::
  "bool \<Rightarrow> (InterfaceInformation \<Rightarrow> nat) \<Rightarrow> (InterfaceInformation \<Rightarrow> nat) \<Rightarrow>
   int \<times> InterfaceInformation \<times> InterfaceInformation \<Rightarrow> nat" where
  "cnt_send FORWARD calcSend calcRecv interfacePair =
     (if FORWARD then calcSend (fst (snd interfacePair)) else calcRecv (snd (snd interfacePair)))"

definition slab_start ::
  "bool \<Rightarrow> (InterfaceInformation \<Rightarrow> nat) \<Rightarrow> (InterfaceInformation \<Rightarrow> nat) \<Rightarrow> Interface \<Rightarrow> nat \<Rightarrow> nat" where
  "slab_start FORWARD calcSend calcRecv interface k =
     sum_list (map (cnt_send FORWARD calcSend calcRecv) (take k interface))"

definition receive_step ::
  "'a mpi_env \<Rightarrow> int \<Rightarrow> nat \<Rightarrow> bool \<Rightarrow> InformationMap \<Rightarrow> (nat \<Rightarrow> 'd \<Rightarrow> 'a list \<Rightarrow> 'd) \<Rightarrow> (nat \<Rightarrow> event list) \<Rightarrow>
   'd \<times> 'a list \<times> int \<times> nat option \<times> diagnostic list \<times> event list \<Rightarrow> nat \<Rightarrow>
   'd \<times> 'a list \<times> int \<times> nat option \<times> diagnostic list \<times> event list" where
  "receive_step env rank sz FORWARD mi val ev s i =
     (case s of (dest, rb, success, finished, err, tr) \<Rightarrow>
        (case MPI_Waitany env i of
           (None, status) \<Rightarrow> s
         | (Some f, status) \<Rightarrow>
             if status = MPI_SUCCESS
             then (let rb' = receive sz rb (if FORWARD then snd (snd (mi ! f)) else fst (snd (mi ! f)))
                               (incoming env (fst (mi ! f)))
                   in (val f dest rb', rb', success, Some f, err, tr @ Waitany (Some f) # ev f))
             else (dest, rb, 0, Some f, err @ [ReceiveError rank (fst (mi ! f))],
                   tr @ [Waitany (Some f)])))"

definition irecv_trace ::
  "nat \<Rightarrow> bool \<Rightarrow> (InterfaceInformation \<Rightarrow> nat) \<Rightarrow> (InterfaceInformation \<Rightarrow> nat) \<Rightarrow> Interface \<Rightarrow> event list" where
  "irecv_trace sz FORWARD cs cr iface =
     map (\<lambda>k. Irecv (fst (iface ! k)) (slab_start (\<not> FORWARD) cs cr iface k)
                (cnt_send (\<not> FORWARD) cs cr (iface ! k) * sz)) [0..<length iface]"

definition issend_trace ::
  "nat \<Rightarrow> bool \<Rightarrow> (InterfaceInformation \<Rightarrow> nat) \<Rightarrow> (InterfaceInformation \<Rightarrow> nat) \<Rightarrow> Interface \<Rightarrow> event list" where
  "issend_trace sz FORWARD cs cr iface =
     map (\<lambda>k. Issend (fst (iface ! k)) (slab_start FORWARD cs cr iface k)
                (cnt_send FORWARD cs cr (iface ! k) * sz)) [0..<length iface]"

text \<open>
  What one call of \<open>MPI_Waitany\<close> contributes to the calls of an exchange and to
  \<open>std::cerr\<close>, and what a failed \<open>MPI_Wait\<close> writes there.
\<close>

definition completion_trace :: "'a mpi_env \<Rightarrow> (nat \<Rightarrow> event list) \<Rightarrow> nat \<Rightarrow> event list" where
  "completion_trace env ev i =
     (case MPI_Waitany env i of
        (None, status) \<Rightarrow> []
      | (Some f, status) \<Rightarrow> Waitany (Some f) # (if status = MPI_SUCCESS then ev f else []))"

definition receive_diagnostics :: "'a mpi_env \<Rightarrow> int \<Rightarrow> InformationMap \<Rightarrow> nat \<Rightarrow> diagnostic list" where
  "receive_diagnostics env rank mi i =
     (case MPI_Waitany env i of
        (None, status) \<Rightarrow> []
      | (Some f, status) \<Rightarrow> if status = MPI_SUCCESS then [] else [ReceiveError rank (fst (mi ! f))])"

definition send_diagnostics :: "'a mpi_env \<Rightarrow> int \<Rightarrow> int list \<Rightarrow> nat option \<Rightarrow> nat \<Rightarrow> diagnostic list" where
  "send_diagnostics env rank processMap finished i =
     (if MPI_Wait env i \<noteq> MPI_SUCCESS then [SendError rank (processMap ! the finished)] else [])"

text \<open>The local success flag: 0 when a receive or a send reported an error, 1 otherwise.\<close>

definition success_flag :: "'a mpi_env \<Rightarrow> nat \<Rightarrow> int" where
  "success_flag env n =
     (if list_ex (\<lambda>i. snd (MPI_Waitany env i) \<noteq> MPI_SUCCESS \<or> MPI_Wait env i \<noteq> MPI_SUCCESS) [0..<n]
      then 0 else 1)"

text \<open>
  One round of the loop over \<open>MPI_Waitany\<close> on the destination container and the
  receive buffer alone.
\<close>

definition deliver ::
  "'a mpi_env \<Rightarrow> nat \<Rightarrow> bool \<Rightarrow> InformationMap \<Rightarrow> (nat \<Rightarrow> 'd \<Rightarrow> 'a list \<Rightarrow> 'd) \<Rightarrow>
   'd \<times> 'a list \<Rightarrow> nat \<Rightarrow> 'd \<times> 'a list" where
  "deliver env sz FORWARD mi val s i =
     (case s of (dest, rb) \<Rightarrow>
        (case MPI_Waitany env i of
           (None, status) \<Rightarrow> s
         | (Some f, status) \<Rightarrow>
             if status = MPI_SUCCESS
             then (let rb' = receive sz rb (if FORWARD then snd (snd (mi ! f)) else fst (snd (mi ! f)))
                               (incoming env (fst (mi ! f)))
                   in (val f dest rb', rb'))
             else s))"

text \<open>
  What the fixed size scatterer, called for the request \<open>f\<close>, makes of the destination
  container, and the calls it consists of.
\<close>

definition scatter_SizeOne_val ::
  "('d \<Rightarrow> 'a \<Rightarrow> nat \<Rightarrow> 'd) \<Rightarrow> bool \<Rightarrow> Interface \<Rightarrow> nat \<Rightarrow> 'd \<Rightarrow> 'a list \<Rightarrow> 'd" where
  "scatter_SizeOne_val scatter FORWARD iface f dest rb =
     scatter_list scatter dest
       (take (length (gathered_lists (\<not> FORWARD) iface ! f))
          (drop (offset (gathered_lists (\<not> FORWARD) iface) f) rb))
       (gathered_lists (\<not> FORWARD) iface ! f)"

definition scatter_SizeOne_trace :: "bool \<Rightarrow> Interface \<Rightarrow> nat \<Rightarrow> event list" where
  "scatter_SizeOne_trace FORWARD iface f =
     scatter_trace (fst (iface ! f)) (offset (gathered_lists (\<not> FORWARD) iface) f)
       (gathered_lists (\<not> FORWARD) iface ! f)"

text \<open>
  \<open>CopyGatherScatter\<close> on a vector: \<open>gather\<close> returns \<open>vec[i]\<close> and \<open>scatter\<close> assigns
  \<open>vec[i] = v\<close>. The positions handed to them are taken to lie inside the vector.
\<close>

definition CopyGatherScatter_gather :: "'a list \<Rightarrow> nat \<Rightarrow> 'a" where
  "CopyGatherScatter_gather vec i = vec ! i"

definition CopyGatherScatter_scatter :: "'a list \<Rightarrow> 'a \<Rightarrow> nat \<Rightarrow> 'a list" where
  "CopyGatherScatter_scatter vec v i = vec[i := v]"

text \<open>
  The number of buffer slots that a list takes under a policy, and the policies whose
  \<open>scatter\<close> leaves the number of elements at every index as it is. An exchange is
  prepared when the interface is a map, the policy keeps the layout, and the communicator
  holds the plan of the interface for containers with the layout of the two containers
  of the exchange.
\<close>

definition count :: "('d, 'a) policy \<Rightarrow> 'd \<Rightarrow> InterfaceInformation \<Rightarrow> nat" where
  "count p data info =
     (case p of
        SizeOne gather scatter \<Rightarrow> length info
      | VariableSize getSize gather scatter \<Rightarrow> sum_list (map (getSize data) info))"

definition keeps_layout :: "('d, 'a) policy \<Rightarrow> bool" where
  "keeps_layout p =
     (case p of
        SizeOne gather scatter \<Rightarrow> True
      | VariableSize getSize gather scatter \<Rightarrow> (\<forall>d v i j. getSize (scatter d v i j) = getSize d))"

definition prepared ::
  "nat \<Rightarrow> ('d, 'a) policy \<Rightarrow> bool \<Rightarrow> Interface \<Rightarrow> 'a BufferedCommunicator \<Rightarrow> 'd \<Rightarrow> 'd \<Rightarrow> bool" where
  "prepared sz p FORWARD interface c source dest =
     (std_map interface \<and> keeps_layout p \<and>
      planned sz (count p (if FORWARD then source else dest))
        (count p (if FORWARD then dest else source)) interface c)"

subsection \<open>The public operations\<close>

text \<open>
  The containers are passed by reference: a store maps the address of a container to its
  value, and an exchange updates the store at the address of the container it scatters
  into. \<open>forward_data\<close> and \<open>backward_data\<close> are \<open>forward(data)\<close> and
  \<open>backward(data)\<close>; \<open>forward\<close> and \<open>backward\<close> are the overloads with two containers.
\<close>

type_synonym 'd store = "nat \<Rightarrow> 'd"

definition sendRecv_ref ::
  "'a mpi_env \<Rightarrow> nat \<Rightarrow> ('d, 'a) gatherer \<Rightarrow> ('d, 'a) scatterer \<Rightarrow> bool \<Rightarrow> 'a BufferedCommunicator \<Rightarrow>
   nat \<Rightarrow> nat \<Rightarrow> 'd store \<Rightarrow> (('d, 'a) outcome \<times> 'd store) option" where
  "sendRecv_ref env sz gatherer scatterer FORWARD c source dest st =
     map_option (\<lambda>out. (out, st(dest := target out)))
       (sendRecv env sz gatherer scatterer FORWARD c (st source) (st dest))"

definition forward_data ::
  "'a mpi_env \<Rightarrow> nat \<Rightarrow> ('d, 'a) gatherer \<Rightarrow> ('d, 'a) scatterer \<Rightarrow> 'a BufferedCommunicator \<Rightarrow>
   nat \<Rightarrow> 'd store \<Rightarrow> (('d, 'a) outcome \<times> 'd store) option" where
  "forward_data env sz gatherer scatterer c data st =
     sendRecv_ref env sz gatherer scatterer True c data data st"

definition backward_data ::
  "'a mpi_env \<Rightarrow> nat \<Rightarrow> ('d, 'a) gatherer \<Rightarrow> ('d, 'a) scatterer \<Rightarrow> 'a BufferedCommunicator \<Rightarrow>
   nat \<Rightarrow> 'd store \<Rightarrow> (('d, 'a) outcome \<times> 'd store) option" where
  "backward_data env sz gatherer scatterer c data st =
     sendRecv_ref env sz gatherer scatterer False c data data st"

definition forward ::
  "'a mpi_env \<Rightarrow> nat \<Rightarrow> ('d, 'a) gatherer \<Rightarrow> ('d, 'a) scatterer \<Rightarrow> 'a BufferedCommunicator \<Rightarrow>
   nat \<Rightarrow> nat \<Rightarrow> 'd store \<Rightarrow> (('d, 'a) outcome \<times> 'd store) option" where
  "forward env sz gatherer scatterer c source dest st =
     sendRecv_ref env sz gatherer scatterer True c source dest st"

definition backward ::
  "'a mpi_env \<Rightarrow> nat \<Rightarrow> ('d, 'a) gatherer \<Rightarrow> ('d, 'a) scatterer \<Rightarrow> 'a BufferedCommunicator \<Rightarrow>
   nat \<Rightarrow> nat \<Rightarrow> 'd store \<Rightarrow> (('d, 'a) outcome \<times> 'd store) option" where
  "backward env sz gatherer scatterer c source dest st =
     sendRecv_ref env sz gatherer scatterer False c dest source st"

text \<open>What an exchange leaves behind, but for the lines on \<open>std::cerr\<close>.\<close>

definition exchanged :: "('d, 'a) outcome \<Rightarrow>
   'a BufferedCommunicator \<times> 'd \<times> (int \<times> 'a list) list \<times> event list \<times> int \<times> bool" where
  "exchanged out =
     (comm out, target out, posted out, trace out, local_success out, CommunicationError out)"

text \<open>
  For a variable size container: the number of buffer slots taken by the positions of a
  list before the p-th, the calls of \<open>scatter\<close> that scattering a list from slot \<open>start\<close>
  on consists of, and the buffer slot a call of \<open>scatter\<close> reads. \<open>block_scatter\<close> assigns
  one element of one block of a vector of blocks.
\<close>

definition sub_slots :: "('d \<Rightarrow> nat \<Rightarrow> nat) \<Rightarrow> 'd \<Rightarrow> InterfaceInformation \<Rightarrow> nat \<Rightarrow> nat" where
  "sub_slots getSize data info p = sum_list (map (getSize data) (take p info))"

definition scatter_VariableSize_trace ::
  "('d \<Rightarrow> nat \<Rightarrow> nat) \<Rightarrow> 'd \<Rightarrow> int \<Rightarrow> nat \<Rightarrow> InterfaceInformation \<Rightarrow> event list" where
  "scatter_VariableSize_trace getSize data proc start info =
     concat (map (\<lambda>p. map (\<lambda>j. Scatter proc (start + sub_slots getSize data info p + j) (info ! p) (Some j))
                          [0..<getSize data (info ! p)])
               [0..<length info])"

definition scatter_slot :: "event \<Rightarrow> nat" where
  "scatter_slot e = (case e of Scatter proc slot local sub \<Rightarrow> slot | _ \<Rightarrow> 0)"

definition block_scatter :: "'a list list \<Rightarrow> 'a \<Rightarrow> nat \<Rightarrow> nat \<Rightarrow> 'a list list" where
  "block_scatter v x i j = v[i := (v ! i)[j := x]]"

text \<open>
  The container after one call of \<open>scatter\<close> of a variable size container, which hands
  over the value in the slot the call reads. \<open>block_replace\<close> is a \<open>scatter\<close> that puts the
  received value in the place of the whole block, which changes the size of the block.
\<close>

definition scatter_call :: "('d \<Rightarrow> 'a \<Rightarrow> nat \<Rightarrow> nat \<Rightarrow> 'd) \<Rightarrow> 'a list \<Rightarrow> 'd \<Rightarrow> event \<Rightarrow> 'd" where
  "scatter_call scatter recvBuffer data e =
     (case e of
        Scatter proc slot local (Some sub) \<Rightarrow> scatter data (recvBuffer ! slot) local sub
      | _ \<Rightarrow> data)"

definition block_replace :: "'a list list \<Rightarrow> 'a \<Rightarrow> nat \<Rightarrow> nat \<Rightarrow> 'a list list" where
  "block_replace v x i j = v[i := [x]]"

subsection \<open>The datatype communicator\<close>

text \<open>
  A persistent request as \<open>MPI_Recv_init\<close> or \<open>MPI_Ssend_init\<close> creates it: the address
  \<open>CommPolicy<V>::getAddress(data, 0)\<close> of a container, one element of a committed
  datatype, the peer and the tag. The datatypes that \<open>createDataTypes\<close> commits come from
  \<open>InterfaceBuilder::buildInterface\<close>, which is not part of this module: the map
  \<open>messageTypes\<close> from a peer to its (send type, receive type) is an input of \<open>build\<close>.
\<close>

datatype request_kind = Recv_init | Ssend_init

record 'ty request =
  req_kind :: request_kind
  req_address :: nat
  req_type :: 'ty
  req_peer :: int
  req_tag :: int

definition commTag :: int where
  "commTag = 234"

text \<open>
  The members \<open>messageTypes\<close>, \<open>requests_\<close> and \<open>created_\<close>. The field \<open>requests\<close> holds
  the arrays that \<open>requests_[0]\<close> and \<open>requests_[1]\<close> point to; \<open>deleted\<close> records, for
  each of the two pointers, that the array it points to has been handed to \<open>delete[]\<close>
  and the pointer has not been assigned since.
\<close>

record 'ty DatatypeCommunicator =
  messageTypes :: "(int \<times> 'ty \<times> 'ty) list"
  requests :: "'ty request list \<times> 'ty request list"
  created :: bool
  deleted :: "bool \<times> bool"

text \<open>The constructor: both pointers are null.\<close>

definition DatatypeCommunicator :: "'ty DatatypeCommunicator" where
  "DatatypeCommunicator =
     \<lparr>messageTypes = [], requests = ([], []), created = False, deleted = (False, False)\<rparr>"

text \<open>
  \<open>createRequests<V,createForward>(sendData, receiveData)\<close>: first one receive request
  per peer, then one send request per peer, stored in \<open>requests_[createForward ? 1 : 0]\<close>.
\<close>

definition createRequests ::
  "bool \<Rightarrow> nat \<Rightarrow> nat \<Rightarrow> 'ty DatatypeCommunicator \<Rightarrow> 'ty DatatypeCommunicator" where
  "createRequests createForward sendData receiveData dc =
     (let receives =
            map (\<lambda>process.
                   \<lparr>req_kind = Recv_init, req_address = receiveData,
                    req_type = (if createForward then snd (snd process) else fst (snd process)),
                    req_peer = fst process, req_tag = commTag\<rparr>) (messageTypes dc);
          sends =
            map (\<lambda>process.
                   \<lparr>req_kind = Ssend_init, req_address = sendData,
                    req_type = (if createForward then fst (snd process) else snd (snd process)),
                    req_peer = fst process, req_tag = commTag\<rparr>) (messageTypes dc)
      in if createForward
         then dc\<lparr>requests := (fst (requests dc), receives @ sends),
                 deleted := (fst (deleted dc), False)\<rparr>
         else dc\<lparr>requests := (receives @ sends, snd (requests dc)),
                 deleted := (False, snd (deleted dc))\<rparr>)"

text \<open>
  \<open>free()\<close> of the datatype communicator. When \<open>created_\<close> is set it deletes both
  arrays, frees the datatypes and clears the map. It resets neither \<open>created_\<close> nor the
  pointers: a call that finds \<open>created_\<close> set and a pointer whose array is deleted
  already deletes that array a second time, which has no defined result. The destructor
  is a call of \<open>free()\<close>.
\<close>

definition DatatypeCommunicator_free :: "'ty DatatypeCommunicator \<Rightarrow> 'ty DatatypeCommunicator option" where
  "DatatypeCommunicator_free dc =
     (if created dc
      then do {
        assert (\<not> fst (deleted dc));
        assert (\<not> snd (deleted dc));
        Some (dc\<lparr>requests := ([], []), messageTypes := [], deleted := (True, True)\<rparr>)
      }
      else Some dc)"

text \<open>
  \<open>build\<close>: \<open>free\<close>, the two calls of \<open>createDataTypes\<close> (their result is \<open>types\<close>), the
  requests of the forward and of the backward exchange.
\<close>

definition DatatypeCommunicator_build ::
  "(int \<times> 'ty \<times> 'ty) list \<Rightarrow> nat \<Rightarrow> nat \<Rightarrow> 'ty DatatypeCommunicator \<Rightarrow>
   'ty DatatypeCommunicator option" where
  "DatatypeCommunicator_build types sendData receiveData dc =
     do {
       dc' \<leftarrow> DatatypeCommunicator_free dc;
       Some ((createRequests False receiveData sendData
                (createRequests True sendData receiveData (dc'\<lparr>messageTypes := types\<rparr>)))
             \<lparr>created := True\<rparr>)
     }"

datatype 'ty dt_event =
    Startall "'ty request list"
  | Waitall "'ty request list"
  | Allreduce_MIN int

datatype dt_diagnostic = ErrorInSending int | ErrorInReceiving int

record 'ty dt_outcome =
  dt_trace :: "'ty dt_event list"
  dt_cerr :: "dt_diagnostic list"
  dt_success :: int
  dt_CommunicationError :: bool

text \<open>
  \<open>DatatypeCommunicator::sendRecv(requests)\<close>. The first \<open>MPI_Waitall\<close> is on the send
  requests, the second on the receive requests. Of the output on \<open>std::cerr\<close> the line
  that names the rank is kept; the lines that print the error strings of the statuses are
  left out.
\<close>

definition DatatypeCommunicator_sendRecv ::
  "'a mpi_env \<Rightarrow> 'ty DatatypeCommunicator \<Rightarrow> 'ty request list \<Rightarrow> 'ty dt_outcome" where
  "DatatypeCommunicator_sendRecv env dc reqs =
     (let noMessages = length (messageTypes dc);
          receives = take noMessages reqs;
          sends = take noMessages (drop noMessages reqs);
          send = MPI_Waitall env 0;
          receive = MPI_Waitall env 1;
          rank = MPI_Comm_rank env communicator;
          err1 = (if send = MPI_ERR_IN_STATUS then [ErrorInSending rank] else []);
          success1 = (if send = MPI_ERR_IN_STATUS then 0 else 1);
          err2 = (if receive = MPI_ERR_IN_STATUS then err1 @ [ErrorInReceiving rank] else err1);
          success = (if receive = MPI_ERR_IN_STATUS then 0 else success1);
          globalSuccess = MPI_Allreduce_MIN success (peer_success env)
      in \<lparr>dt_trace = [Startall receives, Startall sends, Waitall sends, Waitall receives,
                      Allreduce_MIN success],
          dt_cerr = err2,
          dt_success = success,
          dt_CommunicationError = (globalSuccess = 0)\<rparr>)"

definition DatatypeCommunicator_forward :: "'a mpi_env \<Rightarrow> 'ty DatatypeCommunicator \<Rightarrow> 'ty dt_outcome" where
  "DatatypeCommunicator_forward env dc = DatatypeCommunicator_sendRecv env dc (snd (requests dc))"

definition DatatypeCommunicator_backward :: "'a mpi_env \<Rightarrow> 'ty DatatypeCommunicator \<Rightarrow> 'ty dt_outcome" where
  "DatatypeCommunicator_backward env dc = DatatypeCommunicator_sendRecv env dc (fst (requests dc))"

definition types_example :: "(int \<times> string \<times> string) list" where
  "types_example = [(1, ''send to 1'', ''receive from 1''), (3, ''send to 3'', ''receive from 3'')]"

text \<open>
  A process of the buffered communicator has a transport error when one of its calls of
  \<open>MPI_Waitany\<close> reports a status other than \<open>MPI_SUCCESS\<close> or one of its calls of
  \<open>MPI_Wait\<close> returns another code; a process of the datatype communicator, when one of
  its two calls of \<open>MPI_Waitall\<close> returns \<open>MPI_ERR_IN_STATUS\<close>, the code with which
  \<open>MPI_Waitall\<close> reports that a request has failed. \<open>others N k flag\<close> are the values
  that the processes of a group of \<open>N\<close> other than \<open>k\<close> contribute to a reduction.
\<close>

definition transport_error :: "'a mpi_env \<Rightarrow> nat \<Rightarrow> bool" where
  "transport_error env n =
     list_ex (\<lambda>i. snd (MPI_Waitany env i) \<noteq> MPI_SUCCESS \<or> MPI_Wait env i \<noteq> MPI_SUCCESS) [0..<n]"

definition waitall_error :: "'a mpi_env \<Rightarrow> bool" where
  "waitall_error env = (MPI_Waitall env 0 = MPI_ERR_IN_STATUS \<or> MPI_Waitall env 1 = MPI_ERR_IN_STATUS)"

definition others :: "nat \<Rightarrow> nat \<Rightarrow> (nat \<Rightarrow> int) \<Rightarrow> int list" where
  "others N k flag = map flag (filter (\<lambda>q. q \<noteq> k) [0..<N])"

text \<open>
  Two processes of the datatype communicator; the wait for the sends of process 0 reports
  an error.
\<close>

definition group_env :: "nat \<Rightarrow> int mpi_env" where
  "group_env k =
     \<lparr>MPI_Comm_rank = (\<lambda>_. int k),
      incoming = (\<lambda>_. [7]),
      MPI_Waitany = (\<lambda>i. (Some 0, MPI_SUCCESS)),
      MPI_Wait = (\<lambda>_. MPI_SUCCESS),
      MPI_Waitall = (\<lambda>i. if k = 0 \<and> i = 0 then MPI_ERR_IN_STATUS else MPI_SUCCESS),
      peer_success = (if k = 0 then [1] else [0])\<rparr>"

definition group_dc :: "string DatatypeCommunicator" where
  "group_dc = the (DatatypeCommunicator_build types_example 0 1 DatatypeCommunicator)"

text \<open>
  Three processes of the buffered communicator that exchange vectors of blocks. Process 0
  treats a block as one element (its first) and has a receive that fails; the processes
  1 and 2 exchange whole blocks, and the second send of process 1 fails. \<open>peer_success\<close>
  holds what the two others contribute to the reduction. In \<open>env_undefined\<close> the call of
  \<open>MPI_Waitany\<close> reports an error and no request.
\<close>

definition block_gather :: "'a list list \<Rightarrow> nat \<Rightarrow> nat \<Rightarrow> 'a" where
  "block_gather v i j = v ! i ! j"

definition head_gather :: "'a list list \<Rightarrow> nat \<Rightarrow> 'a" where
  "head_gather v i = v ! i ! 0"

definition head_scatter :: "'a list list \<Rightarrow> 'a \<Rightarrow> nat \<Rightarrow> 'a list list" where
  "head_scatter v x i = block_scatter v x i 0"

definition trio_policy :: "nat \<Rightarrow> (int list list, int) policy" where
  "trio_policy k =
     (if k = 0 then SizeOne head_gather head_scatter
      else VariableSize block_size block_gather block_scatter)"

definition trio_interface :: "nat \<Rightarrow> Interface" where
  "trio_interface k =
     (if k = 0 then [(1, [0], [1])]
      else if k = 1 then [(0, [1], [0]), (2, [2], [0])]
      else [(1, [0], [2])])"

definition trio_env :: "nat \<Rightarrow> int mpi_env" where
  "trio_env k =
     \<lparr>MPI_Comm_rank = (\<lambda>_. int k),
      incoming = (\<lambda>_. [7, 8, 9]),
      MPI_Waitany = (\<lambda>i. (Some i, if k = 0 then MPI_ERR_OTHER else MPI_SUCCESS)),
      MPI_Wait = (\<lambda>i. if k = 1 \<and> i = 1 then MPI_ERR_OTHER else MPI_SUCCESS),
      MPI_Waitall = (\<lambda>i. if k = 0 \<and> i = 0 then MPI_ERR_IN_STATUS else MPI_SUCCESS),
      peer_success = (if k = 2 then [0, 0] else [0, 1])\<rparr>"

definition trio_comm :: "nat \<Rightarrow> int BufferedCommunicator" where
  "trio_comm k =
     (if k = 0 then build_SizeOne (trio_env 0) 8 0 (trio_interface 0) BufferedCommunicator
      else the (build 8 (MessageSizeCalculator_VariableSize block_size) 0 blocks_example blocks_example
                  (trio_interface k) BufferedCommunicator))"

definition env_undefined :: "int mpi_env" where
  "env_undefined =
     \<lparr>MPI_Comm_rank = (\<lambda>_. 0),
      incoming = (\<lambda>_. [100]),
      MPI_Waitany = (\<lambda>_. (None, MPI_ERR_OTHER)),
      MPI_Wait = (\<lambda>_. MPI_SUCCESS),
      MPI_Waitall = (\<lambda>_. MPI_SUCCESS),
      peer_success = [1]\<rparr>"

subsection \<open>A group of processes exchanging with the Copy policy\<close>

text \<open>
  The processes of a communicator, in the order of their ranks: each holds its built
  communicator (with its interface), its source and its destination container. The
  messages a process posts are those of its gatherer; a process receives from the peer
  \<open>q\<close> the message that \<open>q\<close> posts for it. In an exchange without transport errors every
  receive completes with \<open>MPI_SUCCESS\<close>; \<open>order k i\<close> is the request that the i-th
  \<open>MPI_Waitany\<close> of process \<open>k\<close> reports.
\<close>

record 'a process =
  comm_of :: "'a BufferedCommunicator"
  source_of :: "'a list"
  dest_of :: "'a list"



















section \<open>Properties of the size calculators and of build\<close>

lemma entries_loop_sum:
  "int entries \<le> INT_MAX \<Longrightarrow>
   entries_loop getSize data info entries =
     (if int (entries + sum_list (map (getSize data) info)) \<le> INT_MAX
      then Some (entries + sum_list (map (getSize data) info)) else None)"
  by (induction info arbitrary: entries) (simp_all add: add.assoc)

lemma MessageSizeCalculator_VariableSize_sum:
  "MessageSizeCalculator_VariableSize getSize data info =
     (if int (sum_list (map (getSize data) info)) \<le> INT_MAX
      then Some (sum_list (map (getSize data) info)) else None)"
  by (simp add: MessageSizeCalculator_VariableSize_def entries_loop_sum INT_MAX_def)

lemma map_insert_append:
  "\<forall>e \<in> set m. fst e < k \<Longrightarrow> map_insert k v m = m @ [(k, v)]"
  by (induction m) auto

lemma build_loop_fields:
  "buffers (build_loop sz cs cr iface c) = buffers c \<and>
   interfaceP (build_loop sz cs cr iface c) = interfaceP c"
  by (induction iface arbitrary: c) (simp_all add: Let_def)

lemma build_loop_bufferSize:
  "bufferSize (build_loop sz cs cr iface c) =
     (fst (bufferSize c) + sum_list (map (cs \<circ> fst \<circ> snd) iface),
      snd (bufferSize c) + sum_list (map (cr \<circ> snd \<circ> snd) iface))"
  by (induction iface arbitrary: c) (simp_all add: Let_def)

lemma plan_from_Cons:
  "plan_from sz cs cr a b (e # iface) =
     (fst e, \<lparr>mi_start = a, mi_size = cs (fst (snd e)) * sz\<rparr>,
             \<lparr>mi_start = b, mi_size = cr (snd (snd e)) * sz\<rparr>)
     # plan_from sz cs cr (a + cs (fst (snd e))) (b + cr (snd (snd e))) iface"
  by (simp add: plan_from_def map_upt_Suc del: upt_Suc add: add.assoc)

lemma build_loop_messageInformation:
  "sorted_wrt (<) (map fst iface) \<Longrightarrow>
   \<forall>e\<in>set (messageInformation c). \<forall>f\<in>set iface. fst e < fst f \<Longrightarrow>
   messageInformation (build_loop sz cs cr iface c) =
     messageInformation c @ plan_from sz cs cr (fst (bufferSize c)) (snd (bufferSize c)) iface"
proof (induction iface arbitrary: c)
  case Nil
  then show ?case by (simp add: plan_from_def)
next
  case (Cons e iface)
  let ?v = "(\<lparr>mi_start = fst (bufferSize c), mi_size = cs (fst (snd e)) * sz\<rparr>,
             \<lparr>mi_start = snd (bufferSize c), mi_size = cr (snd (snd e)) * sz\<rparr>)"
  have ins: "map_insert (fst e) ?v (messageInformation c) = messageInformation c @ [(fst e, ?v)]"
    using Cons.prems(2) by (intro map_insert_append) simp
  show ?case
    using Cons.prems by (simp add: Let_def ins plan_from_Cons Cons.IH)
qed

lemma build_data_loop_result:
  "\<forall>e \<in> set iface. calcSend (fst (snd e)) = Some (cs (fst (snd e))) \<and>
                   calcRecv (snd (snd e)) = Some (cr (snd (snd e))) \<Longrightarrow>
   build_data_loop sz calcSend calcRecv iface c = Some (build_loop sz cs cr iface c)"
  by (induction iface arbitrary: c) (simp_all add: Let_def)

lemma build_data_loop_None:
  "\<exists>e \<in> set iface. calcSend (fst (snd e)) = None \<or> calcRecv (snd (snd e)) = None \<Longrightarrow>
   build_data_loop sz calcSend calcRecv iface c = None"
proof (induction iface arbitrary: c)
  case Nil
  then show ?case by simp
next
  case (Cons e iface)
  show ?case
  proof (cases "calcSend (fst (snd e)) = None \<or> calcRecv (snd (snd e)) = None")
    case True
    then show ?thesis by (cases "calcSend (fst (snd e))") auto
  next
    case False
    then have "\<exists>e \<in> set iface. calcSend (fst (snd e)) = None \<or> calcRecv (snd (snd e)) = None"
      using Cons.prems by auto
    from Cons.IH [OF this] False show ?thesis by auto
  qed
qed

lemma build_result:
  "\<forall>e \<in> set iface. calc source (fst (snd e)) = Some (cs (fst (snd e))) \<and>
                   calc dest (snd (snd e)) = Some (cr (snd (snd e))) \<Longrightarrow>
   build sz calc u source dest iface c =
     Some (allocate sz u (build_loop sz cs cr iface (c\<lparr>bufferSize := (0, 0)\<rparr>)) iface)"
  by (simp add: build_def build_data_loop_result [where cs = cs and cr = cr])

lemma build_SizeOne_build:
  "build sz (\<lambda>data info. Some (MessageSizeCalculator_SizeOne data info)) u s d iface c =
     Some (build_SizeOne env sz u iface c)"
  by (simp add: build_SizeOne_def MessageSizeCalculator_SizeOne_def
      build_result [where cs = MessageSizeCalculator_SizeOne_info
        and cr = MessageSizeCalculator_SizeOne_info])

lemma build_VariableSize_result:
  assumes "\<forall>e \<in> set iface. int (sum_list (map (getSize source) (fst (snd e)))) \<le> INT_MAX \<and>
                          int (sum_list (map (getSize dest) (snd (snd e)))) \<le> INT_MAX"
  shows "build sz (MessageSizeCalculator_VariableSize getSize) u source dest iface c =
           Some (allocate sz u
                   (build_loop sz (\<lambda>info. sum_list (map (getSize source) info))
                      (\<lambda>info. sum_list (map (getSize dest) info)) iface (c\<lparr>bufferSize := (0, 0)\<rparr>))
                   iface)"
  using assms by (intro build_result) (simp add: MessageSizeCalculator_VariableSize_sum)

lemma build_VariableSize_None:
  assumes "\<exists>e \<in> set iface. INT_MAX < int (sum_list (map (getSize source) (fst (snd e)))) \<or>
                          INT_MAX < int (sum_list (map (getSize dest) (snd (snd e))))"
  shows "build sz (MessageSizeCalculator_VariableSize getSize) u source dest iface c = None"
proof -
  from assms obtain e where e: "e \<in> set iface"
    and o: "INT_MAX < int (sum_list (map (getSize source) (fst (snd e)))) \<or>
            INT_MAX < int (sum_list (map (getSize dest) (snd (snd e))))"
    by blast
  from o have "MessageSizeCalculator_VariableSize getSize source (fst (snd e)) = None \<or>
               MessageSizeCalculator_VariableSize getSize dest (snd (snd e)) = None"
    by (auto simp: MessageSizeCalculator_VariableSize_sum)
  with e have "\<exists>e \<in> set iface.
          MessageSizeCalculator_VariableSize getSize source (fst (snd e)) = None \<or>
          MessageSizeCalculator_VariableSize getSize dest (snd (snd e)) = None"
    by blast
  then show ?thesis
    by (simp add: build_def build_data_loop_None)
qed

lemma planned_build_VariableSize:
  assumes "std_map iface" and "messageInformation c = []" and "0 < sz"
    and "\<forall>e \<in> set iface. int (sum_list (map (getSize source) (fst (snd e)))) \<le> INT_MAX \<and>
                          int (sum_list (map (getSize dest) (snd (snd e)))) \<le> INT_MAX"
  shows "\<exists>b. build sz (MessageSizeCalculator_VariableSize getSize) u source dest iface c = Some b \<and>
             planned sz (\<lambda>info. sum_list (map (getSize source) info))
               (\<lambda>info. sum_list (map (getSize dest) info)) iface b"
  using assms(1-3)
  by (simp add: build_VariableSize_result [OF assms(4)] planned_def allocate_def Let_def
      build_loop_messageInformation build_loop_bufferSize build_loop_fields plan_def std_map_def)

lemma build_SizeOne_plan:
  assumes "std_map interface" and "messageInformation c = []"
  shows "messageInformation (build_SizeOne env sz u interface c) = plan sz length length interface"
proof -
  have "MessageSizeCalculator_SizeOne_info = length"
    by (simp add: fun_eq_iff MessageSizeCalculator_SizeOne_info_def)
  then show ?thesis
    using assms
    by (simp add: build_SizeOne_def allocate_def Let_def build_loop_messageInformation plan_def
        std_map_def)
qed

lemma build_SizeOne_bufferSize:
  "bufferSize (build_SizeOne env sz u interface c) =
     (sum_list (map (length \<circ> fst \<circ> snd) interface) * sz,
      sum_list (map (length \<circ> snd \<circ> snd) interface) * sz)"
proof -
  have "MessageSizeCalculator_SizeOne_info = length"
    by (simp add: fun_eq_iff MessageSizeCalculator_SizeOne_info_def)
  then show ?thesis
    by (simp add: build_SizeOne_def allocate_def Let_def build_loop_bufferSize)
qed

lemma build_SizeOne_buffers:
  "0 < sz \<Longrightarrow>
   buffers (build_SizeOne env sz u interface c) =
     (replicate (sum_list (map (length \<circ> fst \<circ> snd) interface)) u,
      replicate (sum_list (map (length \<circ> snd \<circ> snd) interface)) u)"
proof -
  assume sz: "0 < sz"
  have "MessageSizeCalculator_SizeOne_info = length"
    by (simp add: fun_eq_iff MessageSizeCalculator_SizeOne_info_def)
  then show ?thesis
    using sz by (simp add: build_SizeOne_def allocate_def Let_def build_loop_bufferSize)
qed

lemma build_SizeOne_interfaceP: "interfaceP (build_SizeOne env sz u interface c) = Some interface"
  by (simp add: build_SizeOne_def allocate_def Let_def)

section \<open>Claims about sizing\<close>

text \<open>
  Claim C9. For a fixed size container the two overloads of the message size calculator
  agree and return \<open>info.size()\<close> whatever the container is; hence the three argument
  \<open>build\<close> with the fixed size calculator returns, its result is that of the one
  argument \<open>build\<close>, and the representative containers handed to it do not influence the
  result.
\<close>

theorem C9_size_one_calculator:
  "MessageSizeCalculator_SizeOne data info = MessageSizeCalculator_SizeOne_info info \<and>
   MessageSizeCalculator_SizeOne_info info = length info \<and>
   build sz (\<lambda>data info. Some (MessageSizeCalculator_SizeOne data info)) u source dest interface c =
     Some (build_SizeOne env sz u interface c) \<and>
   build sz (\<lambda>data info. Some (MessageSizeCalculator_SizeOne data info)) u source dest interface c =
     build sz (\<lambda>data info. Some (MessageSizeCalculator_SizeOne data info)) u source' dest' interface c"
proof (intro conjI)
  show "MessageSizeCalculator_SizeOne data info = MessageSizeCalculator_SizeOne_info info"
    by (simp add: MessageSizeCalculator_SizeOne_def)
  show "MessageSizeCalculator_SizeOne_info info = length info"
    by (simp add: MessageSizeCalculator_SizeOne_info_def)
  show "build sz (\<lambda>data info. Some (MessageSizeCalculator_SizeOne data info)) u source dest interface c =
          Some (build_SizeOne env sz u interface c)"
    by (rule build_SizeOne_build)
  show "build sz (\<lambda>data info. Some (MessageSizeCalculator_SizeOne data info)) u source dest interface c =
          build sz (\<lambda>data info. Some (MessageSizeCalculator_SizeOne data info)) u source' dest' interface c"
    by (simp only: build_SizeOne_build [of sz u _ _ interface c env])
qed

text \<open>
  On a communicator whose \<open>messageInformation_\<close> is empty (as constructed, or after
  \<open>free\<close>), \<open>build\<close> records for the k-th peer of the interface, in iteration order, the
  pair of message informations whose start is the number of elements of the peers before
  it and whose size is the number of elements of the peer times \<open>sizeof(IndexedType)\<close>.
  The number of elements is the length of the list in the fixed size case and, where no
  sum leaves the range of \<open>int\<close>, the sum of \<open>getSize\<close> over the listed positions of the
  representative container in the variable size case; where a sum does, \<open>build\<close> has no
  defined result.
\<close>

lemma build_plan_on_empty_map:
  assumes "std_map interface" and "messageInformation c = []" and "0 < sz"
  shows "(let b = build_SizeOne env sz u interface c in
          messageInformation b =
            map (\<lambda>k. (fst (interface ! k),
                  \<lparr>mi_start = sum_list (map (length \<circ> fst \<circ> snd) (take k interface)),
                   mi_size = length (fst (snd (interface ! k))) * sz\<rparr>,
                  \<lparr>mi_start = sum_list (map (length \<circ> snd \<circ> snd) (take k interface)),
                   mi_size = length (snd (snd (interface ! k))) * sz\<rparr>))
              [0..<length interface] \<and>
          bufferSize b =
            (sum_list (map (length \<circ> fst \<circ> snd) interface) * sz,
             sum_list (map (length \<circ> snd \<circ> snd) interface) * sz) \<and>
          length (fst (buffers b)) * sz = fst (bufferSize b) \<and>
          length (snd (buffers b)) * sz = snd (bufferSize b))"
  using assms
  by (simp add: Let_def build_SizeOne_plan build_SizeOne_bufferSize build_SizeOne_buffers
      plan_def plan_from_def comp_def)

lemma build_VariableSize_plan_on_empty_map:
  assumes "std_map interface" and "messageInformation c = []" and "0 < sz"
    and "\<forall>e \<in> set interface. int (sum_list (map (getSize source) (fst (snd e)))) \<le> INT_MAX \<and>
                               int (sum_list (map (getSize dest) (snd (snd e)))) \<le> INT_MAX"
  shows "\<exists>b. build sz (MessageSizeCalculator_VariableSize getSize) u source dest interface c = Some b \<and>
          messageInformation b =
            map (\<lambda>k. (fst (interface ! k),
                  \<lparr>mi_start = sum_list (map (\<lambda>e. sum_list (map (getSize source) (fst (snd e))))
                                         (take k interface)),
                   mi_size = sum_list (map (getSize source) (fst (snd (interface ! k)))) * sz\<rparr>,
                  \<lparr>mi_start = sum_list (map (\<lambda>e. sum_list (map (getSize dest) (snd (snd e))))
                                         (take k interface)),
                   mi_size = sum_list (map (getSize dest) (snd (snd (interface ! k)))) * sz\<rparr>))
              [0..<length interface] \<and>
          bufferSize b =
            (sum_list (map (\<lambda>e. sum_list (map (getSize source) (fst (snd e)))) interface) * sz,
             sum_list (map (\<lambda>e. sum_list (map (getSize dest) (snd (snd e)))) interface) * sz) \<and>
          length (fst (buffers b)) * sz = fst (bufferSize b) \<and>
          length (snd (buffers b)) * sz = snd (bufferSize b)"
proof -
  from planned_build_VariableSize [OF assms, of u]
  obtain b where b: "build sz (MessageSizeCalculator_VariableSize getSize) u source dest interface c = Some b"
    and p: "planned sz (\<lambda>info. sum_list (map (getSize source) info))
               (\<lambda>info. sum_list (map (getSize dest) info)) interface b"
    by blast
  show ?thesis
    using b p by (simp add: planned_def plan_def plan_from_def comp_def)
qed

text \<open>
  Claim C2 fails on a communicator that is built a second time: \<open>build\<close> resets
  \<open>bufferSize_\<close> but does not clear \<open>messageInformation_\<close>, and \<open>std::map::insert\<close> keeps
  the entry a peer has already. A communicator built for an interface in which peer 1
  receives one element, and then for an interface in which it receives two, allocates a
  receive buffer of 16 bytes and still records 8 bytes for the receive slab of peer 1.
  With \<open>free\<close> between the two calls the recorded size is 16 bytes.
\<close>

theorem C2_rebuild_keeps_stale_plan:
  "messageInformation rebuilt =
     [(1, \<lparr>mi_start = 0, mi_size = 8\<rparr>, \<lparr>mi_start = 0, mi_size = 8\<rparr>)] \<and>
   bufferSize rebuilt = (8, 16) \<and>
   length (snd (snd (interface_second ! 0))) * 8 = 16 \<and>
   messageInformation
     (build_SizeOne env_example 8 (- 1) interface_second
        (free (build_SizeOne env_example 8 (- 1) interface_first BufferedCommunicator))) =
     [(1, \<lparr>mi_start = 0, mi_size = 8\<rparr>, \<lparr>mi_start = 0, mi_size = 16\<rparr>)]"
  by (simp add: rebuilt_def interface_first_def interface_second_def build_SizeOne_def
      allocate_def Let_def BufferedCommunicator_def free_def MessageSizeCalculator_SizeOne_info_def)

section \<open>Properties of the gatherers\<close>

lemma assert_simps [simp]: "assert True = Some ()" "assert False = None"
  by (simp_all add: assert_def)

lemma gather_SizeOne_inner_result:
  "index + length info \<le> length buffer \<Longrightarrow>
   (checking \<Longrightarrow> (index + length info) * sz \<le> bufSize) \<Longrightarrow>
   gather_SizeOne_inner checking sz gather data bufSize info (buffer, index, tr) =
     Some (take index buffer @ map (gather data) info @ drop (index + length info) buffer,
           index + length info,
           tr @ map (\<lambda>i. Gather (index + i) (info ! i) None) [0..<length info])"
proof (induction info arbitrary: buffer index tr)
  case Nil
  then show ?case by simp
next
  case (Cons l info)
  have a: "(index + 1) * sz \<le> bufSize" if "checking"
  proof -
    have "(index + 1) * sz \<le> (index + length (l # info)) * sz"
      by (intro mult_le_mono1) simp
    then show ?thesis using Cons.prems(2)[OF that] by (rule le_trans)
  qed
  have b: "index < length buffer" using Cons.prems(1) by simp
  have upd: "buffer[index := v] = take index buffer @ v # drop (Suc index) buffer" for v
    using b by (rule upd_conv_take_nth_drop)
  have ih: "gather_SizeOne_inner checking sz gather data bufSize info
              (buffer[index := gather data l], Suc index, tr @ [Gather index l None]) =
            Some (take (Suc index) (buffer[index := gather data l]) @ map (gather data) info @
                    drop (Suc index + length info) (buffer[index := gather data l]),
                  Suc index + length info,
                  (tr @ [Gather index l None]) @
                    map (\<lambda>i. Gather (Suc index + i) (info ! i) None) [0..<length info])"
    using Cons.prems by (intro Cons.IH) auto
  have t: "take (Suc index) (buffer[index := v]) = take index buffer @ [v]" for v
    using b by (simp add: upd)
  have d: "drop (Suc index + length info) (buffer[index := v]) = drop (Suc index + length info) buffer" for v
    by simp
  show ?case
    using a b by (simp add: ih t d map_upt_Suc del: upt_Suc)
qed

lemma offset_simps:
  "offset ls 0 = 0"
  "offset (l # ls) (Suc k) = length l + offset ls k"
  by (simp_all add: offset_def)

lemma offset_all: "offset ls (length ls) = sum_list (map length ls)"
  by (simp add: offset_def)

lemma gather_trace_Nil [simp]: "gather_trace index [] = []"
  by (simp add: gather_trace_def)

lemma gather_trace_Cons:
  "gather_trace index (l # ls) =
     map (\<lambda>i. Gather (index + i) (l ! i) None) [0..<length l] @ gather_trace (index + length l) ls"
  by (simp add: gather_trace_def map_upt_Suc offset_simps add.assoc del: upt_Suc)

lemma gather_SizeOne_loop_result:
  "index + sum_list (map length (gathered_lists FORWARD iface)) \<le> length buffer \<Longrightarrow>
   (checking \<Longrightarrow> (index + sum_list (map length (gathered_lists FORWARD iface))) * sz \<le> bufSize) \<Longrightarrow>
   gather_SizeOne_loop checking sz gather FORWARD data bufSize iface (buffer, index, tr) =
     Some (take index buffer @ concat (map (map (gather data)) (gathered_lists FORWARD iface)) @
             drop (index + sum_list (map length (gathered_lists FORWARD iface))) buffer,
           index + sum_list (map length (gathered_lists FORWARD iface)),
           tr @ gather_trace index (gathered_lists FORWARD iface))"
proof (induction iface arbitrary: buffer index tr)
  case Nil
  then show ?case by (simp add: gathered_lists_def)
next
  case (Cons e iface)
  define l where "l = (if FORWARD then fst (snd e) else snd (snd e))"
  let ?ls = "gathered_lists FORWARD iface"
  have gl: "gathered_lists FORWARD (e # iface) = l # ?ls"
    by (simp add: gathered_lists_def l_def)
  have step: "gather_SizeOne_loop checking sz gather FORWARD data bufSize (e # iface) s =
      Option.bind (gather_SizeOne_inner checking sz gather data bufSize l s)
        (gather_SizeOne_loop checking sz gather FORWARD data bufSize iface)" for s
    by (simp add: l_def)
  have 1: "index + length l \<le> length buffer"
    using Cons.prems(1) by (simp add: gl)
  have 2: "(index + length l) * sz \<le> bufSize" if "checking"
  proof -
    have "(index + length l) * sz \<le>
          (index + sum_list (map length (gathered_lists FORWARD (e # iface)))) * sz"
      by (intro mult_le_mono1) (simp add: gl)
    then show ?thesis using Cons.prems(2)[OF that] by (rule le_trans)
  qed
  let ?b = "take index buffer @ map (gather data) l @ drop (index + length l) buffer"
  have inner: "gather_SizeOne_inner checking sz gather data bufSize l (buffer, index, tr) =
     Some (?b, index + length l, tr @ map (\<lambda>i. Gather (index + i) (l ! i) None) [0..<length l])"
    using 1 2 by (rule gather_SizeOne_inner_result)
  have len: "length ?b = length buffer" using 1 by simp
  have 3: "(index + length l) + sum_list (map length ?ls) \<le> length ?b"
    using Cons.prems(1) by (simp add: gl len del: length_append length_take length_drop length_map)
  have 4: "((index + length l) + sum_list (map length ?ls)) * sz \<le> bufSize" if "checking"
    using Cons.prems(2)[OF that] by (simp add: gl add.assoc)
  have tk: "take (index + length l) ?b = take index buffer @ map (gather data) l"
    using 1 by simp
  have dr: "drop (index + length l + n) ?b = drop (index + length l + n) buffer" for n
    using 1 by (simp add: add.commute add.left_commute)
  show ?case
    apply (simp only: step inner bind.bind_lunit)
    apply (subst Cons.IH [OF 3 4])
     apply assumption
    apply (simp only: tk dr gl gather_trace_Cons)
    apply (simp add: add.assoc)
    done
qed

lemma length_gather_trace: "length (gather_trace index ls) = sum_list (map length ls)"
  by (induction ls arbitrary: index) (simp_all add: gather_trace_Cons)

lemma gather_trace_bound:
  "Gather i l s \<in> set (gather_trace index ls) \<Longrightarrow>
   index \<le> i \<and> i < index + sum_list (map length ls)"
proof (induction ls arbitrary: index)
  case Nil
  then show ?case by simp
next
  case (Cons a ls)
  from Cons.prems consider
      (head) "Gather i l s \<in> set (map (\<lambda>j. Gather (index + j) (a ! j) None) [0..<length a])"
    | (tail) "Gather i l s \<in> set (gather_trace (index + length a) ls)"
    by (auto simp only: gather_trace_Cons set_append Un_iff)
  then show ?case
  proof cases
    case head
    then obtain j where "j < length a" "i = index + j" by auto
    then show ?thesis by simp
  next
    case tail
    from Cons.IH [OF tail] show ?thesis by simp
  qed
qed

lemma MessageGatherer_SizeOne_result:
  assumes "sum_list (map length (gathered_lists FORWARD iface)) = length buffer"
    and "length buffer * sz = bufSize"
  shows "MessageGatherer_SizeOne env checking sz gather FORWARD iface data buffer bufSize =
           Some (concat (map (map (gather data)) (gathered_lists FORWARD iface)),
                 gather_trace 0 (gathered_lists FORWARD iface))"
proof -
  have "gather_SizeOne_loop checking sz gather FORWARD data bufSize iface (buffer, 0, []) =
     Some (take 0 buffer @ concat (map (map (gather data)) (gathered_lists FORWARD iface)) @
             drop (0 + sum_list (map length (gathered_lists FORWARD iface))) buffer,
           0 + sum_list (map length (gathered_lists FORWARD iface)),
           [] @ gather_trace 0 (gathered_lists FORWARD iface))"
    using assms by (intro gather_SizeOne_loop_result) simp_all
  then show ?thesis
    using assms(1) by (simp add: MessageGatherer_SizeOne_def)
qed

lemma gathered_lists_sum:
  "sum_list (map length (gathered_lists FORWARD iface)) =
     (if FORWARD then sum_list (map (length \<circ> fst \<circ> snd) iface)
      else sum_list (map (length \<circ> snd \<circ> snd) iface))"
  by (simp add: gathered_lists_def comp_def)

text \<open>
  Claim C10. On the buffers that \<open>build\<close> has sized for an interface, the fixed size
  gatherer of a forward exchange over the same interface returns, with the bounds
  assertion compiled in: the slots it writes are those of \<open>gather_trace\<close>, as many as the
  send lists have entries, which is the number of elements of the send buffer; and every
  written index satisfies \<open>(index + 1) * sizeof(IndexedType) \<le> bufferSize\<close>.
\<close>

theorem C10_gather_within_buffer:
  assumes "0 < sz"
  shows "(let c = build_SizeOne env sz u interface c0;
              sendBuffer = fst (buffers c);
              sendBufferSize = fst (bufferSize c);
              sendLists = map (\<lambda>interfacePair. fst (snd interfacePair)) interface
          in \<exists>buffer' tr.
               MessageGatherer_SizeOne env' True sz gather True interface data sendBuffer sendBufferSize =
                 Some (buffer', tr) \<and>
               tr = gather_trace 0 sendLists \<and>
               length tr = sum_list (map length sendLists) \<and>
               sum_list (map length sendLists) = length sendBuffer \<and>
               length sendBuffer * sz = sendBufferSize \<and>
               (\<forall>index local sub. Gather index local sub \<in> set tr \<longrightarrow> (index + 1) * sz \<le> sendBufferSize))"
proof -
  define c where "c = build_SizeOne env sz u interface c0"
  define ls where "ls = map (\<lambda>interfacePair. fst (snd interfacePair)) interface"
  have ls: "gathered_lists True interface = ls"
    by (simp add: gathered_lists_def ls_def)
  have len: "sum_list (map length ls) = length (fst (buffers c))"
    using assms by (simp add: c_def build_SizeOne_buffers ls_def comp_def)
  have bytes: "length (fst (buffers c)) * sz = fst (bufferSize c)"
    using assms by (simp add: c_def build_SizeOne_buffers build_SizeOne_bufferSize)
  have run: "MessageGatherer_SizeOne env' True sz gather True interface data
               (fst (buffers c)) (fst (bufferSize c)) =
             Some (concat (map (map (gather data)) ls), gather_trace 0 ls)"
    using MessageGatherer_SizeOne_result [of True interface "fst (buffers c)" sz "fst (bufferSize c)"]
      len bytes by (simp add: ls)
  have bound: "(index + 1) * sz \<le> fst (bufferSize c)"
    if "Gather index local sub \<in> set (gather_trace 0 ls)" for index local sub
  proof -
    from gather_trace_bound [OF that] have "index + 1 \<le> length (fst (buffers c))"
      by (simp add: len)
    then have "(index + 1) * sz \<le> length (fst (buffers c)) * sz"
      by (rule mult_le_mono1)
    then show ?thesis by (simp only: bytes)
  qed
  have "\<exists>buffer' tr.
          MessageGatherer_SizeOne env' True sz gather True interface data
            (fst (buffers c)) (fst (bufferSize c)) = Some (buffer', tr) \<and>
          tr = gather_trace 0 ls \<and>
          length tr = sum_list (map length ls) \<and>
          sum_list (map length ls) = length (fst (buffers c)) \<and>
          length (fst (buffers c)) * sz = fst (bufferSize c) \<and>
          (\<forall>index local sub. Gather index local sub \<in> set tr \<longrightarrow>
             (index + 1) * sz \<le> fst (bufferSize c))"
    using run bound len bytes length_gather_trace [of 0 ls] by blast
  then show ?thesis
    unfolding Let_def c_def [symmetric] ls_def [symmetric] .
qed


text \<open>The gatherer of C10 on the example interface.\<close>

theorem C10_gather_within_buffer_witness:
  "(0::nat) < 8 \<and>
   MessageGatherer_SizeOne env_example True 8 (\<lambda>v i. v ! i) True interface_example [10, 11, 12 :: int]
     (fst (buffers (build_SizeOne env_example 8 0 interface_example BufferedCommunicator)))
     (fst (bufferSize (build_SizeOne env_example 8 0 interface_example BufferedCommunicator))) =
   Some ([10, 11, 11], [Gather 0 0 None, Gather 1 1 None, Gather 2 1 None]) \<and>
   fst (bufferSize (build_SizeOne env_example 8 (0::int) interface_example BufferedCommunicator)) = 24"
proof -
  have h: "(0::nat) < 8" by simp
  have ev: "MessageGatherer_SizeOne env_example True 8 (\<lambda>v i. v ! i) True interface_example [10, 11, 12 :: int]
     (fst (buffers (build_SizeOne env_example 8 0 interface_example BufferedCommunicator)))
     (fst (bufferSize (build_SizeOne env_example 8 0 interface_example BufferedCommunicator))) =
   Some ([10, 11, 11], [Gather 0 0 None, Gather 1 1 None, Gather 2 1 None])"
    by code_simp
  have sz: "fst (bufferSize (build_SizeOne env_example 8 (0::int) interface_example BufferedCommunicator)) = 24"
    by code_simp
  show ?thesis
    using C10_gather_within_buffer [OF h, of env_example "0::int" interface_example
        BufferedCommunicator env_example "\<lambda>v i. v ! i" "[10, 11, 12]"] ev sz
    by simp
qed

section \<open>Properties of the scatterers\<close>

lemma at_simps: "i < length xs \<Longrightarrow> at xs i = Some (xs ! i)"
  by (simp add: at_def)

lemma scatter_SizeOne_loop_result:
  "start + i + length info \<le> length rb \<Longrightarrow>
   scatter_SizeOne_loop scatter proc rb start info (data, i, tr) =
     Some (scatter_list scatter data (take (length info) (drop (start + i) rb)) info,
           i + length info,
           tr @ map (\<lambda>j. Scatter proc (start + i + j) (info ! j) None) [0..<length info])"
proof (induction info arbitrary: data i tr)
  case Nil
  then show ?case by (simp add: scatter_list_def)
next
  case (Cons l info)
  have lt: "start + i < length rb" using Cons.prems by simp
  have tk: "take (Suc (length info)) (drop (start + i) rb) =
            rb ! (start + i) # take (length info) (drop (start + Suc i) rb)"
    using lt by (simp add: take_Suc_conv_app_nth Cons_nth_drop_Suc [symmetric])
  have ih: "scatter_SizeOne_loop scatter proc rb start info
              (scatter data (rb ! (start + i)) l, Suc i, tr @ [Scatter proc (start + i) l None]) =
            Some (scatter_list scatter (scatter data (rb ! (start + i)) l)
                    (take (length info) (drop (start + Suc i) rb)) info,
                  Suc i + length info,
                  (tr @ [Scatter proc (start + i) l None]) @
                    map (\<lambda>j. Scatter proc (start + Suc i + j) (info ! j) None) [0..<length info])"
    using Cons.prems by (intro Cons.IH) simp
  show ?case
    using lt by (simp add: at_simps ih tk scatter_list_def map_upt_Suc del: upt_Suc)
qed

lemma map_of_nth:
  fixes m :: "(int \<times> 'v) list"
  assumes s: "sorted_wrt (<) (map fst m)" and k: "k < length m"
  shows "map_of m (fst (m ! k)) = Some (snd (m ! k))"
proof -
  have "distinct (map fst m)" using s by (simp add: strict_sorted_iff)
  moreover have "(fst (m ! k), snd (m ! k)) \<in> set m" using k by simp
  ultimately show ?thesis by (rule map_of_is_SomeI)
qed

lemma MessageScatterer_SizeOne_result:
  assumes "std_map iface" and "f < length iface"
    and "start + length (gathered_lists (\<not> FORWARD) iface ! f) \<le> length rb"
  shows "MessageScatterer_SizeOne scatter FORWARD iface data rb start (fst (iface ! f)) =
           Some (scatter_list scatter data
                   (take (length (gathered_lists (\<not> FORWARD) iface ! f)) (drop start rb))
                   (gathered_lists (\<not> FORWARD) iface ! f),
                 scatter_trace (fst (iface ! f)) start (gathered_lists (\<not> FORWARD) iface ! f))"
proof -
  define l where "l = gathered_lists (\<not> FORWARD) iface ! f"
  have find: "map_find iface (fst (iface ! f)) = Some (snd (iface ! f))"
    using assms(1,2) by (simp add: map_find_def std_map_def map_of_nth)
  have l: "(if FORWARD then snd (snd (iface ! f)) else fst (snd (iface ! f))) = l"
    using assms(2) by (simp add: l_def gathered_lists_def)
  have "scatter_SizeOne_loop scatter (fst (iface ! f)) rb start l (data, 0, []) =
     Some (scatter_list scatter data (take (length l) (drop (start + 0) rb)) l,
           0 + length l,
           [] @ map (\<lambda>j. Scatter (fst (iface ! f)) (start + 0 + j) (l ! j) None) [0..<length l])"
    using assms(3) by (intro scatter_SizeOne_loop_result) (simp add: l_def)
  then show ?thesis
    by (simp add: MessageScatterer_SizeOne_def find l scatter_trace_def l_def [symmetric])
qed

section \<open>Properties of the plan and of the posted requests\<close>

lemma length_plan [simp]: "length (plan sz cs cr iface) = length iface"
  by (simp add: plan_def plan_from_def)

lemma map_fst_plan: "map fst (plan sz cs cr iface) = map fst iface"
  by (rule nth_equalityI) (simp_all add: plan_def plan_from_def)

lemma cnt_send_fun:
  "cnt_send True cs cr = cs \<circ> fst \<circ> snd"
  "cnt_send False cs cr = cr \<circ> snd \<circ> snd"
  by (simp_all add: fun_eq_iff cnt_send_def)

lemma nth_plan:
  "k < length iface \<Longrightarrow>
   plan sz cs cr iface ! k =
     (fst (iface ! k),
      \<lparr>mi_start = slab_start True cs cr iface k, mi_size = cnt_send True cs cr (iface ! k) * sz\<rparr>,
      \<lparr>mi_start = slab_start False cs cr iface k, mi_size = cnt_send False cs cr (iface ! k) * sz\<rparr>)"
  by (simp add: plan_def plan_from_def slab_start_def cnt_send_fun)

lemma send_info_plan:
  "k < length iface \<Longrightarrow>
   (if FORWARD then fst (snd (plan sz cs cr iface ! k)) else snd (snd (plan sz cs cr iface ! k))) =
     \<lparr>mi_start = slab_start FORWARD cs cr iface k, mi_size = cnt_send FORWARD cs cr (iface ! k) * sz\<rparr>"
  by (simp add: nth_plan)

lemma recv_info_plan:
  "k < length iface \<Longrightarrow>
   (if FORWARD then snd (snd (plan sz cs cr iface ! k)) else fst (snd (plan sz cs cr iface ! k))) =
     \<lparr>mi_start = slab_start (\<not> FORWARD) cs cr iface k,
      mi_size = cnt_send (\<not> FORWARD) cs cr (iface ! k) * sz\<rparr>"
  by (simp add: nth_plan)

lemma sum_list_take_nth_le:
  "k < length xs \<Longrightarrow> sum_list (map g (take k xs)) + g (xs ! k) \<le> sum_list (map (g :: 'x \<Rightarrow> nat) xs)"
proof -
  assume k: "k < length xs"
  have "sum_list (map g xs) = sum_list (map g (take k xs @ xs ! k # drop (Suc k) xs))"
    using k by (simp only: id_take_nth_drop [symmetric])
  then show ?thesis by simp
qed

lemma slab_in_buffer:
  "k < length iface \<Longrightarrow>
   slab_start F cs cr iface k + cnt_send F cs cr (iface ! k) \<le> sum_list (map (cnt_send F cs cr) iface)"
  unfolding slab_start_def by (rule sum_list_take_nth_le)

lemma slab_bytes_in_buffer:
  assumes "k < length iface"
  shows "slab_start F cs cr iface k * sz + cnt_send F cs cr (iface ! k) * sz \<le>
         sum_list (map (cnt_send F cs cr) iface) * sz"
proof -
  have "(slab_start F cs cr iface k + cnt_send F cs cr (iface ! k)) * sz \<le>
        sum_list (map (cnt_send F cs cr) iface) * sz"
    using slab_in_buffer [OF assms] by (rule mult_le_mono1)
  then show ?thesis by (simp add: add_mult_distrib)
qed

lemma post_receives_result:
  "\<forall>info \<in> set mi. mi_start (if FORWARD then snd (snd info) else fst (snd info)) * sz +
                     mi_size (if FORWARD then snd (snd info) else fst (snd info)) \<le> bufSize \<Longrightarrow>
   post_receives sz FORWARD bufSize mi tr =
     Some (tr @ map (\<lambda>info. Irecv (fst info)
                      (mi_start (if FORWARD then snd (snd info) else fst (snd info)))
                      (mi_size (if FORWARD then snd (snd info) else fst (snd info)))) mi)"
  by (induction mi arbitrary: tr) (simp_all add: Let_def)

lemma post_sends_result:
  "\<forall>info \<in> set mi. mi_start (if FORWARD then fst (snd info) else snd (snd info)) * sz +
                     mi_size (if FORWARD then fst (snd info) else snd (snd info)) \<le> bufSize \<Longrightarrow>
   post_sends sz FORWARD bufSize mi tr =
     Some (tr @ map (\<lambda>info. Issend (fst info)
                      (mi_start (if FORWARD then fst (snd info) else snd (snd info)))
                      (mi_size (if FORWARD then fst (snd info) else snd (snd info)))) mi)"
  by (induction mi arbitrary: tr) (simp_all add: Let_def)

lemma map_nth_conv: "map h xs = map (\<lambda>k. h (xs ! k)) [0..<length xs]"
  by (rule nth_equalityI) simp_all

lemma post_receives_plan:
  "post_receives sz FORWARD (sum_list (map (cnt_send (\<not> FORWARD) cs cr) iface) * sz)
     (plan sz cs cr iface) tr = Some (tr @ irecv_trace sz FORWARD cs cr iface)"
proof -
  let ?mi = "plan sz cs cr iface"
  let ?sel = "\<lambda>info. if FORWARD then snd (snd info) else fst (snd info)"
  have a: "\<forall>info \<in> set ?mi. mi_start (?sel info) * sz + mi_size (?sel info) \<le>
             sum_list (map (cnt_send (\<not> FORWARD) cs cr) iface) * sz"
  proof
    fix info assume "info \<in> set ?mi"
    then obtain k where k: "k < length iface" "info = ?mi ! k"
      by (auto simp: in_set_conv_nth)
    show "mi_start (?sel info) * sz + mi_size (?sel info) \<le>
             sum_list (map (cnt_send (\<not> FORWARD) cs cr) iface) * sz"
      using slab_bytes_in_buffer [OF k(1), of "\<not> FORWARD" cs cr sz]
      by (simp only: k(2) recv_info_plan [OF k(1)] MessageInformation.simps)
  qed
  have b: "map (\<lambda>info. Irecv (fst info) (mi_start (?sel info)) (mi_size (?sel info))) ?mi =
           irecv_trace sz FORWARD cs cr iface"
    unfolding irecv_trace_def
    by (subst map_nth_conv, rule nth_equalityI)
       (simp_all add: nth_plan del: upt_Suc)
  show ?thesis
    using post_receives_result [OF a, of tr] by (simp only: b)
qed

lemma post_sends_plan:
  "post_sends sz FORWARD (sum_list (map (cnt_send FORWARD cs cr) iface) * sz)
     (plan sz cs cr iface) tr = Some (tr @ issend_trace sz FORWARD cs cr iface)"
proof -
  let ?mi = "plan sz cs cr iface"
  let ?sel = "\<lambda>info. if FORWARD then fst (snd info) else snd (snd info)"
  have a: "\<forall>info \<in> set ?mi. mi_start (?sel info) * sz + mi_size (?sel info) \<le>
             sum_list (map (cnt_send FORWARD cs cr) iface) * sz"
  proof
    fix info assume "info \<in> set ?mi"
    then obtain k where k: "k < length iface" "info = ?mi ! k"
      by (auto simp: in_set_conv_nth)
    show "mi_start (?sel info) * sz + mi_size (?sel info) \<le>
             sum_list (map (cnt_send FORWARD cs cr) iface) * sz"
      using slab_bytes_in_buffer [OF k(1), of FORWARD cs cr sz]
      by (simp only: k(2) send_info_plan [OF k(1)] MessageInformation.simps)
  qed
  have b: "map (\<lambda>info. Issend (fst info) (mi_start (?sel info)) (mi_size (?sel info))) ?mi =
           issend_trace sz FORWARD cs cr iface"
    unfolding issend_trace_def
    by (subst map_nth_conv, rule nth_equalityI)
       (simp_all add: nth_plan del: upt_Suc)
  show ?thesis
    using post_sends_result [OF a, of tr] by (simp only: b)
qed

section \<open>Properties of the loops of the exchange\<close>

lemma length_receive:
  "mi_start info + mi_size info div sz \<le> length rb \<Longrightarrow> length (receive sz rb info msg) = length rb"
  by (auto simp: receive_def Let_def min_def)

lemma std_map_plan: "std_map iface \<Longrightarrow> std_map (plan sz cs cr iface)"
  by (simp add: std_map_def map_fst_plan)

lemma receive_loop_step:
  assumes std: "std_map iface" and sz: "0 < sz" and f: "f < length iface"
    and wa: "MPI_Waitany env i = (Some f, status)"
    and len: "length rb = sum_list (map (cnt_send (\<not> FORWARD) cs cr) iface)"
    and sc: "status = MPI_SUCCESS \<Longrightarrow>
             scatterer FORWARD iface dest
               (receive sz rb (if FORWARD then snd (snd (plan sz cs cr iface ! f))
                               else fst (snd (plan sz cs cr iface ! f)))
                  (incoming env (fst (plan sz cs cr iface ! f))))
               (slab_start (\<not> FORWARD) cs cr iface f) (fst (iface ! f)) =
             Some (val f dest
               (receive sz rb (if FORWARD then snd (snd (plan sz cs cr iface ! f))
                               else fst (snd (plan sz cs cr iface ! f)))
                  (incoming env (fst (plan sz cs cr iface ! f)))), ev f)"
  shows "receive_loop env rank sz scatterer FORWARD iface (plan sz cs cr iface)
           (sum_list (map (cnt_send (\<not> FORWARD) cs cr) iface) * sz) (i # rest)
           (dest, rb, success, finished, err, tr) =
         receive_loop env rank sz scatterer FORWARD iface (plan sz cs cr iface)
           (sum_list (map (cnt_send (\<not> FORWARD) cs cr) iface) * sz) rest
           (receive_step env rank sz FORWARD (plan sz cs cr iface) val ev
              (dest, rb, success, finished, err, tr) i)"
proof -
  let ?mi = "plan sz cs cr iface"
  let ?R = "sum_list (map (cnt_send (\<not> FORWARD) cs cr) iface)"
  define info where "info = (if FORWARD then snd (snd (?mi ! f)) else fst (snd (?mi ! f)))"
  have info: "info = \<lparr>mi_start = slab_start (\<not> FORWARD) cs cr iface f,
                      mi_size = cnt_send (\<not> FORWARD) cs cr (iface ! f) * sz\<rparr>"
    unfolding info_def by (rule recv_info_plan [OF f])
  have proc: "at (map fst ?mi) f = Some (fst (iface ! f))"
    using f by (simp add: at_def map_fst_plan)
  have fst_mi: "fst (?mi ! f) = fst (iface ! f)"
    using f by (simp add: nth_plan)
  have find: "map_find ?mi (fst (iface ! f)) = Some (snd (?mi ! f))"
    using map_of_nth [of ?mi f] std_map_plan [OF std, of sz cs cr] f
    by (simp add: map_find_def std_map_def fst_mi)
  have "mi_start info + mi_size info \<le> mi_start info * sz + mi_size info"
    using sz by simp
  also have "\<dots> \<le> ?R * sz"
    using slab_bytes_in_buffer [OF f, of "\<not> FORWARD" cs cr sz] by (simp add: info)
  finally have ok: "mi_start info + mi_size info \<le> ?R * sz" .
  have start: "mi_start info = slab_start (\<not> FORWARD) cs cr iface f"
    by (simp add: info)
  show ?thesis
  proof (cases "status = MPI_SUCCESS")
    case True
    show ?thesis
      using sc [OF True] ok
      by (simp add: wa True proc find info_def [symmetric] fst_mi receive_step_def Let_def start)
  next
    case False
    show ?thesis
      by (simp add: wa False proc fst_mi receive_step_def)
  qed
qed

lemma receive_loop_fold:
  assumes std: "std_map iface" and sz: "0 < sz"
    and sc: "\<And>f dest rb. f < length iface \<Longrightarrow> I dest \<Longrightarrow>
               length rb = sum_list (map (cnt_send (\<not> FORWARD) cs cr) iface) \<Longrightarrow>
               scatterer FORWARD iface dest rb (slab_start (\<not> FORWARD) cs cr iface f) (fst (iface ! f)) =
                 Some (val f dest rb, ev f) \<and> I (val f dest rb)"
  shows "\<forall>i \<in> set calls. \<exists>f < length iface. fst (MPI_Waitany env i) = Some f \<Longrightarrow>
         I dest \<Longrightarrow> length rb = sum_list (map (cnt_send (\<not> FORWARD) cs cr) iface) \<Longrightarrow>
         receive_loop env rank sz scatterer FORWARD iface (plan sz cs cr iface)
           (sum_list (map (cnt_send (\<not> FORWARD) cs cr) iface) * sz) calls
           (dest, rb, success, finished, err, tr) =
         Some (foldl (receive_step env rank sz FORWARD (plan sz cs cr iface) val ev)
                 (dest, rb, success, finished, err, tr) calls)"
proof (induction calls arbitrary: dest rb success finished err tr)
  case Nil
  then show ?case by simp
next
  case (Cons i rest)
  let ?mi = "plan sz cs cr iface"
  let ?R = "sum_list (map (cnt_send (\<not> FORWARD) cs cr) iface)"
  from Cons.prems(1) obtain f where f: "f < length iface" "fst (MPI_Waitany env i) = Some f"
    by auto
  then obtain status where wa: "MPI_Waitany env i = (Some f, status)"
    by (cases "MPI_Waitany env i") simp
  define info where "info = (if FORWARD then snd (snd (?mi ! f)) else fst (snd (?mi ! f)))"
  have info: "info = \<lparr>mi_start = slab_start (\<not> FORWARD) cs cr iface f,
                      mi_size = cnt_send (\<not> FORWARD) cs cr (iface ! f) * sz\<rparr>"
    unfolding info_def by (rule recv_info_plan [OF f(1)])
  define rb' where "rb' = receive sz rb info (incoming env (fst (?mi ! f)))"
  have len': "length rb' = ?R"
    unfolding rb'_def
    using slab_in_buffer [OF f(1), of "\<not> FORWARD" cs cr] sz Cons.prems(3)
    by (subst length_receive) (simp_all add: info)
  have scat: "scatterer FORWARD iface dest rb' (slab_start (\<not> FORWARD) cs cr iface f) (fst (iface ! f)) =
                Some (val f dest rb', ev f)" and I': "I (val f dest rb')"
    using sc [OF f(1) Cons.prems(2) len'] by simp_all
  have step: "receive_loop env rank sz scatterer FORWARD iface ?mi (?R * sz) (i # rest)
           (dest, rb, success, finished, err, tr) =
         receive_loop env rank sz scatterer FORWARD iface ?mi (?R * sz) rest
           (receive_step env rank sz FORWARD ?mi val ev (dest, rb, success, finished, err, tr) i)"
    using scat
    by (intro receive_loop_step [OF std sz f(1) wa Cons.prems(3)])
       (simp add: rb'_def info_def)
  have rest: "\<forall>i \<in> set rest. \<exists>f < length iface. fst (MPI_Waitany env i) = Some f"
    using Cons.prems(1) by simp
  show ?case
  proof (cases "status = MPI_SUCCESS")
    case True
    have st: "receive_step env rank sz FORWARD ?mi val ev (dest, rb, success, finished, err, tr) i =
              (val f dest rb', rb', success, Some f, err, tr @ Waitany (Some f) # ev f)"
      by (simp add: receive_step_def wa True Let_def rb'_def info_def)
    show ?thesis
      by (simp only: step st foldl_Cons Cons.IH [OF rest I' len'])
  next
    case False
    have st: "receive_step env rank sz FORWARD ?mi val ev (dest, rb, success, finished, err, tr) i =
              (dest, rb, 0, Some f, err @ [ReceiveError rank (fst (?mi ! f))], tr @ [Waitany (Some f)])"
      by (simp add: receive_step_def wa False)
    show ?thesis
      by (simp only: step st foldl_Cons Cons.IH [OF rest Cons.prems(2,3)])
  qed
qed

lemma receive_fold_flags:
  "\<forall>i \<in> set calls. \<exists>f. fst (MPI_Waitany env i) = Some f \<Longrightarrow>
   foldl (receive_step env rank sz FORWARD mi val ev) (dest, rb, success, finished, err, tr) calls =
     (d', rb', success', finished', err', tr') \<Longrightarrow>
   success' = (if list_ex (\<lambda>i. snd (MPI_Waitany env i) \<noteq> MPI_SUCCESS) calls then 0 else success) \<and>
   finished' = (if calls = [] then finished else fst (MPI_Waitany env (last calls))) \<and>
   err' = err @ concat (map (receive_diagnostics env rank mi) calls) \<and>
   tr' = tr @ concat (map (completion_trace env ev) calls)"
proof (induction calls arbitrary: dest rb success finished err tr)
  case Nil
  then show ?case by simp
next
  case (Cons i rest)
  from Cons.prems(1) obtain f status where wa: "MPI_Waitany env i = (Some f, status)"
    by (cases "MPI_Waitany env i") auto
  have rest: "\<forall>i \<in> set rest. \<exists>f. fst (MPI_Waitany env i) = Some f"
    using Cons.prems(1) by simp
  show ?case
  proof (cases "status = MPI_SUCCESS")
    case True
    define rbn where "rbn = receive sz rb (if FORWARD then snd (snd (mi ! f)) else fst (snd (mi ! f)))
                               (incoming env (fst (mi ! f)))"
    have st: "receive_step env rank sz FORWARD mi val ev (dest, rb, success, finished, err, tr) i =
              (val f dest rbn, rbn, success, Some f, err, tr @ Waitany (Some f) # ev f)"
      by (simp add: receive_step_def wa True Let_def rbn_def)
    from Cons.prems(2) have
      "foldl (receive_step env rank sz FORWARD mi val ev)
         (val f dest rbn, rbn, success, Some f, err, tr @ Waitany (Some f) # ev f) rest =
       (d', rb', success', finished', err', tr')"
      by (simp only: foldl_Cons st)
    from Cons.IH [OF rest this] show ?thesis
      by (simp add: wa True completion_trace_def receive_diagnostics_def)
  next
    case False
    have st: "receive_step env rank sz FORWARD mi val ev (dest, rb, success, finished, err, tr) i =
              (dest, rb, 0, Some f, err @ [ReceiveError rank (fst (mi ! f))], tr @ [Waitany (Some f)])"
      by (simp add: receive_step_def wa False)
    from Cons.prems(2) have
      "foldl (receive_step env rank sz FORWARD mi val ev)
         (dest, rb, 0, Some f, err @ [ReceiveError rank (fst (mi ! f))], tr @ [Waitany (Some f)]) rest =
       (d', rb', success', finished', err', tr')"
      by (simp only: foldl_Cons st)
    from Cons.IH [OF rest this] show ?thesis
      by (simp add: wa False completion_trace_def receive_diagnostics_def)
  qed
qed

lemma wait_loop_result:
  "(\<exists>f. finished = Some f \<and> f < length processMap) \<or> calls = [] \<Longrightarrow>
   wait_loop env rank processMap finished calls (success, err, tr) =
     Some (if list_ex (\<lambda>i. MPI_Wait env i \<noteq> MPI_SUCCESS) calls then 0 else success,
           err @ concat (map (send_diagnostics env rank processMap finished) calls),
           tr @ map Wait calls)"
proof (induction calls arbitrary: success err tr)
  case Nil
  then show ?case by simp
next
  case (Cons i rest)
  from Cons.prems obtain f where f: "finished = Some f" "f < length processMap" by auto
  have ih: "wait_loop env rank processMap finished rest (s, e, t) =
     Some (if list_ex (\<lambda>i. MPI_Wait env i \<noteq> MPI_SUCCESS) rest then 0 else s,
           e @ concat (map (send_diagnostics env rank processMap finished) rest),
           t @ map Wait rest)" for s e t
    using f by (intro Cons.IH) simp
  have hd: "send_diagnostics env rank processMap (Some f) i =
              (if MPI_Wait env i \<noteq> MPI_SUCCESS then [SendError rank (processMap ! f)] else [])"
    by (simp add: send_diagnostics_def)
  show ?case
    using f(2) unfolding f(1)
    by (simp add: ih [unfolded f(1)] at_def hd)
qed

lemma receive_fold_deliver:
  "foldl (receive_step env rank sz FORWARD mi val ev) (dest, rb, success, finished, err, tr) calls =
     (d', rb', rest') \<Longrightarrow>
   foldl (deliver env sz FORWARD mi val) (dest, rb) calls = (d', rb')"
proof (induction calls arbitrary: dest rb success finished err tr)
  case Nil
  then show ?case by simp
next
  case (Cons i calls)
  obtain d1 rb1 s1 f1 e1 t1 where st:
    "receive_step env rank sz FORWARD mi val ev (dest, rb, success, finished, err, tr) i =
       (d1, rb1, s1, f1, e1, t1)"
    by (metis prod_cases6)
  have dl: "deliver env sz FORWARD mi val (dest, rb) i = (d1, rb1)"
    using st by (auto simp: receive_step_def deliver_def Let_def split: prod.splits option.splits if_splits)
  from Cons.prems have "foldl (receive_step env rank sz FORWARD mi val ev) (d1, rb1, s1, f1, e1, t1) calls =
     (d', rb', rest')"
    by (simp only: foldl_Cons st)
  from Cons.IH [OF this] show ?case by (simp only: foldl_Cons dl)
qed

lemma planned_send_side:
  "planned sz cs cr iface c \<Longrightarrow>
   (if FORWARD then fst (bufferSize c) else snd (bufferSize c)) =
     sum_list (map (cnt_send FORWARD cs cr) iface) * sz \<and>
   length (if FORWARD then fst (buffers c) else snd (buffers c)) =
     sum_list (map (cnt_send FORWARD cs cr) iface)"
  by (simp add: planned_def cnt_send_fun)

lemma planned_recv_side:
  "planned sz cs cr iface c \<Longrightarrow>
   (if FORWARD then snd (bufferSize c) else fst (bufferSize c)) =
     sum_list (map (cnt_send (\<not> FORWARD) cs cr) iface) * sz \<and>
   length (if FORWARD then snd (buffers c) else fst (buffers c)) =
     sum_list (map (cnt_send (\<not> FORWARD) cs cr) iface)"
  by (simp add: planned_def cnt_send_fun)

lemma list_ex_upt_or:
  "(list_ex P [0..<n] \<or> list_ex Q [0..<n]) = list_ex (\<lambda>i. P i \<or> Q i) [0..<n]"
  by (auto simp: list_ex_iff)

lemma sendRecv_result:
  fixes c :: "'a BufferedCommunicator" and dest :: 'd
  assumes std: "std_map iface" and sz: "0 < sz" and pl: "planned sz cs cr iface c"
    and gath: "gatherer FORWARD iface source (if FORWARD then fst (buffers c) else snd (buffers c))
                 (sum_list (map (cnt_send FORWARD cs cr) iface) * sz) = Some (sb, gev)"
    and sc: "\<And>f dest rb. f < length iface \<Longrightarrow> I dest \<Longrightarrow>
               length rb = sum_list (map (cnt_send (\<not> FORWARD) cs cr) iface) \<Longrightarrow>
               scatterer FORWARD iface dest rb (slab_start (\<not> FORWARD) cs cr iface f) (fst (iface ! f)) =
                 Some (val f dest rb, ev f) \<and> I (val f dest rb)"
    and wa: "\<forall>i < length iface. \<exists>f < length iface. fst (MPI_Waitany env i) = Some f"
    and I: "I dest"
  shows "sendRecv env sz gatherer scatterer FORWARD c source dest =
         Some \<lparr>comm = c\<lparr>buffers :=
                  (let rb' = snd (foldl (deliver env sz FORWARD (plan sz cs cr iface) val)
                                   (dest, if FORWARD then snd (buffers c) else fst (buffers c))
                                   [0..<length iface])
                   in if FORWARD then (sb, rb') else (rb', sb))\<rparr>,
               target = fst (foldl (deliver env sz FORWARD (plan sz cs cr iface) val)
                               (dest, if FORWARD then snd (buffers c) else fst (buffers c))
                               [0..<length iface]),
               posted = posted_messages sz FORWARD sb (plan sz cs cr iface),
               cerr = concat (map (receive_diagnostics env (MPI_Comm_rank env MPI_COMM_WORLD)
                                (plan sz cs cr iface)) [0..<length iface]) @
                      concat (map (send_diagnostics env (MPI_Comm_rank env MPI_COMM_WORLD)
                                (map fst iface)
                                (if length iface = 0 then None
                                 else fst (MPI_Waitany env (length iface - 1)))) [0..<length iface]),
               trace = gev @ irecv_trace sz FORWARD cs cr iface @ issend_trace sz FORWARD cs cr iface @
                       concat (map (completion_trace env ev) [0..<length iface]) @
                       map Wait [0..<length iface] @ [Allreduce (success_flag env (length iface))],
               local_success = success_flag env (length iface),
               CommunicationError =
                 (MPI_Allreduce_MIN (success_flag env (length iface)) (peer_success env) = 0)\<rparr>"
proof -
  let ?mi = "plan sz cs cr iface"
  let ?n = "length iface"
  let ?rank = "MPI_Comm_rank env MPI_COMM_WORLD"
  let ?rb = "if FORWARD then snd (buffers c) else fst (buffers c)"
  let ?R = "sum_list (map (cnt_send (\<not> FORWARD) cs cr) iface)"
  let ?t0 = "gev @ irecv_trace sz FORWARD cs cr iface @ issend_trace sz FORWARD cs cr iface"
  have mi: "messageInformation c = ?mi" and ifp: "interfaceP c = Some iface"
    using pl by (simp_all add: planned_def)
  note ss = planned_send_side [OF pl, of FORWARD]
  note rs = planned_recv_side [OF pl, of FORWARD]
  have wa': "\<forall>i \<in> set [0..<?n]. \<exists>f < ?n. fst (MPI_Waitany env i) = Some f"
    using wa by simp
  then have wa'': "\<forall>i \<in> set [0..<?n]. \<exists>f. fst (MPI_Waitany env i) = Some f"
    by blast
  obtain d1 rb1 s1 f1 e1 t1 where fold:
    "foldl (receive_step env ?rank sz FORWARD ?mi val ev) (dest, ?rb, 1, None, [], ?t0) [0..<?n] =
       (d1, rb1, s1, f1, e1, t1)"
    by (metis prod_cases6)
  have rl: "receive_loop env ?rank sz scatterer FORWARD iface ?mi (?R * sz) [0..<?n]
              (dest, ?rb, 1, None, [], ?t0) = Some (d1, rb1, s1, f1, e1, t1)"
    using receive_loop_fold [where I = I and scatterer = scatterer and val = val and ev = ev
        and FORWARD = FORWARD and cs = cs and cr = cr and iface = iface and sz = sz
        and calls = "[0..<?n]" and env = env and dest = dest and rb = ?rb and rank = ?rank
        and success = 1 and finished = None and err = "[]" and tr = ?t0,
        OF std sz sc wa' I]
      rs fold by simp
  note fl = receive_fold_flags [OF wa'' fold]
  have dl: "foldl (deliver env sz FORWARD ?mi val) (dest, ?rb) [0..<?n] = (d1, rb1)"
    using fold by (rule receive_fold_deliver)
  have fin: "(\<exists>f. f1 = Some f \<and> f < length (map fst ?mi)) \<or> [0..<?n] = []"
  proof (cases "?n = 0")
    case True
    then show ?thesis by simp
  next
    case False
    then have "?n - 1 < ?n" by simp
    with wa obtain f where "f < ?n" "fst (MPI_Waitany env (?n - 1)) = Some f" by blast
    moreover have "last [0..<?n] = ?n - 1"
      using False by (cases ?n) simp_all
    ultimately show ?thesis using fl False by simp
  qed
  have f1: "f1 = (if ?n = 0 then None else fst (MPI_Waitany env (?n - 1)))"
  proof (cases "?n = 0")
    case True
    then show ?thesis using fl by simp
  next
    case False
    moreover have "last [0..<?n] = ?n - 1"
      using False by (cases ?n) simp_all
    ultimately show ?thesis using fl by simp
  qed
  note wl = wait_loop_result [OF fin, of env ?rank s1 e1 t1]
  have flag: "(if list_ex (\<lambda>i. MPI_Wait env i \<noteq> MPI_SUCCESS) [0..<?n] then 0 else s1) =
              success_flag env ?n"
    using fl by (auto simp: success_flag_def list_ex_iff)
  show ?thesis
    unfolding sendRecv_def Let_def
    apply (simp only: ifp bind.bind_lunit ss rs gath mi prod.case length_plan
        post_receives_plan post_sends_plan)
    apply (simp only: append_assoc rl bind.bind_lunit prod.case wl flag dl fst_conv snd_conv)
    apply (simp add: fl f1 map_fst_plan)
    done
qed

section \<open>The exchange on a planned communicator\<close>

lemma cnt_send_length:
  "map (cnt_send F length length) iface = map length (gathered_lists F iface)"
  by (simp add: cnt_send_def gathered_lists_def)


lemma cnt_send_length_nth:
  "k < length iface \<Longrightarrow>
   cnt_send F length length (iface ! k) = length (gathered_lists F iface ! k)"
  by (simp add: cnt_send_def gathered_lists_def)

lemma slab_start_length: "slab_start F length length iface k = offset (gathered_lists F iface) k"
  by (simp add: slab_start_def offset_def cnt_send_length take_map [symmetric])

lemma planned_build_SizeOne:
  "std_map iface \<Longrightarrow> messageInformation c0 = [] \<Longrightarrow> 0 < sz \<Longrightarrow>
   planned sz length length iface (build_SizeOne env sz u iface c0)"
  by (simp add: planned_def build_SizeOne_plan build_SizeOne_bufferSize build_SizeOne_buffers
      build_SizeOne_interfaceP)

lemma sendRecv_SizeOne_result:
  fixes c :: "'a BufferedCommunicator" and dest :: 'd
  assumes std: "std_map iface" and sz: "0 < sz" and pl: "planned sz length length iface c"
    and wa: "\<forall>i < length iface. \<exists>f < length iface. fst (MPI_Waitany env i) = Some f"
  shows "sendRecv env sz (MessageGatherer_SizeOne env' checking sz gather)
           (MessageScatterer_SizeOne scatter) FORWARD c source dest =
         Some \<lparr>comm = c\<lparr>buffers :=
                  (let rb' = snd (foldl (deliver env sz FORWARD (plan sz length length iface)
                                          (scatter_SizeOne_val scatter FORWARD iface))
                                   (dest, if FORWARD then snd (buffers c) else fst (buffers c))
                                   [0..<length iface])
                   in if FORWARD
                      then (concat (map (map (gather source)) (gathered_lists FORWARD iface)), rb')
                      else (rb', concat (map (map (gather source)) (gathered_lists FORWARD iface))))\<rparr>,
               target = fst (foldl (deliver env sz FORWARD (plan sz length length iface)
                                      (scatter_SizeOne_val scatter FORWARD iface))
                               (dest, if FORWARD then snd (buffers c) else fst (buffers c))
                               [0..<length iface]),
               posted = posted_messages sz FORWARD
                          (concat (map (map (gather source)) (gathered_lists FORWARD iface)))
                          (plan sz length length iface),
               cerr = concat (map (receive_diagnostics env (MPI_Comm_rank env MPI_COMM_WORLD)
                                (plan sz length length iface)) [0..<length iface]) @
                      concat (map (send_diagnostics env (MPI_Comm_rank env MPI_COMM_WORLD)
                                (map fst iface)
                                (if length iface = 0 then None
                                 else fst (MPI_Waitany env (length iface - 1)))) [0..<length iface]),
               trace = gather_trace 0 (gathered_lists FORWARD iface) @
                       irecv_trace sz FORWARD length length iface @
                       issend_trace sz FORWARD length length iface @
                       concat (map (completion_trace env (scatter_SizeOne_trace FORWARD iface))
                                 [0..<length iface]) @
                       map Wait [0..<length iface] @ [Allreduce (success_flag env (length iface))],
               local_success = success_flag env (length iface),
               CommunicationError =
                 (MPI_Allreduce_MIN (success_flag env (length iface)) (peer_success env) = 0)\<rparr>"
proof -
  let ?sb = "if FORWARD then fst (buffers c) else snd (buffers c)"
  note ss = planned_send_side [OF pl, of FORWARD]
  have g: "MessageGatherer_SizeOne env' checking sz gather FORWARD iface source ?sb
             (sum_list (map (cnt_send FORWARD length length) iface) * sz) =
           Some (concat (map (map (gather source)) (gathered_lists FORWARD iface)),
                 gather_trace 0 (gathered_lists FORWARD iface))"
    using ss by (intro MessageGatherer_SizeOne_result) (simp_all add: cnt_send_length)
  have s: "MessageScatterer_SizeOne scatter FORWARD iface d rb
             (slab_start (\<not> FORWARD) length length iface f) (fst (iface ! f)) =
           Some (scatter_SizeOne_val scatter FORWARD iface f d rb,
                 scatter_SizeOne_trace FORWARD iface f) \<and> True"
    if "f < length iface" "True"
       "length rb = sum_list (map (cnt_send (\<not> FORWARD) length length) iface)" for f d rb
  proof -
    have "slab_start (\<not> FORWARD) length length iface f +
          length (gathered_lists (\<not> FORWARD) iface ! f) \<le> length rb"
      using slab_in_buffer [OF that(1), of "\<not> FORWARD" length length]
      by (simp only: cnt_send_length_nth [OF that(1)] that(3))
    from MessageScatterer_SizeOne_result [OF std that(1) this, of scatter d]
    show ?thesis
      by (simp only: scatter_SizeOne_val_def scatter_SizeOne_trace_def slab_start_length simp_thms)
  qed
  show ?thesis
    by (rule sendRecv_result [where I = "\<lambda>_. True" and gatherer = "MessageGatherer_SizeOne env' checking sz gather"
        and scatterer = "MessageScatterer_SizeOne scatter"
        and val = "scatter_SizeOne_val scatter FORWARD iface"
        and ev = "scatter_SizeOne_trace FORWARD iface"
        and FORWARD = FORWARD and cs = length and cr = length and iface = iface and sz = sz
        and c = c and env = env and source = source and dest = dest,
        OF std sz pl g s wa TrueI])
qed

lemma all_less_two: "(\<forall>i < (2::nat). P i) = (P 0 \<and> P 1)"
  by (auto simp: less_2_cases_iff)

lemma slab_of_concat:
  "k < length ls \<Longrightarrow>
   take (length (ls ! k)) (drop (offset ls k) (concat (map (map g) ls))) = map g (ls ! k)"
proof (induction ls arbitrary: k)
  case Nil
  then show ?case by simp
next
  case (Cons l ls)
  show ?case
  proof (cases k)
    case 0
    then show ?thesis by (simp add: offset_simps)
  next
    case (Suc j)
    with Cons.prems have "j < length ls" by simp
    from Cons.IH [OF this] show ?thesis by (simp add: Suc offset_simps)
  qed
qed

lemma posted_messages_SizeOne:
  assumes "0 < sz"
  shows "posted_messages sz FORWARD (concat (map (map g) (gathered_lists FORWARD iface)))
           (plan sz length length iface) =
         map (\<lambda>k. (fst (iface ! k), map g (gathered_lists FORWARD iface ! k))) [0..<length iface]"
proof (rule nth_equalityI)
  show "length (posted_messages sz FORWARD (concat (map (map g) (gathered_lists FORWARD iface)))
           (plan sz length length iface)) =
        length (map (\<lambda>k. (fst (iface ! k), map g (gathered_lists FORWARD iface ! k))) [0..<length iface])"
    by (simp add: posted_messages_def)
next
  fix k
  assume "k < length (posted_messages sz FORWARD (concat (map (map g) (gathered_lists FORWARD iface)))
           (plan sz length length iface))"
  then have k: "k < length iface" by (simp add: posted_messages_def)
  have k': "k < length (gathered_lists FORWARD iface)" using k by (simp add: gathered_lists_def)
  have "slab sz (concat (map (map g) (gathered_lists FORWARD iface)))
          (if FORWARD then fst (snd (plan sz length length iface ! k))
           else snd (snd (plan sz length length iface ! k))) =
        map g (gathered_lists FORWARD iface ! k)"
    using assms slab_of_concat [OF k', of g]
    by (simp only: send_info_plan [OF k] slab_def MessageInformation.simps
        cnt_send_length_nth [OF k] slab_start_length nonzero_mult_div_cancel_right)
  then show "posted_messages sz FORWARD (concat (map (map g) (gathered_lists FORWARD iface)))
               (plan sz length length iface) ! k =
             map (\<lambda>k. (fst (iface ! k), map g (gathered_lists FORWARD iface ! k))) [0..<length iface] ! k"
    using k by (simp add: posted_messages_def nth_plan)
qed

section \<open>Claims about the order of an exchange\<close>

text \<open>
  Let the communicator be built for an interface while its \<open>messageInformation_\<close> was
  empty, and let every \<open>MPI_Waitany\<close> report one of the posted requests. Then
  \<open>forward(source, dest)\<close> on a fixed size container returns, and its calls are, in this
  order: for each peer in interface order and each entry of its send list the gather into
  the next slot of the send buffer; one \<open>MPI_Irecv\<close> per peer on the slab of its receive
  list; one \<open>MPI_Issend\<close> per peer on the slab of its send list; for each
  \<open>MPI_Waitany\<close>, in the order in which the receives complete, the scatter of the slots
  of the completed peer's slab over its receive list, in list order (a receive that
  completes with an error status is reported and not scattered); the waits for the sends;
  the reduction. After the gather the send buffer holds the gathered values of all send
  lists, contiguously, and each posted message holds those of its peer; the destination
  container is the one that the scatters of the completed receives leave.
\<close>

lemma forward_order_on_fresh_build:
  assumes "std_map interface" and "messageInformation c0 = []" and "0 < sz"
    and "\<forall>i < length interface. \<exists>f < length interface. fst (MPI_Waitany env i) = Some f"
  shows "\<exists>out.
     sendRecv env sz (MessageGatherer_SizeOne env checking sz gather) (MessageScatterer_SizeOne scatter)
       True (build_SizeOne env sz u interface c0) source dest = Some out \<and>
     (let sends = map (\<lambda>interfacePair. fst (snd interfacePair)) interface;
          recvs = map (\<lambda>interfacePair. snd (snd interfacePair)) interface;
          n = length interface
      in trace out =
           concat (map (\<lambda>k. map (\<lambda>i. Gather (offset sends k + i) (sends ! k ! i) None)
                                [0..<length (sends ! k)]) [0..<n]) @
           map (\<lambda>k. Irecv (fst (interface ! k)) (offset recvs k) (length (recvs ! k) * sz)) [0..<n] @
           map (\<lambda>k. Issend (fst (interface ! k)) (offset sends k) (length (sends ! k) * sz)) [0..<n] @
           concat (map (\<lambda>i. case MPI_Waitany env i of
                               (None, status) \<Rightarrow> []
                             | (Some f, status) \<Rightarrow>
                                 Waitany (Some f) #
                                 (if status = MPI_SUCCESS
                                  then map (\<lambda>j. Scatter (fst (interface ! f)) (offset recvs f + j)
                                                  (recvs ! f ! j) None) [0..<length (recvs ! f)]
                                  else [])) [0..<n]) @
           map Wait [0..<n] @
           [Allreduce (local_success out)] \<and>
         fst (buffers (comm out)) = concat (map (map (gather source)) sends) \<and>
         posted out = map (\<lambda>k. (fst (interface ! k), map (gather source) (sends ! k))) [0..<n] \<and>
         target out =
           fst (foldl (deliver env sz True (plan sz length length interface)
                         (scatter_SizeOne_val scatter True interface))
                  (dest, replicate (sum_list (map length recvs)) u) [0..<n]))"
proof -
  define sends where "sends = map (\<lambda>interfacePair. fst (snd interfacePair)) interface"
  define recvs where "recvs = map (\<lambda>interfacePair. snd (snd interfacePair)) interface"
  have gl: "gathered_lists True interface = sends" "gathered_lists False interface = recvs"
    by (simp_all add: gathered_lists_def sends_def recvs_def)
  have pl: "planned sz length length interface (build_SizeOne env sz u interface c0)"
    using assms(1-3) by (rule planned_build_SizeOne)
  note r = sendRecv_SizeOne_result [OF assms(1,3) pl assms(4), of env "checking" gather scatter True
      source dest]
  have n: "length sends = length interface" "length recvs = length interface"
    by (simp_all add: sends_def recvs_def)
  have ir: "irecv_trace sz True length length interface =
            map (\<lambda>k. Irecv (fst (interface ! k)) (offset recvs k) (length (recvs ! k) * sz))
              [0..<length interface]"
    unfolding irecv_trace_def
    by (rule map_cong [OF refl]) (simp add: slab_start_length cnt_send_length_nth gl)
  have iss: "issend_trace sz True length length interface =
            map (\<lambda>k. Issend (fst (interface ! k)) (offset sends k) (length (sends ! k) * sz))
              [0..<length interface]"
    unfolding issend_trace_def
    by (rule map_cong [OF refl]) (simp add: slab_start_length cnt_send_length_nth gl)
  have ct: "completion_trace env (scatter_SizeOne_trace True interface) =
            (\<lambda>i. case MPI_Waitany env i of
                    (None, status) \<Rightarrow> []
                  | (Some f, status) \<Rightarrow>
                      Waitany (Some f) #
                      (if status = MPI_SUCCESS
                       then map (\<lambda>j. Scatter (fst (interface ! f)) (offset recvs f + j)
                                       (recvs ! f ! j) None) [0..<length (recvs ! f)]
                       else []))"
    by (simp add: fun_eq_iff completion_trace_def scatter_SizeOne_trace_def scatter_trace_def gl
        split: prod.splits option.splits)
  have gt: "gather_trace 0 sends =
            concat (map (\<lambda>k. map (\<lambda>i. Gather (offset sends k + i) (sends ! k ! i) None)
                                [0..<length (sends ! k)]) [0..<length interface])"
    by (simp add: gather_trace_def n)
  have pm: "posted_messages sz True (concat (map (map (gather source)) sends))
              (plan sz length length interface) =
            map (\<lambda>k. (fst (interface ! k), map (gather source) (sends ! k))) [0..<length interface]"
    using posted_messages_SizeOne [OF assms(3), of True "gather source" interface]
    by (simp only: gl)
  have rb: "snd (buffers (build_SizeOne env sz u interface c0)) =
            replicate (sum_list (map length recvs)) u"
    using assms(3) by (simp add: build_SizeOne_buffers recvs_def comp_def)
  show ?thesis
    unfolding Let_def sends_def [symmetric] recvs_def [symmetric]
    by (rule exI, rule conjI, rule r) (simp add: gl ir iss ct gt pm rb)
qed

text \<open>
  Claim C1 fails on a communicator that is built a second time, for the reason for
  which C2 fails there: \<open>build\<close> keeps the entry that \<open>messageInformation_\<close> has for the
  peer. The communicator is built for an interface in which peer 1 receives position 1
  and then for one in which it receives positions 1 and 2. The receive is posted for 8
  bytes, the one element of the kept entry, and completes with the one value 100 that a
  peer with the same kept entry sends. The scatter over the receive list reads two slots:
  the second lies outside the slab of the posted receive and holds what the fresh buffer
  held, which ends at position 2 of the destination container. With \<open>free\<close> between the
  two calls of \<open>build\<close> the receive is posted for 16 bytes, the peer sends 100 and 101,
  and the scatter reads the two received values.
\<close>

theorem C1_rebuilt_scatter_leaves_slab:
  "map_option (\<lambda>out. (trace out, target out))
     (sendRecv env_single 8
        (MessageGatherer_SizeOne env_single True 8 CopyGatherScatter_gather)
        (MessageScatterer_SizeOne CopyGatherScatter_scatter)
        True rebuilt [10, 11, 12] [20, 21, 22]) =
   Some ([Gather 0 0 None, Irecv 1 0 8, Issend 1 0 8,
          Waitany (Some 0), Scatter 1 0 1 None, Scatter 1 1 2 None,
          Wait 0, Allreduce 1],
         [20, 100, - 1]) \<and>
   map_option (\<lambda>out. (trace out, target out))
     (sendRecv (env_single\<lparr>incoming := (\<lambda>_. [100, 101])\<rparr>) 8
        (MessageGatherer_SizeOne env_single True 8 CopyGatherScatter_gather)
        (MessageScatterer_SizeOne CopyGatherScatter_scatter)
        True
        (build_SizeOne env_example 8 (- 1) interface_second
           (free (build_SizeOne env_example 8 (- 1) interface_first BufferedCommunicator)))
        [10, 11, 12] [20, 21, 22]) =
   Some ([Gather 0 0 None, Irecv 1 0 16, Issend 1 0 8,
          Waitany (Some 0), Scatter 1 0 1 None, Scatter 1 1 2 None,
          Wait 0, Allreduce 1],
         [20, 100, 101])"
proof -
  have 1: "map_option (\<lambda>out. (trace out, target out))
     (sendRecv env_single 8
        (MessageGatherer_SizeOne env_single True 8 CopyGatherScatter_gather)
        (MessageScatterer_SizeOne CopyGatherScatter_scatter)
        True rebuilt [10, 11, 12] [20, 21, 22]) =
   Some ([Gather 0 0 None, Irecv 1 0 8, Issend 1 0 8,
          Waitany (Some 0), Scatter 1 0 1 None, Scatter 1 1 2 None,
          Wait 0, Allreduce 1],
         [20, 100, - 1])"
    by code_simp
  have 2: "map_option (\<lambda>out. (trace out, target out))
     (sendRecv (env_single\<lparr>incoming := (\<lambda>_. [100, 101])\<rparr>) 8
        (MessageGatherer_SizeOne env_single True 8 CopyGatherScatter_gather)
        (MessageScatterer_SizeOne CopyGatherScatter_scatter)
        True
        (build_SizeOne env_example 8 (- 1) interface_second
           (free (build_SizeOne env_example 8 (- 1) interface_first BufferedCommunicator)))
        [10, 11, 12] [20, 21, 22]) =
   Some ([Gather 0 0 None, Irecv 1 0 16, Issend 1 0 8,
          Waitany (Some 0), Scatter 1 0 1 None, Scatter 1 1 2 None,
          Wait 0, Allreduce 1],
         [20, 100, 101])"
    by code_simp
  show ?thesis using 1 2 by (rule conjI)
qed

section \<open>The overloads with one container\<close>

text \<open>
  Claim C7. \<open>forward(data)\<close> and \<open>backward(data)\<close> are \<open>forward(source, dest)\<close> and
  \<open>backward(source, dest)\<close> with both references bound to \<open>data\<close>: each pair calls
  \<open>sendRecv\<close> with the same flag, and \<open>backward(source, dest)\<close> gathers from \<open>dest\<close> and
  scatters into \<open>source\<close>.
\<close>

theorem C7_same_container:
  "forward_data env sz gatherer scatterer c data st =
     forward env sz gatherer scatterer c data data st \<and>
   backward_data env sz gatherer scatterer c data st =
     backward env sz gatherer scatterer c data data st \<and>
   forward env sz gatherer scatterer c source dest st =
     map_option (\<lambda>out. (out, st(dest := target out)))
       (sendRecv env sz gatherer scatterer True c (st source) (st dest)) \<and>
   backward env sz gatherer scatterer c source dest st =
     map_option (\<lambda>out. (out, st(source := target out)))
       (sendRecv env sz gatherer scatterer False c (st dest) (st source))"
  by (simp add: forward_data_def backward_data_def forward_def backward_def sendRecv_ref_def)

section \<open>The rank of the process\<close>

lemma map_option_bind_cong:
  "(\<And>a. x = Some a \<Longrightarrow> map_option h (f a) = map_option h (g a)) \<Longrightarrow>
   map_option h (x \<bind> f) = map_option h (x \<bind> g)"
  by (cases x) simp_all

lemma receive_loop_unfold:
  "MPI_Waitany E i = (Some g, status) \<Longrightarrow>
   receive_loop E R sz scatterer F iface mi bs (i # calls) (d, rb, s, f, e, tr) =
     (if status = MPI_SUCCESS
      then at (map fst mi) g \<bind> (\<lambda>proc. map_find mi proc \<bind> (\<lambda>ip.
             assert (mi_start (if F then snd ip else fst ip) + mi_size (if F then snd ip else fst ip) \<le> bs)
             \<bind> (\<lambda>_. scatterer F iface d
                        (receive sz rb (if F then snd ip else fst ip) (incoming E proc))
                        (mi_start (if F then snd ip else fst ip)) proc \<bind> (\<lambda>ab.
             receive_loop E R sz scatterer F iface mi bs calls
               (fst ab, receive sz rb (if F then snd ip else fst ip) (incoming E proc), s, Some g, e,
                tr @ Waitany (Some g) # snd ab)))))
      else at (map fst mi) g \<bind> (\<lambda>proc.
             receive_loop E R sz scatterer F iface mi bs calls
               (d, rb, 0, Some g, e @ [ReceiveError R proc], tr @ [Waitany (Some g)])))"
  by (simp add: Let_def case_prod_unfold)

lemma receive_loop_rank:
  "map_option (\<lambda>(d, rb, s, f, err, tr). (d, rb, s, f, tr))
     (receive_loop (env\<lparr>MPI_Comm_rank := r\<rparr>) rank' sz scatterer F iface mi bs calls
        (d, rb, s, f, err', tr)) =
   map_option (\<lambda>(d, rb, s, f, err, tr). (d, rb, s, f, tr))
     (receive_loop env rank sz scatterer F iface mi bs calls (d, rb, s, f, err, tr))"
proof (induction calls arbitrary: d rb s f err err' tr)
  case Nil
  then show ?case by simp
next
  case (Cons i calls)
  show ?case
  proof (cases "MPI_Waitany env i")
    case (Pair fo status)
    show ?thesis
    proof (cases fo)
      case None
      then show ?thesis by (simp add: Pair)
    next
      case (Some g)
      have w: "MPI_Waitany env i = (Some g, status)"
              "MPI_Waitany (env\<lparr>MPI_Comm_rank := r\<rparr>) i = (Some g, status)"
        by (simp_all add: Pair Some)
      have inc: "incoming (env\<lparr>MPI_Comm_rank := r\<rparr>) = incoming env" by simp
      show ?thesis
      proof (cases "status = MPI_SUCCESS")
        case True
        show ?thesis
          unfolding receive_loop_unfold [OF w(1)] receive_loop_unfold [OF w(2)] inc if_P [OF True]
          by (intro map_option_bind_cong Cons.IH)
      next
        case False
        show ?thesis
          unfolding receive_loop_unfold [OF w(1)] receive_loop_unfold [OF w(2)] inc if_not_P [OF False]
          by (intro map_option_bind_cong Cons.IH)
      qed
    qed
  qed
qed

lemma wait_loop_rank:
  "map_option (\<lambda>(s, err, tr). (s, tr))
     (wait_loop (env\<lparr>MPI_Comm_rank := r\<rparr>) rank' pm fin calls (s, err', tr)) =
   map_option (\<lambda>(s, err, tr). (s, tr))
     (wait_loop env rank pm fin calls (s, err, tr))"
proof (induction calls arbitrary: s err err' tr)
  case Nil
  then show ?case by simp
next
  case (Cons i calls)
  have w: "MPI_Wait (env\<lparr>MPI_Comm_rank := r\<rparr>) i = MPI_Wait env i" by simp
  show ?case
  proof (cases "MPI_Wait env i \<noteq> MPI_SUCCESS")
    case True
    show ?thesis
      unfolding wait_loop.simps w if_P [OF True]
      by (intro map_option_bind_cong Cons.IH)
  next
    case False
    show ?thesis
      unfolding wait_loop.simps w if_not_P [OF False]
      by (rule Cons.IH)
  qed
qed


lemma map_option_bind_cong2:
  "map_option p x = map_option p y \<Longrightarrow>
   (\<And>a b. x = Some a \<Longrightarrow> y = Some b \<Longrightarrow> p a = p b \<Longrightarrow>
      map_option h (f a) = map_option h (g b)) \<Longrightarrow>
   map_option h (x \<bind> f) = map_option h (y \<bind> g)"
  by (cases x; cases y) simp_all

lemma sendRecv_rank:
  "map_option exchanged
     (sendRecv (env\<lparr>MPI_Comm_rank := r\<rparr>) sz gatherer scatterer F c source dest) =
   map_option exchanged (sendRecv env sz gatherer scatterer F c source dest)"
proof -
  have fields: "peer_success (env\<lparr>MPI_Comm_rank := r\<rparr>) = peer_success env" by simp
  show ?thesis
    unfolding sendRecv_def Let_def fields case_prod_unfold
  proof (intro map_option_bind_cong, goal_cases)
    case (1 iface sbg rev sev)
    show ?case
    proof (rule map_option_bind_cong2
        [where p = "\<lambda>(d, rb, s, f, err, tr). (d, rb, s, f, tr)", OF receive_loop_rank], goal_cases)
      case (1 a b)
      obtain d rb s f err tr where a: "a = (d, rb, s, f, err, tr)" by (metis prod_cases6)
      obtain d2 rb2 s2 f2 err2 tr2 where b: "b = (d2, rb2, s2, f2, err2, tr2)" by (metis prod_cases6)
      from 1(3) have eq: "d2 = d" "rb2 = rb" "s2 = s" "f2 = f" "tr2 = tr"
        by (simp_all add: a b)
      show ?case
        unfolding a b eq fst_conv snd_conv
      proof (rule map_option_bind_cong2
          [where p = "\<lambda>(s, err, tr). (s, tr)", OF wait_loop_rank], goal_cases)
        case (1 a b)
        then show ?case
          by (cases a; cases b) (simp add: exchanged_def)
      qed
    qed
  qed
qed


lemma gatherers_rank:
  "MessageGatherer_SizeOne (env\<lparr>MPI_Comm_rank := r\<rparr>) = MessageGatherer_SizeOne env"
  "MessageGatherer_VariableSize (env\<lparr>MPI_Comm_rank := r\<rparr>) = MessageGatherer_VariableSize env"
  by (simp_all add: fun_eq_iff MessageGatherer_SizeOne_def MessageGatherer_VariableSize_def)

text \<open>
  Claim C8. Two runs that differ only in what the rank queries return build the same
  communicator, gather the same send buffer, and leave the same communicator (with its
  buffers), destination container, posted messages, calls, success flag and exception
  behind: of what an exchange produces only the lines on \<open>std::cerr\<close> mention the rank.
\<close>

theorem C8_rank_is_diagnostic_only:
  "build_SizeOne (env\<lparr>MPI_Comm_rank := r\<rparr>) sz u interface c = build_SizeOne env sz u interface c \<and>
   MessageGatherer_SizeOne (env\<lparr>MPI_Comm_rank := r\<rparr>) checking sz gather FORWARD interface data
       buffer bufSize =
     MessageGatherer_SizeOne env checking sz gather FORWARD interface data buffer bufSize \<and>
   MessageGatherer_VariableSize (env\<lparr>MPI_Comm_rank := r\<rparr>) checking sz getSize gather2 FORWARD
       interface data buffer bufSize =
     MessageGatherer_VariableSize env checking sz getSize gather2 FORWARD interface data buffer bufSize \<and>
   map_option exchanged
     (sendRecv (env\<lparr>MPI_Comm_rank := r\<rparr>) sz
        (MessageGatherer_SizeOne (env\<lparr>MPI_Comm_rank := r\<rparr>) checking sz gather)
        (MessageScatterer_SizeOne scatter) FORWARD c source dest) =
   map_option exchanged
     (sendRecv env sz (MessageGatherer_SizeOne env checking sz gather)
        (MessageScatterer_SizeOne scatter) FORWARD c source dest) \<and>
   map_option exchanged
     (sendRecv (env\<lparr>MPI_Comm_rank := r\<rparr>) sz
        (MessageGatherer_VariableSize (env\<lparr>MPI_Comm_rank := r\<rparr>) checking sz getSize gather2)
        (MessageScatterer_VariableSize getSize scatter2) FORWARD c source dest) =
   map_option exchanged
     (sendRecv env sz (MessageGatherer_VariableSize env checking sz getSize gather2)
        (MessageScatterer_VariableSize getSize scatter2) FORWARD c source dest)"
  by (simp add: gatherers_rank sendRecv_rank build_SizeOne_def)

section \<open>The variable size scatterer\<close>

lemma scatter_call_simp [simp]:
  "scatter_call scatter rb data (Scatter proc slot local (Some sub)) = scatter data (rb ! slot) local sub"
  by (simp add: scatter_call_def)

lemma scatter_VariableSize_sub_result:
  assumes layout: "\<forall>d v i j. getSize (scatter d v i j) = getSize d"
  shows "k = getSize data local - j \<Longrightarrow> j \<le> getSize data local \<Longrightarrow>
         start + index + k \<le> length rb \<Longrightarrow>
         \<exists>data'. scatter_VariableSize_sub getSize scatter proc rb start local j (data, index, tr) =
                   Some (data', index + k,
                         tr @ map (\<lambda>i. Scatter proc (start + index + i) local (Some (j + i))) [0..<k]) \<and>
                 getSize data' = getSize data \<and>
                 data' = foldl (scatter_call scatter rb) data
                           (map (\<lambda>i. Scatter proc (start + index + i) local (Some (j + i))) [0..<k])"
proof (induction k arbitrary: j data index tr)
  case 0
  then have "\<not> j < getSize data local" by simp
  then show ?case
    by (subst scatter_VariableSize_sub.simps) simp
next
  case (Suc k)
  then have lt: "j < getSize data local" by simp
  have inb: "start + index < length rb" using Suc.prems(3) by simp
  let ?d = "scatter data (rb ! (start + index)) local j"
  have gs: "getSize ?d = getSize data" using layout by simp
  have "\<exists>data'. scatter_VariableSize_sub getSize scatter proc rb start local (j + 1)
                   (?d, index + 1, tr @ [Scatter proc (start + index) local (Some j)]) =
                 Some (data', index + 1 + k,
                       (tr @ [Scatter proc (start + index) local (Some j)]) @
                         map (\<lambda>i. Scatter proc (start + (index + 1) + i) local (Some (j + 1 + i))) [0..<k]) \<and>
                 getSize data' = getSize ?d \<and>
                 data' = foldl (scatter_call scatter rb) ?d
                           (map (\<lambda>i. Scatter proc (start + (index + 1) + i) local (Some (j + 1 + i))) [0..<k])"
    using Suc.prems by (intro Suc.IH) (simp_all add: gs)
  then obtain data' where
    r: "scatter_VariableSize_sub getSize scatter proc rb start local (j + 1)
          (?d, index + 1, tr @ [Scatter proc (start + index) local (Some j)]) =
        Some (data', index + 1 + k,
              (tr @ [Scatter proc (start + index) local (Some j)]) @
                map (\<lambda>i. Scatter proc (start + (index + 1) + i) local (Some (j + 1 + i))) [0..<k])"
    and g: "getSize data' = getSize ?d"
    and v: "data' = foldl (scatter_call scatter rb) ?d
                      (map (\<lambda>i. Scatter proc (start + (index + 1) + i) local (Some (j + 1 + i))) [0..<k])"
    by blast
  have u: "scatter_VariableSize_sub getSize scatter proc rb start local j (data, index, tr) =
           scatter_VariableSize_sub getSize scatter proc rb start local (j + 1)
             (?d, index + 1, tr @ [Scatter proc (start + index) local (Some j)])"
    by (subst scatter_VariableSize_sub.simps) (simp add: lt at_def inb)
  have m: "map (\<lambda>i. Scatter proc (start + index + i) local (Some (j + i))) [0..<Suc k] =
           Scatter proc (start + index) local (Some j) #
           map (\<lambda>i. Scatter proc (start + (index + 1) + i) local (Some (j + 1 + i))) [0..<k]"
    by (simp add: map_upt_Suc add.assoc del: upt_Suc)
  show ?case
  proof (intro exI [of _ data'] conjI)
    show "scatter_VariableSize_sub getSize scatter proc rb start local j (data, index, tr) =
            Some (data', index + Suc k,
                  tr @ map (\<lambda>i. Scatter proc (start + index + i) local (Some (j + i))) [0..<Suc k])"
      unfolding u r m by simp
    show "getSize data' = getSize data" using g gs by simp
    show "data' = foldl (scatter_call scatter rb) data
                    (map (\<lambda>i. Scatter proc (start + index + i) local (Some (j + i))) [0..<Suc k])"
      unfolding m using v by simp
  qed
qed

lemma scatter_VariableSize_trace_Cons:
  "scatter_VariableSize_trace getSize data proc start (local # info) =
     map (\<lambda>j. Scatter proc (start + j) local (Some j)) [0..<getSize data local] @
     scatter_VariableSize_trace getSize data proc (start + getSize data local) info"
  by (simp add: scatter_VariableSize_trace_def sub_slots_def map_upt_Suc add.assoc del: upt_Suc)

lemma scatter_VariableSize_loop_result:
  assumes layout: "\<forall>d v i j. getSize (scatter d v i j) = getSize d"
  shows "start + index + sum_list (map (getSize data) info) \<le> length rb \<Longrightarrow>
         \<exists>data'. scatter_VariableSize_loop getSize scatter proc rb start info (data, index, tr) =
                   Some (data', index + sum_list (map (getSize data) info),
                         tr @ scatter_VariableSize_trace getSize data proc (start + index) info) \<and>
                 getSize data' = getSize data \<and>
                 data' = foldl (scatter_call scatter rb) data
                           (scatter_VariableSize_trace getSize data proc (start + index) info)"
proof (induction info arbitrary: data index tr)
  case Nil
  then show ?case by (simp add: scatter_VariableSize_trace_def)
next
  case (Cons local info)
  let ?n = "getSize data local"
  have "\<exists>data'. scatter_VariableSize_sub getSize scatter proc rb start local 0 (data, index, tr) =
                   Some (data', index + ?n,
                         tr @ map (\<lambda>i. Scatter proc (start + index + i) local (Some (0 + i))) [0..<?n]) \<and>
                 getSize data' = getSize data \<and>
                 data' = foldl (scatter_call scatter rb) data
                           (map (\<lambda>i. Scatter proc (start + index + i) local (Some (0 + i))) [0..<?n])"
    using Cons.prems by (intro scatter_VariableSize_sub_result [OF layout]) simp_all
  then obtain d1 where
    s: "scatter_VariableSize_sub getSize scatter proc rb start local 0 (data, index, tr) =
          Some (d1, index + ?n,
                tr @ map (\<lambda>i. Scatter proc (start + index + i) local (Some i)) [0..<?n])"
    and g1: "getSize d1 = getSize data"
    and v1: "d1 = foldl (scatter_call scatter rb) data
                    (map (\<lambda>i. Scatter proc (start + index + i) local (Some i)) [0..<?n])"
    by auto
  have "\<exists>data'. scatter_VariableSize_loop getSize scatter proc rb start info
                   (d1, index + ?n, tr @ map (\<lambda>i. Scatter proc (start + index + i) local (Some i)) [0..<?n]) =
                 Some (data', index + ?n + sum_list (map (getSize d1) info),
                       (tr @ map (\<lambda>i. Scatter proc (start + index + i) local (Some i)) [0..<?n]) @
                         scatter_VariableSize_trace getSize d1 proc (start + (index + ?n)) info) \<and>
                 getSize data' = getSize d1 \<and>
                 data' = foldl (scatter_call scatter rb) d1
                           (scatter_VariableSize_trace getSize d1 proc (start + (index + ?n)) info)"
    using Cons.prems by (intro Cons.IH) (simp add: g1 add.assoc)
  then obtain d2 where
    l: "scatter_VariableSize_loop getSize scatter proc rb start info
          (d1, index + ?n, tr @ map (\<lambda>i. Scatter proc (start + index + i) local (Some i)) [0..<?n]) =
        Some (d2, index + ?n + sum_list (map (getSize d1) info),
              (tr @ map (\<lambda>i. Scatter proc (start + index + i) local (Some i)) [0..<?n]) @
                scatter_VariableSize_trace getSize d1 proc (start + (index + ?n)) info)"
    and g2: "getSize d2 = getSize d1"
    and v2: "d2 = foldl (scatter_call scatter rb) d1
                    (scatter_VariableSize_trace getSize d1 proc (start + (index + ?n)) info)"
    by blast
  have tr1: "scatter_VariableSize_trace getSize d1 = scatter_VariableSize_trace getSize data"
    by (simp add: fun_eq_iff scatter_VariableSize_trace_def sub_slots_def g1)
  have v: "d2 = foldl (scatter_call scatter rb) data
                  (scatter_VariableSize_trace getSize data proc (start + index) (local # info))"
    apply (simp only: scatter_VariableSize_trace_Cons foldl_append)
    apply (simp only: v1 [symmetric])
    apply (simp only: v2 tr1 add.assoc)
    done
  show ?case
  proof (intro exI [of _ d2] conjI)
    show "scatter_VariableSize_loop getSize scatter proc rb start (local # info) (data, index, tr) =
            Some (d2, index + sum_list (map (getSize data) (local # info)),
                  tr @ scatter_VariableSize_trace getSize data proc (start + index) (local # info))"
      using l by (simp add: s g1 tr1 scatter_VariableSize_trace_Cons add.assoc)
    show "getSize d2 = getSize data" using g2 g1 by simp
    show "d2 = foldl (scatter_call scatter rb) data
                 (scatter_VariableSize_trace getSize data proc (start + index) (local # info))"
      by (rule v)
  qed
qed

lemma block_scatter_size: "block_size (block_scatter d v i j) = block_size d"
proof (rule ext)
  fix x
  show "block_size (block_scatter d v i j) x = block_size d x"
    by (cases "i < length d")
       (auto simp: block_size_def block_scatter_def nth_list_update list_update_beyond not_less)
qed

lemma scatter_VariableSize_trace_slots:
  "map scatter_slot (scatter_VariableSize_trace getSize data proc start info) =
     [start..<start + sum_list (map (getSize data) info)]"
proof (induction info arbitrary: start)
  case Nil
  then show ?case by (simp add: scatter_VariableSize_trace_def)
next
  case (Cons local info)
  have 1: "map scatter_slot (map (\<lambda>j. Scatter proc (start + j) local (Some j)) [0..<getSize data local]) =
           [start..<start + getSize data local]"
    using map_add_upt [of start "getSize data local"]
    by (simp add: comp_def scatter_slot_def add.commute)
  have 2: "[start..<start + (getSize data local + sum_list (map (getSize data) info))] =
           [start..<start + getSize data local] @
           [start + getSize data local..<
            start + (getSize data local + sum_list (map (getSize data) info))]"
    using upt_add_eq_append [of start "start + getSize data local" "sum_list (map (getSize data) info)"]
    by (simp add: add.assoc)
  show ?case
    unfolding scatter_VariableSize_trace_Cons map_append 1 Cons.IH list.map sum_list.Cons
    by (simp add: 2 add.assoc)
qed

lemma MessageScatterer_VariableSize_result:
  assumes layout: "\<forall>d v i j. getSize (scatter d v i j) = getSize d"
    and find: "map_find interface proc = Some infoPair"
    and fit: "start + sum_list (map (getSize data) (if FORWARD then snd infoPair else fst infoPair))
                \<le> length recvBuffer"
  shows "MessageScatterer_VariableSize getSize scatter FORWARD interface data recvBuffer start proc =
           Some (foldl (scatter_call scatter recvBuffer) data
                   (scatter_VariableSize_trace getSize data proc start
                      (if FORWARD then snd infoPair else fst infoPair)),
                 scatter_VariableSize_trace getSize data proc start
                   (if FORWARD then snd infoPair else fst infoPair)) \<and>
         getSize (foldl (scatter_call scatter recvBuffer) data
                   (scatter_VariableSize_trace getSize data proc start
                      (if FORWARD then snd infoPair else fst infoPair))) = getSize data"
proof -
  define info where "info = (if FORWARD then snd infoPair else fst infoPair)"
  have "\<exists>data'. scatter_VariableSize_loop getSize scatter proc recvBuffer start info (data, 0, []) =
                   Some (data', 0 + sum_list (map (getSize data) info),
                         [] @ scatter_VariableSize_trace getSize data proc (start + 0) info) \<and>
                 getSize data' = getSize data \<and>
                 data' = foldl (scatter_call scatter recvBuffer) data
                           (scatter_VariableSize_trace getSize data proc (start + 0) info)"
    using fit by (intro scatter_VariableSize_loop_result [OF layout]) (simp add: info_def)
  then obtain d1 where
    "scatter_VariableSize_loop getSize scatter proc recvBuffer start info (data, 0, []) =
       Some (d1, sum_list (map (getSize data) info),
             scatter_VariableSize_trace getSize data proc start info)"
    "getSize d1 = getSize data"
    "d1 = foldl (scatter_call scatter recvBuffer) data
            (scatter_VariableSize_trace getSize data proc start info)"
    by auto
  then show ?thesis
    unfolding info_def [symmetric]
    by (simp add: MessageScatterer_VariableSize_def find info_def [symmetric])
qed

text \<open>
  Claim C3, with the conditions it needs. Let \<open>scatter\<close> leave the number of elements at
  every index as it is, and let the slab handed to the scatterer lie inside the receive
  buffer. When the message of a peer is scattered, \<open>scatter\<close> is called once for each
  position p of the list of the peer (its receive list in a forward exchange, its send
  list in a backward one) and each subindex j below \<open>getSize(data, info[p])\<close>, in
  ascending order of (p, j); the calls read consecutive slots of the slab, from its first
  on, and the container returned is the container after these calls. On a communicator
  whose \<open>messageInformation_\<close> is empty, and when no sum of \<open>getSize\<close> over a list leaves
  the range of \<open>int\<close>, \<open>build\<close> returns, and the byte size it records for a slab of a peer
  is the sum of \<open>getSize\<close> over the list times \<open>sizeof(IndexedType)\<close>, on the source
  container for the send list and on the destination container for the receive list.
\<close>

theorem C3_variable_size_scatter:
  assumes "\<forall>d v i j. getSize (scatter d v i j) = getSize d"
    and "map_find interface proc = Some infoPair"
    and "start + sum_list (map (getSize data) (if FORWARD then snd infoPair else fst infoPair))
           \<le> length recvBuffer"
    and "std_map interface" and "messageInformation c = []" and "0 < sz" and "k < length interface"
    and "\<forall>e \<in> set interface. int (sum_list (map (getSize source) (fst (snd e)))) \<le> INT_MAX \<and>
                               int (sum_list (map (getSize dest) (snd (snd e)))) \<le> INT_MAX"
  shows "(let info = (if FORWARD then snd infoPair else fst infoPair);
              calls = concat (map (\<lambda>p. map (\<lambda>j. Scatter proc
                                               (start + sum_list (map (getSize data) (take p info)) + j)
                                               (info ! p) (Some j))
                                      [0..<getSize data (info ! p)])
                             [0..<length info])
          in MessageScatterer_VariableSize getSize scatter FORWARD interface data recvBuffer start proc =
               Some (foldl (scatter_call scatter recvBuffer) data calls, calls) \<and>
             map scatter_slot calls = [start..<start + sum_list (map (getSize data) info)]) \<and>
         (\<exists>b. build sz (MessageSizeCalculator_VariableSize getSize) u source dest interface c = Some b \<and>
              mi_size (fst (snd (messageInformation b ! k))) =
                sum_list (map (getSize source) (fst (snd (interface ! k)))) * sz \<and>
              mi_size (snd (snd (messageInformation b ! k))) =
                sum_list (map (getSize dest) (snd (snd (interface ! k)))) * sz)"
proof -
  define info where "info = (if FORWARD then snd infoPair else fst infoPair)"
  have t: "scatter_VariableSize_trace getSize data proc start info =
           concat (map (\<lambda>p. map (\<lambda>j. Scatter proc
                                            (start + sum_list (map (getSize data) (take p info)) + j)
                                            (info ! p) (Some j))
                                   [0..<getSize data (info ! p)])
                          [0..<length info])"
    by (simp add: scatter_VariableSize_trace_def sub_slots_def)
  have r: "MessageScatterer_VariableSize getSize scatter FORWARD interface data recvBuffer start proc =
           Some (foldl (scatter_call scatter recvBuffer) data
                   (scatter_VariableSize_trace getSize data proc start info),
                 scatter_VariableSize_trace getSize data proc start info)"
    using MessageScatterer_VariableSize_result [OF assms(1,2,3)] by (simp add: info_def)
  have sl: "map scatter_slot (scatter_VariableSize_trace getSize data proc start info) =
            [start..<start + sum_list (map (getSize data) info)]"
    by (rule scatter_VariableSize_trace_slots)
  from planned_build_VariableSize [OF assms(4,5,6,8), of u]
  obtain b where b: "build sz (MessageSizeCalculator_VariableSize getSize) u source dest interface c = Some b"
    and p: "planned sz (\<lambda>info. sum_list (map (getSize source) info))
               (\<lambda>info. sum_list (map (getSize dest) info)) interface b"
    by blast
  have m: "mi_size (fst (snd (messageInformation b ! k))) =
             sum_list (map (getSize source) (fst (snd (interface ! k)))) * sz \<and>
           mi_size (snd (snd (messageInformation b ! k))) =
             sum_list (map (getSize dest) (snd (snd (interface ! k)))) * sz"
    using p assms(7) by (simp add: planned_def nth_plan cnt_send_def)
  show ?thesis
    unfolding Let_def info_def [symmetric] t [symmetric]
    using r sl b m by simp
qed

text \<open>The scatter of C3 on the example interface and a vector of three blocks.\<close>

theorem C3_variable_size_scatter_witness:
  "(\<forall>d v i j. block_size (block_scatter d (v::int) i j) = block_size d) \<and>
   map_find interface_example 3 = Some ([1], [2, 0]) \<and>
   std_map interface_example \<and>
   messageInformation (BufferedCommunicator :: int BufferedCommunicator) = [] \<and>
   list_all (\<lambda>e. int (sum_list (map (block_size blocks_example) (fst (snd e)))) \<le> INT_MAX \<and>
                  int (sum_list (map (block_size blocks_example) (snd (snd e)))) \<le> INT_MAX) interface_example \<and>
   MessageScatterer_VariableSize block_size block_scatter True interface_example blocks_example
     [10, 11, 12, 13, 14, 15, 16, 17] 3 3 =
   Some ([[16, 17], [3], [13, 14, 15]],
         [Scatter 3 3 2 (Some 0), Scatter 3 4 2 (Some 1), Scatter 3 5 2 (Some 2),
          Scatter 3 6 0 (Some 0), Scatter 3 7 0 (Some 1)]) \<and>
   map_option (\<lambda>b. mi_size (fst (snd (messageInformation b ! 0))))
     (build 8 (MessageSizeCalculator_VariableSize block_size) (0::int) blocks_example blocks_example
        interface_example BufferedCommunicator) = Some 24"
proof -
  have 1: "\<forall>d v i j. block_size (block_scatter d (v::int) i j) = block_size d"
    by (simp add: block_scatter_size)
  have 2: "map_find interface_example 3 = Some ([1], [2, 0])"
    by (simp add: map_find_def interface_example_def)
  have 3: "3 + sum_list (map (block_size blocks_example)
                  (if True then snd ([1::nat], [2, 0::nat]) else fst ([1::nat], [2, 0::nat]))) \<le>
           length [10, 11, 12, 13, 14, 15, 16, 17 :: int]"
    by (simp add: block_size_def blocks_example_def)
  have 4: "std_map interface_example"
    by (simp add: std_map_def interface_example_def)
  have 5: "messageInformation (BufferedCommunicator :: int BufferedCommunicator) = []"
    by (simp add: BufferedCommunicator_def)
  have 6: "(0::nat) < 8" by simp
  have 7: "0 < length interface_example" by (simp add: interface_example_def)
  have la: "list_all (\<lambda>e. int (sum_list (map (block_size blocks_example) (fst (snd e)))) \<le> INT_MAX \<and>
                  int (sum_list (map (block_size blocks_example) (snd (snd e)))) \<le> INT_MAX) interface_example"
    by (simp add: interface_example_def blocks_example_def block_size_def INT_MAX_def)
  have 8: "\<forall>e \<in> set interface_example.
             int (sum_list (map (block_size blocks_example) (fst (snd e)))) \<le> INT_MAX \<and>
             int (sum_list (map (block_size blocks_example) (snd (snd e)))) \<le> INT_MAX"
    using la by (simp add: list_all_iff)
  have c: "foldl (scatter_call block_scatter [10, 11, 12, 13, 14, 15, 16, 17 :: int]) blocks_example
             [Scatter 3 3 2 (Some 0), Scatter 3 4 2 (Some 1), Scatter 3 5 2 (Some 2),
              Scatter 3 6 0 (Some 0), Scatter 3 7 0 (Some 1)] = [[16, 17], [3], [13, 14, 15]]"
    by code_simp
  have t: "concat (map (\<lambda>p. map (\<lambda>j. Scatter 3
                                   (3 + sum_list (map (block_size blocks_example) (take p [2, 0])) + j)
                                   ([2, 0] ! p) (Some j))
                            [0..<block_size blocks_example ([2, 0] ! p)])
                    [0..<length [2, 0 :: nat]]) =
           [Scatter 3 3 2 (Some 0), Scatter 3 4 2 (Some 1), Scatter 3 5 2 (Some 2),
            Scatter 3 6 0 (Some 0), Scatter 3 7 0 (Some 1)]"
    by code_simp
  note r = C3_variable_size_scatter [OF 1 2 3 4 5 6 7 8, where u = 0,
      unfolded Let_def if_True snd_conv t c]
  have ev: "MessageScatterer_VariableSize block_size block_scatter True interface_example blocks_example
       [10, 11, 12, 13, 14, 15, 16, 17] 3 3 =
     Some ([[16, 17], [3], [13, 14, 15]],
           [Scatter 3 3 2 (Some 0), Scatter 3 4 2 (Some 1), Scatter 3 5 2 (Some 2),
            Scatter 3 6 0 (Some 0), Scatter 3 7 0 (Some 1)])"
    using r by blast
  from r obtain b where
    b: "build 8 (MessageSizeCalculator_VariableSize block_size) (0::int) blocks_example blocks_example
          interface_example BufferedCommunicator = Some b"
    and m: "mi_size (fst (snd (messageInformation b ! 0))) =
              sum_list (map (block_size blocks_example) (fst (snd (interface_example ! 0)))) * 8"
    by blast
  have "sum_list (map (block_size blocks_example) (fst (snd (interface_example ! 0)))) * 8 = 24"
    by code_simp
  then have ev2: "map_option (\<lambda>b. mi_size (fst (snd (messageInformation b ! 0))))
     (build 8 (MessageSizeCalculator_VariableSize block_size) (0::int) blocks_example blocks_example
        interface_example BufferedCommunicator) = Some 24"
    using b m by simp
  show ?thesis
    using 1 2 4 5 la ev ev2 by simp
qed

text \<open>
  Claim C3 as it is stated fails for a \<open>scatter\<close> that changes the size of the entry it
  writes: the bound \<open>getSize(data, info[i])\<close> of the inner loop is read again before every
  call, on the container the call before has written. The receive list of peer 3 is
  \<open>[2, 0]\<close>, and the blocks 2 and 0 of the container hold 3 and 2 elements; with a
  \<open>scatter\<close> that puts the received value in the place of the block, \<open>scatter\<close> is called
  for the subindex 0 of each of the two blocks and for no other.
\<close>

theorem C3_resizing_scatter_counterexample:
  "map_find interface_example 3 = Some ([1], [2, 0]) \<and>
   block_size blocks_example 2 = 3 \<and> block_size blocks_example 0 = 2 \<and>
   MessageScatterer_VariableSize block_size block_replace True interface_example blocks_example
     [10, 11, 12, 13, 14, 15, 16, 17] 3 3 =
   Some ([[14], [3], [13]], [Scatter 3 3 2 (Some 0), Scatter 3 4 0 (Some 0)])"
proof -
  have 1: "map_find interface_example 3 = Some ([1], [2, 0])"
    by (simp add: map_find_def interface_example_def)
  have 2: "block_size blocks_example 2 = 3" "block_size blocks_example 0 = 2"
    by (simp_all add: block_size_def blocks_example_def)
  have 3: "MessageScatterer_VariableSize block_size block_replace True interface_example blocks_example
     [10, 11, 12, 13, 14, 15, 16, 17 :: int] 3 3 =
   Some ([[14], [3], [13]], [Scatter 3 3 2 (Some 0), Scatter 3 4 0 (Some 0)])"
    by code_simp
  show ?thesis using 1 2 3 by simp
qed

section \<open>The datatype communicator\<close>

text \<open>
  After \<open>build\<close> a first call of \<open>free()\<close> returns; a second one, and so a \<open>build\<close> or
  the destructor after an explicit \<open>free()\<close>, deletes the arrays again.
\<close>

lemma DatatypeCommunicator_free_twice:
  assumes "DatatypeCommunicator_build types sendData receiveData dc = Some dc'"
  shows "DatatypeCommunicator_free dc' \<noteq> None"
    and "DatatypeCommunicator_free dc' \<bind> DatatypeCommunicator_free = None"
    and "DatatypeCommunicator_free dc' \<bind> DatatypeCommunicator_build types' sendData' receiveData' = None"
  using assms
  by (auto simp: DatatypeCommunicator_build_def DatatypeCommunicator_free_def createRequests_def
      assert_def bind_eq_Some_conv split: if_splits)

text \<open>
  Claim C6. \<open>build\<close> returns unless it finds \<open>created_\<close> set and an array of requests
  that has been deleted already. After \<open>build\<close>, \<open>forward()\<close> and \<open>backward()\<close> make these
  calls, in this order: \<open>MPI_Startall\<close> on the persistent receive requests,
  \<open>MPI_Startall\<close> on the persistent send requests, \<open>MPI_Waitall\<close> on the send requests,
  \<open>MPI_Waitall\<close> on the receive requests, the reduction of the success flag with
  \<open>MPI_MIN\<close>; the flag is 0 when one of the two waits returned \<open>MPI_ERR_IN_STATUS\<close>, and
  \<open>CommunicationError\<close> is thrown when the reduced value is 0. Forward receives into the
  receive container with the receive types and sends from the send container with the
  send types; backward swaps the containers and the types.
\<close>

theorem C6_datatype_order:
  "(case DatatypeCommunicator_build types sendData receiveData dc of
      None \<Rightarrow> created dc \<and> (fst (deleted dc) \<or> snd (deleted dc))
    | Some dc' \<Rightarrow>
       (let out = DatatypeCommunicator_forward env dc';
            receives = map (\<lambda>process. \<lparr>req_kind = Recv_init, req_address = receiveData,
                                         req_type = snd (snd process), req_peer = fst process,
                                         req_tag = commTag\<rparr>) types;
            sends = map (\<lambda>process. \<lparr>req_kind = Ssend_init, req_address = sendData,
                                      req_type = fst (snd process), req_peer = fst process,
                                      req_tag = commTag\<rparr>) types
        in dt_trace out = [Startall receives, Startall sends, Waitall sends, Waitall receives,
                           Allreduce_MIN (dt_success out)] \<and>
           dt_success out =
             (if MPI_Waitall env 0 = MPI_ERR_IN_STATUS \<or> MPI_Waitall env 1 = MPI_ERR_IN_STATUS
              then 0 else 1) \<and>
           dt_CommunicationError out = (MPI_Allreduce_MIN (dt_success out) (peer_success env) = 0)) \<and>
       (let out = DatatypeCommunicator_backward env dc';
            receives = map (\<lambda>process. \<lparr>req_kind = Recv_init, req_address = sendData,
                                         req_type = fst (snd process), req_peer = fst process,
                                         req_tag = commTag\<rparr>) types;
            sends = map (\<lambda>process. \<lparr>req_kind = Ssend_init, req_address = receiveData,
                                      req_type = snd (snd process), req_peer = fst process,
                                      req_tag = commTag\<rparr>) types
        in dt_trace out = [Startall receives, Startall sends, Waitall sends, Waitall receives,
                           Allreduce_MIN (dt_success out)] \<and>
           dt_success out =
             (if MPI_Waitall env 0 = MPI_ERR_IN_STATUS \<or> MPI_Waitall env 1 = MPI_ERR_IN_STATUS
              then 0 else 1) \<and>
           dt_CommunicationError out = (MPI_Allreduce_MIN (dt_success out) (peer_success env) = 0)))"
  by (simp add: Let_def DatatypeCommunicator_build_def DatatypeCommunicator_forward_def
      DatatypeCommunicator_backward_def DatatypeCommunicator_sendRecv_def createRequests_def
      DatatypeCommunicator_free_def assert_def)

section \<open>Failure of an exchange\<close>

lemma receive_loop_success:
  "receive_loop env rank sz scatterer F iface mi bs calls (d, rb, s, f, e, t) =
     Some (d', rb', s', f', e', t') \<Longrightarrow>
   s' = (if list_ex (\<lambda>i. snd (MPI_Waitany env i) \<noteq> MPI_SUCCESS) calls then 0 else s)"
proof (induction calls arbitrary: d rb s f e t)
  case Nil
  then show ?case by simp
next
  case (Cons i calls)
  obtain fo status where w: "MPI_Waitany env i = (fo, status)" by (cases "MPI_Waitany env i")
  show ?case
  proof (cases fo)
    case None
    with Cons.prems w show ?thesis by simp
  next
    case (Some g)
    note u = receive_loop_unfold [OF w [unfolded Some]]
    show ?thesis
    proof (cases "status = MPI_SUCCESS")
      case True
      from Cons.prems obtain d1 rb1 t1 where
        "receive_loop env rank sz scatterer F iface mi bs calls (d1, rb1, s, Some g, e, t1) =
           Some (d', rb', s', f', e', t')"
        unfolding u if_P [OF True] by (auto simp: bind_eq_Some_conv)
      from Cons.IH [OF this] show ?thesis by (simp add: w True)
    next
      case False
      from Cons.prems obtain e1 t1 where
        "receive_loop env rank sz scatterer F iface mi bs calls (d, rb, 0, Some g, e1, t1) =
           Some (d', rb', s', f', e', t')"
        unfolding u if_not_P [OF False] by (auto simp: bind_eq_Some_conv)
      from Cons.IH [OF this] show ?thesis by (simp add: w False)
    qed
  qed
qed

lemma wait_loop_success:
  "wait_loop env rank pm fin calls (s, e, t) = Some (s', e', t') \<Longrightarrow>
   s' = (if list_ex (\<lambda>i. MPI_Wait env i \<noteq> MPI_SUCCESS) calls then 0 else s)"
proof (induction calls arbitrary: s e t)
  case Nil
  then show ?case by simp
next
  case (Cons i calls)
  show ?case
  proof (cases "MPI_Wait env i \<noteq> MPI_SUCCESS")
    case True
    from Cons.prems obtain e1 t1 where
      "wait_loop env rank pm fin calls (0, e1, t1) = Some (s', e', t')"
      unfolding wait_loop.simps if_P [OF True] by (auto simp: bind_eq_Some_conv)
    from Cons.IH [OF this] show ?thesis using True by simp
  next
    case False
    from Cons.prems have
      "wait_loop env rank pm fin calls (s, e, t @ [Wait i]) = Some (s', e', t')"
      unfolding wait_loop.simps if_not_P [OF False] .
    from Cons.IH [OF this] show ?thesis using False by simp
  qed
qed

lemma sendRecv_flags:
  assumes "sendRecv env sz gatherer scatterer F c source dest = Some out"
  shows "local_success out = (if transport_error env (length (messageInformation c)) then 0 else 1) \<and>
         CommunicationError out = (MPI_Allreduce_MIN (local_success out) (peer_success env) = 0)"
proof -
  from assms obtain rl wl d1 rb1 s1 f1 e1 t1 s2 e2 t2 t0 bs pm where
    rl: "receive_loop env (MPI_Comm_rank env MPI_COMM_WORLD) sz scatterer F rl (messageInformation c) bs
           [0..<length (messageInformation c)] (dest, wl, 1, None, [], t0) =
         Some (d1, rb1, s1, f1, e1, t1)"
    and wt: "wait_loop env (MPI_Comm_rank env MPI_COMM_WORLD) pm f1
           [0..<length (messageInformation c)] (s1, e1, t1) = Some (s2, e2, t2)"
    and ls: "local_success out = s2"
    and ce: "CommunicationError out = (MPI_Allreduce_MIN s2 (peer_success env) = 0)"
    unfolding sendRecv_def Let_def
    by (auto simp: bind_eq_Some_conv)
  have "s2 = (if transport_error env (length (messageInformation c)) then 0 else 1)"
    using receive_loop_success [OF rl] wait_loop_success [OF wt]
    by (auto simp: transport_error_def list_ex_iff)
  then show ?thesis using ls ce by simp
qed

lemma MPI_Allreduce_MIN_zero:
  "v \<in> {0, 1} \<Longrightarrow> set vs \<subseteq> {0, 1} \<Longrightarrow> (MPI_Allreduce_MIN v vs = 0) = (v = 0 \<or> 0 \<in> set vs)"
  unfolding MPI_Allreduce_MIN_def
proof (induction vs arbitrary: v)
  case Nil
  then show ?case by simp
next
  case (Cons x vs)
  have "min x v \<in> {0, 1}" using Cons.prems by (auto simp: min_def)
  moreover have "set vs \<subseteq> {0, 1}" using Cons.prems by simp
  ultimately have "(fold min vs (min x v) = 0) = (min x v = 0 \<or> 0 \<in> set vs)"
    by (rule Cons.IH)
  moreover have "(min x v = 0) = (x = 0 \<or> v = 0)"
    using Cons.prems by (auto simp: min_def)
  ultimately show ?case by auto
qed

lemma group_reduction:
  assumes flags: "\<forall>q < N. flag q \<in> {0, 1}" and k: "k < N"
  shows "(MPI_Allreduce_MIN (flag k) (others N k flag) = 0) = (\<exists>q < N. flag q = 0)"
proof -
  have s: "set (others N k flag) \<subseteq> {0, 1}"
    using flags by (auto simp: others_def)
  have "(0 \<in> set (others N k flag)) = (\<exists>q < N. q \<noteq> k \<and> flag q = 0)"
    by (auto simp: others_def)
  with MPI_Allreduce_MIN_zero [OF _ s, of "flag k"] flags k show ?thesis
    by auto
qed

lemma mult_bound: "a \<le> b \<Longrightarrow> b * sz \<le> n \<Longrightarrow> a * sz \<le> (n::nat)"
  by (rule order_trans [OF mult_le_mono1])

lemma gather_VariableSize_sub_returns:
  "index + length js \<le> length buffer \<Longrightarrow> (index + length js) * sz \<le> bufSize \<Longrightarrow>
   \<exists>buffer' tr'.
     gather_VariableSize_sub chk sz gather data bufSize local js (buffer, index, tr) =
       Some (buffer', index + length js, tr') \<and> length buffer' = length buffer"
proof (induction js arbitrary: buffer index tr)
  case Nil
  then show ?case by simp
next
  case (Cons j js)
  have a: "(index + 1) * sz \<le> bufSize"
    by (rule mult_bound [OF _ Cons.prems(2)]) simp
  have b: "index < length buffer" using Cons.prems(1) by simp
  have "\<exists>buffer' tr'.
     gather_VariableSize_sub chk sz gather data bufSize local js
       (buffer[index := gather data local j], index + 1, tr @ [Gather index local (Some j)]) =
       Some (buffer', index + 1 + length js, tr') \<and>
     length buffer' = length (buffer[index := gather data local j])"
    using Cons.prems by (intro Cons.IH) simp_all
  then obtain b1 t1 where
    r: "gather_VariableSize_sub chk sz gather data bufSize local js
          (buffer[index := gather data local j], index + 1, tr @ [Gather index local (Some j)]) =
        Some (b1, index + 1 + length js, t1)"
    and l: "length b1 = length buffer"
    by auto
  show ?case
    using a b r l by (cases chk) (simp_all add: add.assoc)
qed

lemma gather_VariableSize_inner_returns:
  "index + sum_list (map (getSize data) info) \<le> length buffer \<Longrightarrow>
   (index + sum_list (map (getSize data) info)) * sz \<le> bufSize \<Longrightarrow>
   \<exists>buffer' tr'.
     gather_VariableSize_inner chk sz getSize gather data bufSize info (buffer, index, tr) =
       Some (buffer', index + sum_list (map (getSize data) info), tr') \<and>
     length buffer' = length buffer"
proof (induction info arbitrary: buffer index tr)
  case Nil
  then show ?case by simp
next
  case (Cons local info)
  let ?n = "getSize data local"
  have le: "(index + ?n) * sz \<le> bufSize"
    by (rule mult_bound [OF _ Cons.prems(2)]) simp
  have "\<exists>buffer' tr'.
     gather_VariableSize_sub chk sz gather data bufSize local [0..<?n] (buffer, index, tr) =
       Some (buffer', index + length [0..<?n], tr') \<and> length buffer' = length buffer"
    using Cons.prems le by (intro gather_VariableSize_sub_returns) simp_all
  then obtain b1 t1 where
    s: "gather_VariableSize_sub chk sz gather data bufSize local [0..<?n] (buffer, index, tr) =
          Some (b1, index + ?n, t1)"
    and l1: "length b1 = length buffer"
    by auto
  have "\<exists>buffer' tr'.
     gather_VariableSize_inner chk sz getSize gather data bufSize info (b1, index + ?n, t1) =
       Some (buffer', index + ?n + sum_list (map (getSize data) info), tr') \<and>
     length buffer' = length b1"
    using Cons.prems by (intro Cons.IH) (simp_all add: l1 add.assoc)
  then show ?case
    by (simp add: s l1 add.assoc)
qed

lemma gather_VariableSize_loop_returns:
  "index + sum_list (map (\<lambda>e. sum_list (map (getSize data) (if F then fst (snd e) else snd (snd e)))) iface)
     \<le> length buffer \<Longrightarrow>
   (index + sum_list (map (\<lambda>e. sum_list (map (getSize data) (if F then fst (snd e) else snd (snd e)))) iface))
     * sz \<le> bufSize \<Longrightarrow>
   \<exists>buffer' index' tr'.
     gather_VariableSize_loop chk sz getSize gather F data bufSize iface (buffer, index, tr) =
       Some (buffer', index', tr') \<and> length buffer' = length buffer"
proof (induction iface arbitrary: buffer index tr)
  case Nil
  then show ?case by simp
next
  case (Cons e iface)
  let ?l = "if F then fst (snd e) else snd (snd e)"
  let ?n = "sum_list (map (getSize data) ?l)"
  let ?r = "sum_list (map (\<lambda>e. sum_list (map (getSize data) (if F then fst (snd e) else snd (snd e)))) iface)"
  have t: "index + (?n + ?r) \<le> length buffer" "(index + (?n + ?r)) * sz \<le> bufSize"
    using Cons.prems by simp_all
  have le: "(index + ?n) * sz \<le> bufSize"
    by (rule mult_bound [OF _ t(2)]) simp
  have "\<exists>buffer' tr'.
     gather_VariableSize_inner chk sz getSize gather data bufSize ?l (buffer, index, tr) =
       Some (buffer', index + ?n, tr') \<and> length buffer' = length buffer"
    using t(1) le by (intro gather_VariableSize_inner_returns) simp_all
  then obtain b1 t1 where
    s: "gather_VariableSize_inner chk sz getSize gather data bufSize ?l (buffer, index, tr) =
          Some (b1, index + ?n, t1)"
    and l1: "length b1 = length buffer"
    by auto
  have "\<exists>buffer' index' tr'.
     gather_VariableSize_loop chk sz getSize gather F data bufSize iface (b1, index + ?n, t1) =
       Some (buffer', index', tr') \<and> length buffer' = length b1"
    using t by (intro Cons.IH) (simp_all add: l1 add.assoc)
  then show ?case
    by (simp add: s l1)
qed

lemma MessageGatherer_VariableSize_returns:
  assumes "sum_list (map (\<lambda>e. sum_list (map (getSize data) (if F then fst (snd e) else snd (snd e)))) iface)
             = length buffer"
    and "length buffer * sz = bufSize"
  shows "\<exists>sb gev. MessageGatherer_VariableSize env chk sz getSize gather F iface data buffer bufSize =
           Some (sb, gev)"
proof -
  have "\<exists>buffer' index' tr'.
     gather_VariableSize_loop chk sz getSize gather F data bufSize iface (buffer, 0, []) =
       Some (buffer', index', tr') \<and> length buffer' = length buffer"
    using assms by (intro gather_VariableSize_loop_returns) simp_all
  then show ?thesis
    by (auto simp: MessageGatherer_VariableSize_def)
qed


lemma scatter_VariableSize_trace_layout:
  "getSize d = getSize d' \<Longrightarrow>
   scatter_VariableSize_trace getSize d proc start info =
   scatter_VariableSize_trace getSize d' proc start info"
  by (simp add: scatter_VariableSize_trace_def sub_slots_def)

lemma sendRecv_VariableSize_returns:
  fixes c :: "'a BufferedCommunicator" and dest :: 'd
  assumes std: "std_map iface" and sz: "0 < sz"
    and layout: "\<forall>d v i j. getSize (scatter d v i j) = getSize d"
    and pl: "planned sz (\<lambda>info. sum_list (map (getSize (if F then source else dest)) info))
               (\<lambda>info. sum_list (map (getSize (if F then dest else source)) info)) iface c"
    and wa: "\<forall>i < length iface. \<exists>f < length iface. fst (MPI_Waitany env i) = Some f"
  shows "\<exists>out. sendRecv env sz (MessageGatherer_VariableSize env' chk sz getSize gather)
                 (MessageScatterer_VariableSize getSize scatter) F c source dest = Some out"
proof -
  define cs where "cs = (\<lambda>info. sum_list (map (getSize (if F then source else dest)) info))"
  define cr where "cr = (\<lambda>info. sum_list (map (getSize (if F then dest else source)) info))"
  note pl' = pl [folded cs_def cr_def]
  let ?sb = "if F then fst (buffers c) else snd (buffers c)"
  note ss = planned_send_side [OF pl', of F]
  have cnt_s: "cnt_send F cs cr e =
               sum_list (map (getSize source) (if F then fst (snd e) else snd (snd e)))" for e
    by (simp add: cnt_send_def cs_def cr_def)
  have cnt_r: "cnt_send (\<not> F) cs cr e =
               sum_list (map (getSize dest) (if F then snd (snd e) else fst (snd e)))" for e
    by (simp add: cnt_send_def cs_def cr_def)
  have "\<exists>sb gev. MessageGatherer_VariableSize env' chk sz getSize gather F iface source ?sb
                    (sum_list (map (cnt_send F cs cr) iface) * sz) = Some (sb, gev)"
  proof (rule MessageGatherer_VariableSize_returns)
    have "cnt_send F cs cr =
            (\<lambda>e. sum_list (map (getSize source) (if F then fst (snd e) else snd (snd e))))"
      by (rule ext) (rule cnt_s)
    then show "sum_list (map (\<lambda>e. sum_list (map (getSize source) (if F then fst (snd e) else snd (snd e))))
            iface) = length ?sb"
      using ss by simp
    show "length ?sb * sz = sum_list (map (cnt_send F cs cr) iface) * sz"
      using ss by simp
  qed
  then obtain sb gev where
    g: "MessageGatherer_VariableSize env' chk sz getSize gather F iface source ?sb
          (sum_list (map (cnt_send F cs cr) iface) * sz) = Some (sb, gev)"
    by blast
  define val where "val = (\<lambda>f d rb. foldl (scatter_call scatter rb) d
      (scatter_VariableSize_trace getSize d (fst (iface ! f)) (slab_start (\<not> F) cs cr iface f)
         (if F then snd (snd (iface ! f)) else fst (snd (iface ! f)))))"
  define ev where "ev = (\<lambda>f. scatter_VariableSize_trace getSize dest (fst (iface ! f))
      (slab_start (\<not> F) cs cr iface f) (if F then snd (snd (iface ! f)) else fst (snd (iface ! f))))"
  have s: "MessageScatterer_VariableSize getSize scatter F iface d rb
             (slab_start (\<not> F) cs cr iface f) (fst (iface ! f)) =
           Some (val f d rb, ev f) \<and> getSize (val f d rb) = getSize dest"
    if f: "f < length iface" and I: "getSize d = getSize dest"
      and len: "length rb = sum_list (map (cnt_send (\<not> F) cs cr) iface)" for f d rb
  proof -
    have find: "map_find iface (fst (iface ! f)) = Some (snd (iface ! f))"
      unfolding map_find_def using std f by (intro map_of_nth) (simp_all add: std_map_def)
    have "slab_start (\<not> F) cs cr iface f + cnt_send (\<not> F) cs cr (iface ! f) \<le> length rb"
      using slab_in_buffer [OF f, of "\<not> F" cs cr] by (simp only: len)
    then have fit: "slab_start (\<not> F) cs cr iface f +
             sum_list (map (getSize d) (if F then snd (snd (iface ! f)) else fst (snd (iface ! f))))
               \<le> length rb"
      by (simp only: cnt_r I)
    note r = MessageScatterer_VariableSize_result [OF layout find fit]
    have e: "scatter_VariableSize_trace getSize d (fst (iface ! f)) (slab_start (\<not> F) cs cr iface f)
               (if F then snd (snd (iface ! f)) else fst (snd (iface ! f))) = ev f"
      unfolding ev_def by (rule scatter_VariableSize_trace_layout [OF I])
    show ?thesis
      using r by (simp add: val_def e I)
  qed
  have "sendRecv env sz (MessageGatherer_VariableSize env' chk sz getSize gather)
          (MessageScatterer_VariableSize getSize scatter) F c source dest =
        Some \<lparr>comm = c\<lparr>buffers :=
                  (let rb' = snd (foldl (deliver env sz F (plan sz cs cr iface) val)
                                   (dest, if F then snd (buffers c) else fst (buffers c))
                                   [0..<length iface])
                   in if F then (sb, rb') else (rb', sb))\<rparr>,
               target = fst (foldl (deliver env sz F (plan sz cs cr iface) val)
                               (dest, if F then snd (buffers c) else fst (buffers c))
                               [0..<length iface]),
               posted = posted_messages sz F sb (plan sz cs cr iface),
               cerr = concat (map (receive_diagnostics env (MPI_Comm_rank env MPI_COMM_WORLD)
                                (plan sz cs cr iface)) [0..<length iface]) @
                      concat (map (send_diagnostics env (MPI_Comm_rank env MPI_COMM_WORLD)
                                (map fst iface)
                                (if length iface = 0 then None
                                 else fst (MPI_Waitany env (length iface - 1)))) [0..<length iface]),
               trace = gev @ irecv_trace sz F cs cr iface @ issend_trace sz F cs cr iface @
                       concat (map (completion_trace env ev) [0..<length iface]) @
                       map Wait [0..<length iface] @ [Allreduce (success_flag env (length iface))],
               local_success = success_flag env (length iface),
               CommunicationError =
                 (MPI_Allreduce_MIN (success_flag env (length iface)) (peer_success env) = 0)\<rparr>"
    by (rule sendRecv_result [where I = "\<lambda>d. getSize d = getSize dest"
        and gatherer = "MessageGatherer_VariableSize env' chk sz getSize gather"
        and scatterer = "MessageScatterer_VariableSize getSize scatter"
        and val = val and ev = ev
        and FORWARD = F and cs = cs and cr = cr and iface = iface and sz = sz
        and c = c and env = env and source = source and dest = dest,
        OF std sz pl' g s wa refl])
  then show ?thesis by blast
qed

lemma exchange_returns:
  fixes c :: "'a BufferedCommunicator" and dest :: 'd
  assumes pr: "prepared sz p F iface c source dest" and sz: "0 < sz"
    and wa: "\<forall>i < length iface. \<exists>f < length iface. fst (MPI_Waitany env i) = Some f"
  shows "\<exists>out. exchange env chk sz p F c source dest = Some out \<and>
           local_success out = (if transport_error env (length iface) then 0 else 1) \<and>
           CommunicationError out = (MPI_Allreduce_MIN (local_success out) (peer_success env) = 0)"
proof -
  have std: "std_map iface" and kl: "keeps_layout p"
    and pl: "planned sz (count p (if F then source else dest))
               (count p (if F then dest else source)) iface c"
    using pr by (simp_all add: prepared_def)
  have n: "length (messageInformation c) = length iface"
    using pl by (simp add: planned_def)
  have "\<exists>out. exchange env chk sz p F c source dest = Some out"
  proof (cases p)
    case (SizeOne gather scatter)
    have c1: "count p d = length" for d
      by (simp add: fun_eq_iff count_def SizeOne)
    have pl1: "planned sz length length iface c"
      using pl by (simp only: c1)
    show ?thesis
      unfolding exchange_def MessageGatherer_def MessageScatterer_def SizeOne policy.case
      using sendRecv_SizeOne_result [OF std sz pl1 wa, of env chk gather scatter F source dest]
      by blast
  next
    case (VariableSize getSize gather scatter)
    have c2: "count p d = (\<lambda>info. sum_list (map (getSize d) info))" for d
      by (simp add: fun_eq_iff count_def VariableSize)
    have pl2: "planned sz (\<lambda>info. sum_list (map (getSize (if F then source else dest)) info))
               (\<lambda>info. sum_list (map (getSize (if F then dest else source)) info)) iface c"
      using pl by (simp only: c2)
    have layout: "\<forall>d v i j. getSize (scatter d v i j) = getSize d"
      using kl by (simp add: keeps_layout_def VariableSize)
    show ?thesis
      unfolding exchange_def MessageGatherer_def MessageScatterer_def VariableSize policy.case
      by (rule sendRecv_VariableSize_returns [OF std sz layout pl2 wa])
  qed
  then obtain out where out: "exchange env chk sz p F c source dest = Some out" by blast
  from sendRecv_flags [OF out [unfolded exchange_def]]
  show ?thesis
    using out by (simp add: n)
qed

text \<open>
  Claim C4, with the conditions under which every process reaches the reduction. Take a
  group of \<open>N\<close> processes of the buffered communicator. Each runs an exchange, of a fixed
  size or of a variable size container, on a communicator that holds the plan of its
  interface (the exchange is prepared), and each of its calls of \<open>MPI_Waitany\<close> reports
  one of the posted receives; the reduction hands to every process the flags of the
  others (and likewise for \<open>M\<close> processes of the datatype communicator). Then the
  exchange of every process returns from the transport calls; its flag is 0 when one of
  its receives or sends reported an error and 1 otherwise; it throws
  \<open>CommunicationError\<close> exactly when the reduction with \<open>MPI_MIN\<close> yields 0, and that is
  exactly when some process of the group had a transport error: one failure makes every
  participant throw.
\<close>

theorem C4_collective_failure:
  fixes c :: "nat \<Rightarrow> 'a BufferedCommunicator" and dest :: "nat \<Rightarrow> 'd"
    and dc :: "nat \<Rightarrow> 'ty DatatypeCommunicator" and denv :: "nat \<Rightarrow> 'b mpi_env"
  assumes "\<forall>k < N. prepared sz (p k) FORWARD (iface k) (c k) (source k) (dest k)"
    and "0 < sz"
    and "\<forall>k < N. \<forall>i < length (iface k). \<exists>f < length (iface k). fst (MPI_Waitany (env k) i) = Some f"
    and "\<forall>k < N. peer_success (env k) =
                    others N k (\<lambda>q. if transport_error (env q) (length (iface q)) then 0 else 1)"
    and "\<forall>k < M. peer_success (denv k) = others M k (\<lambda>q. if waitall_error (denv q) then 0 else 1)"
  shows "(\<forall>k < N. \<exists>out.
            exchange (env k) checked sz (p k) FORWARD (c k) (source k) (dest k) = Some out \<and>
            local_success out = (if transport_error (env k) (length (iface k)) then 0 else 1) \<and>
            CommunicationError out =
              (MPI_Allreduce_MIN (local_success out) (peer_success (env k)) = 0) \<and>
            CommunicationError out = (\<exists>q < N. transport_error (env q) (length (iface q)))) \<and>
         (\<forall>k < M.
            (let out = DatatypeCommunicator_sendRecv (denv k) (dc k) (reqs k)
             in dt_success out = (if waitall_error (denv k) then 0 else 1) \<and>
                dt_CommunicationError out =
                  (MPI_Allreduce_MIN (dt_success out) (peer_success (denv k)) = 0) \<and>
                dt_CommunicationError out = (\<exists>q < M. waitall_error (denv q))))"
proof (intro conjI allI impI)
  fix k assume k: "k < N"
  define flag where "flag = (\<lambda>q. if transport_error (env q) (length (iface q)) then 0 else 1 :: int)"
  from exchange_returns [of sz "p k" FORWARD "iface k" "c k" "source k" "dest k" "env k" checked]
    assms(1,2,3) k
  obtain out where out: "exchange (env k) checked sz (p k) FORWARD (c k) (source k) (dest k) = Some out"
    and fl: "local_success out = flag k"
    and ce: "CommunicationError out = (MPI_Allreduce_MIN (local_success out) (peer_success (env k)) = 0)"
    unfolding flag_def by blast
  have ps: "peer_success (env k) = others N k flag"
    using assms(4) k by (simp add: flag_def)
  have "\<forall>q < N. flag q \<in> {0, 1}" by (simp add: flag_def)
  from group_reduction [OF this k]
  have g: "(MPI_Allreduce_MIN (flag k) (others N k flag) = 0) = (\<exists>q < N. flag q = 0)" .
  have z: "(flag q = 0) = transport_error (env q) (length (iface q))" for q
    by (simp add: flag_def)
  have "CommunicationError out = (\<exists>q < N. transport_error (env q) (length (iface q)))"
    unfolding ce fl ps g by (simp only: z)
  then show "\<exists>out.
            exchange (env k) checked sz (p k) FORWARD (c k) (source k) (dest k) = Some out \<and>
            local_success out = (if transport_error (env k) (length (iface k)) then 0 else 1) \<and>
            CommunicationError out =
              (MPI_Allreduce_MIN (local_success out) (peer_success (env k)) = 0) \<and>
            CommunicationError out = (\<exists>q < N. transport_error (env q) (length (iface q)))"
    using out fl ce by (intro exI [of _ out]) (simp add: flag_def)
next
  fix k assume k: "k < M"
  define flag where "flag = (\<lambda>q. if waitall_error (denv q) then 0 else 1 :: int)"
  define out where "out = DatatypeCommunicator_sendRecv (denv k) (dc k) (reqs k)"
  have fl: "dt_success out = flag k"
    and ce: "dt_CommunicationError out = (MPI_Allreduce_MIN (dt_success out) (peer_success (denv k)) = 0)"
    by (auto simp: out_def flag_def DatatypeCommunicator_sendRecv_def Let_def waitall_error_def)
  have ps: "peer_success (denv k) = others M k flag"
    using assms(5) k by (simp add: flag_def)
  have "\<forall>q < M. flag q \<in> {0, 1}" by (simp add: flag_def)
  from group_reduction [OF this k]
  have g: "(MPI_Allreduce_MIN (flag k) (others M k flag) = 0) = (\<exists>q < M. flag q = 0)" .
  have z: "(flag q = 0) = waitall_error (denv q)" for q
    by (simp add: flag_def)
  have "dt_CommunicationError out = (\<exists>q < M. waitall_error (denv q))"
    unfolding ce fl ps g by (simp only: z)
  then show "let out = DatatypeCommunicator_sendRecv (denv k) (dc k) (reqs k)
             in dt_success out = (if waitall_error (denv k) then 0 else 1) \<and>
                dt_CommunicationError out =
                  (MPI_Allreduce_MIN (dt_success out) (peer_success (denv k)) = 0) \<and>
                dt_CommunicationError out = (\<exists>q < M. waitall_error (denv q))"
    unfolding Let_def out_def [symmetric] using fl ce by (simp add: flag_def)
qed

lemma all_less_three: "(\<forall>k < (3::nat). P k) = (P 0 \<and> P 1 \<and> P 2)"
proof -
  have "k < 3 \<longleftrightarrow> k = 0 \<or> k = 1 \<or> k = 2" for k :: nat by auto
  then show ?thesis by auto
qed

text \<open>
  Three processes of the buffered communicator, of which one has a failed receive and one
  a failed send, and two of the datatype communicator, of which one has a failed wait.
  All of them throw.
\<close>

theorem C4_collective_failure_witness:
  "prepared 8 (trio_policy 0) True (trio_interface 0) (trio_comm 0) blocks_example blocks_example \<and>
   prepared 8 (trio_policy 1) True (trio_interface 1) (trio_comm 1) blocks_example blocks_example \<and>
   prepared 8 (trio_policy 2) True (trio_interface 2) (trio_comm 2) blocks_example blocks_example \<and>
   transport_error (trio_env 0) (length (trio_interface 0)) \<and>
   transport_error (trio_env 1) (length (trio_interface 1)) \<and>
   \<not> transport_error (trio_env 2) (length (trio_interface 2)) \<and>
   map_option (\<lambda>out. (local_success out, CommunicationError out))
     (exchange (trio_env 0) True 8 (trio_policy 0) True (trio_comm 0) blocks_example blocks_example) =
     Some (0, True) \<and>
   map_option (\<lambda>out. (local_success out, CommunicationError out))
     (exchange (trio_env 1) True 8 (trio_policy 1) True (trio_comm 1) blocks_example blocks_example) =
     Some (0, True) \<and>
   map_option (\<lambda>out. (local_success out, CommunicationError out))
     (exchange (trio_env 2) True 8 (trio_policy 2) True (trio_comm 2) blocks_example blocks_example) =
     Some (1, True) \<and>
   waitall_error (group_env 0) \<and> \<not> waitall_error (group_env 1) \<and>
   dt_success (DatatypeCommunicator_forward (group_env 0) group_dc) = 0 \<and>
   dt_CommunicationError (DatatypeCommunicator_forward (group_env 0) group_dc) \<and>
   dt_success (DatatypeCommunicator_forward (group_env 1) group_dc) = 1 \<and>
   dt_CommunicationError (DatatypeCommunicator_forward (group_env 1) group_dc)"
proof -
  have kl: "keeps_layout (trio_policy k)" for k
    by (simp add: keeps_layout_def trio_policy_def block_scatter_size)
  have s0: "std_map (trio_interface 0)" and s1: "std_map (trio_interface 1)"
    and s2: "std_map (trio_interface 2)"
    by code_simp+
  have p0: "planned 8 (count (trio_policy 0) blocks_example) (count (trio_policy 0) blocks_example)
              (trio_interface 0) (trio_comm 0)"
    by code_simp
  have p1: "planned 8 (count (trio_policy 1) blocks_example) (count (trio_policy 1) blocks_example)
              (trio_interface 1) (trio_comm 1)"
    by code_simp
  have p2: "planned 8 (count (trio_policy 2) blocks_example) (count (trio_policy 2) blocks_example)
              (trio_interface 2) (trio_comm 2)"
    by code_simp
  have r0: "prepared 8 (trio_policy 0) True (trio_interface 0) (trio_comm 0) blocks_example blocks_example"
    and r1: "prepared 8 (trio_policy 1) True (trio_interface 1) (trio_comm 1) blocks_example blocks_example"
    and r2: "prepared 8 (trio_policy 2) True (trio_interface 2) (trio_comm 2) blocks_example blocks_example"
    using kl s0 s1 s2 p0 p1 p2 by (simp_all add: prepared_def)
  have h1: "\<forall>k < 3. prepared 8 (trio_policy k) True (trio_interface k) (trio_comm k)
                      blocks_example blocks_example"
    unfolding all_less_three using r0 r1 r2 by blast
  have h3: "\<forall>k < 3. \<forall>i < length (trio_interface k). \<exists>f < length (trio_interface k).
              fst (MPI_Waitany (trio_env k) i) = Some f"
    by (simp add: trio_env_def)
  have t0: "transport_error (trio_env 0) (length (trio_interface 0))"
    and t1: "transport_error (trio_env 1) (length (trio_interface 1))"
    and t2: "\<not> transport_error (trio_env 2) (length (trio_interface 2))"
    by code_simp+
  have w0: "waitall_error (group_env 0)" and w1: "\<not> waitall_error (group_env 1)"
    by (simp_all add: waitall_error_def group_env_def)
  have o: "others 3 0 f = [f 1, f 2]" "others 3 1 f = [f 0, f 2]" "others 3 2 f = [f 0, f 1]"
    "others 2 0 f = [f 1]" "others 2 1 f = [f 0]"
    for f :: "nat \<Rightarrow> int"
    by (simp_all add: others_def upt_rec eval_nat_numeral)
  have ps: "peer_success (trio_env 0) = [0, 1]" "peer_success (trio_env 1) = [0, 1]"
    "peer_success (trio_env 2) = [0, 0]"
    by (simp_all add: trio_env_def)
  have h4: "\<forall>k < 3. peer_success (trio_env k) =
              others 3 k (\<lambda>q. if transport_error (trio_env q) (length (trio_interface q)) then 0 else 1)"
    unfolding all_less_three o ps using t0 t1 t2 by simp
  have dps: "peer_success (group_env 0) = [1]" "peer_success (group_env 1) = [0]"
    by (simp_all add: group_env_def)
  have h5: "\<forall>k < 2. peer_success (group_env k) =
              others 2 k (\<lambda>q. if waitall_error (group_env q) then 0 else 1)"
    unfolding all_less_two o dps using w0 w1 by simp
  have h2: "(0::nat) < 8" by simp
  note r = C4_collective_failure [where N = 3 and M = 2 and p = trio_policy and FORWARD = True
      and iface = trio_interface and c = trio_comm and source = "\<lambda>_. blocks_example"
      and dest = "\<lambda>_. blocks_example" and env = trio_env and denv = group_env and sz = 8
      and checked = True and dc = "\<lambda>_. group_dc" and reqs = "\<lambda>_. snd (requests group_dc)",
      OF h1 h2 h3 h4 h5, unfolded all_less_three all_less_two Let_def]
  have x: "\<exists>q < 3. transport_error (trio_env q) (length (trio_interface q))"
    using t0 by (intro exI [of _ 0]) simp
  have y: "\<exists>q < (2::nat). waitall_error (group_env q)"
    using w0 by (intro exI [of _ 0]) simp
  from r obtain out0 where
    e0: "exchange (trio_env 0) True 8 (trio_policy 0) True (trio_comm 0) blocks_example blocks_example =
           Some out0"
    and l0: "local_success out0 =
               (if transport_error (trio_env 0) (length (trio_interface 0)) then 0 else 1)"
    and c0: "CommunicationError out0 =
               (\<exists>q < 3. transport_error (trio_env q) (length (trio_interface q)))"
    by blast
  from r obtain out1 where
    e1: "exchange (trio_env 1) True 8 (trio_policy 1) True (trio_comm 1) blocks_example blocks_example =
           Some out1"
    and l1: "local_success out1 =
               (if transport_error (trio_env 1) (length (trio_interface 1)) then 0 else 1)"
    and c1: "CommunicationError out1 =
               (\<exists>q < 3. transport_error (trio_env q) (length (trio_interface q)))"
    by blast
  from r obtain out2 where
    e2: "exchange (trio_env 2) True 8 (trio_policy 2) True (trio_comm 2) blocks_example blocks_example =
           Some out2"
    and l2: "local_success out2 =
               (if transport_error (trio_env 2) (length (trio_interface 2)) then 0 else 1)"
    and c2: "CommunicationError out2 =
               (\<exists>q < 3. transport_error (trio_env q) (length (trio_interface q)))"
    by blast
  have b0: "map_option (\<lambda>out. (local_success out, CommunicationError out))
     (exchange (trio_env 0) True 8 (trio_policy 0) True (trio_comm 0) blocks_example blocks_example) =
     Some (0, True)"
    unfolding e0 using l0 c0 t0 x by simp
  have b1: "map_option (\<lambda>out. (local_success out, CommunicationError out))
     (exchange (trio_env 1) True 8 (trio_policy 1) True (trio_comm 1) blocks_example blocks_example) =
     Some (0, True)"
    unfolding e1 using l1 c1 t1 x by simp
  have b2: "map_option (\<lambda>out. (local_success out, CommunicationError out))
     (exchange (trio_env 2) True 8 (trio_policy 2) True (trio_comm 2) blocks_example blocks_example) =
     Some (1, True)"
    unfolding e2 using l2 c2 t2 x by simp
  have d0: "dt_success (DatatypeCommunicator_forward (group_env 0) group_dc) = 0"
    and d0': "dt_CommunicationError (DatatypeCommunicator_forward (group_env 0) group_dc)"
    and d1: "dt_success (DatatypeCommunicator_forward (group_env 1) group_dc) = 1"
    and d1': "dt_CommunicationError (DatatypeCommunicator_forward (group_env 1) group_dc)"
  proof -
    note rd0 = r [THEN conjunct2, THEN conjunct1] and rd1 = r [THEN conjunct2, THEN conjunct2]
    show "dt_success (DatatypeCommunicator_forward (group_env 0) group_dc) = 0"
      unfolding DatatypeCommunicator_forward_def using rd0 [THEN conjunct1] w0 by (simp only: if_True)
    show "dt_CommunicationError (DatatypeCommunicator_forward (group_env 0) group_dc)"
      unfolding DatatypeCommunicator_forward_def
      using rd0 [THEN conjunct2, THEN conjunct2] y by (simp only:)
    show "dt_success (DatatypeCommunicator_forward (group_env 1) group_dc) = 1"
      unfolding DatatypeCommunicator_forward_def using rd1 [THEN conjunct1] w1 by (simp only: if_False)
    show "dt_CommunicationError (DatatypeCommunicator_forward (group_env 1) group_dc)"
      unfolding DatatypeCommunicator_forward_def
      using rd1 [THEN conjunct2, THEN conjunct2] y by (simp only:)
  qed
  show ?thesis
    using r0 r1 r2 t0 t1 t2 b0 b1 b2 w0 w1 d0 d0' d1 d1' by simp
qed

text \<open>
  Claim C4 as it is stated fails when a call of \<open>MPI_Waitany\<close> reports an error in the
  status and \<open>MPI_UNDEFINED\<close> as the request: the process has a transport error, but the
  assertion \<open>finished != MPI_UNDEFINED\<close> ends it before it sets its flag, takes part in
  the reduction or throws \<open>CommunicationError\<close>.
\<close>

theorem C4_undefined_request_counterexample:
  "prepared 8 (SizeOne CopyGatherScatter_gather CopyGatherScatter_scatter) True interface_first
     (build_SizeOne env_undefined 8 0 interface_first BufferedCommunicator) [10, 11] [20, 21] \<and>
   transport_error env_undefined (length interface_first) \<and>
   exchange env_undefined True 8 (SizeOne CopyGatherScatter_gather CopyGatherScatter_scatter) True
     (build_SizeOne env_undefined 8 0 interface_first BufferedCommunicator) [10, 11] [20, 21] = None"
proof -
  have s: "std_map interface_first" by code_simp
  have p: "planned 8 length length interface_first
             (build_SizeOne env_undefined 8 (0::int) interface_first BufferedCommunicator)"
    by (rule planned_build_SizeOne [OF s]) (simp_all add: BufferedCommunicator_def)
  have c: "count (SizeOne CopyGatherScatter_gather CopyGatherScatter_scatter) d = length"
    for d :: "int list"
    by (simp add: fun_eq_iff count_def)
  have 1: "prepared 8 (SizeOne CopyGatherScatter_gather CopyGatherScatter_scatter) True interface_first
     (build_SizeOne env_undefined 8 0 interface_first BufferedCommunicator) [10, 11] [20, 21]"
    using s p by (simp add: prepared_def keeps_layout_def c)
  have 2: "transport_error env_undefined (length interface_first)" by code_simp
  have 3: "exchange env_undefined True 8 (SizeOne CopyGatherScatter_gather CopyGatherScatter_scatter) True
     (build_SizeOne env_undefined 8 0 interface_first BufferedCommunicator) [10, 11] [20, 21] = None"
    by code_simp
  show ?thesis using 1 2 3 by simp
qed

section \<open>Exchanges with the Copy policy\<close>

lemma scatter_list_Copy_Nil [simp]:
  "scatter_list CopyGatherScatter_scatter d vals [] = d"
  "scatter_list CopyGatherScatter_scatter d [] poss = d"
  by (simp_all add: scatter_list_def)

lemma scatter_list_Copy_Cons [simp]:
  "scatter_list CopyGatherScatter_scatter d (v # vals) (p # poss) =
     scatter_list CopyGatherScatter_scatter (d[p := v]) vals poss"
  by (simp add: scatter_list_def CopyGatherScatter_scatter_def)





























section \<open>The round trip of the Copy policy\<close>




end
